theory Spec2Isabelle
  imports Main "HOL-Library.AList"
begin

section \<open>The process environment\<close>

text \<open>
  The operating system's environment variables, as \<open>os.LookupEnv\<close> sees them at the
  moment of a call: \<open>None\<close> is an unset variable, \<open>Some ''''\<close> one that is set to the
  empty string.
\<close>

type_synonym osenv = "string \<rightharpoonup> string"

section \<open>internal/featureflags\<close>

record FeatureFlag =
  envName :: string
  defaultEnabled :: bool

definition New :: "string \<Rightarrow> bool \<Rightarrow> FeatureFlag" where
  "New n d = \<lparr>envName = n, defaultEnabled = d\<rparr>"

text \<open>
  \<open>strings.ToLower\<close> on the bytes of the string: the ASCII capitals move down by 32;
  every other byte is kept (Go never maps a character outside ASCII to one of the ASCII
  letters or digits that \<open>ParseBool\<close> accepts).
\<close>

definition toLowerChar :: "char \<Rightarrow> char" where
  "toLowerChar c =
     (if (65::nat) \<le> of_char c \<and> of_char c \<le> (90::nat)
      then char_of (of_char c + (32::nat)) else c)"

definition ToLower :: "string \<Rightarrow> string" where
  "ToLower s = map toLowerChar s"

text \<open>\<open>strconv.ParseBool\<close>: the twelve accepted spellings, anything else is a syntax error.\<close>

definition ParseBool :: "string \<Rightarrow> bool option" where
  "ParseBool str =
     (if str \<in> set [''1'', ''t'', ''T'', ''TRUE'', ''true'', ''True''] then Some True
      else if str \<in> set [''0'', ''f'', ''F'', ''FALSE'', ''false'', ''False''] then Some False
      else None)"

text \<open>
  \<open>FeatureFlag.Enabled\<close> looks the variable up in the environment of the moment it is
  called; an unparsable value logs a warning and gives the default.
\<close>

definition Enabled :: "FeatureFlag \<Rightarrow> osenv \<Rightarrow> bool" where
  "Enabled ff env =
     (case env (envName ff) of
        Some val \<Rightarrow>
          (case ParseBool (ToLower val) of
             None \<Rightarrow> defaultEnabled ff
           | Some enabled \<Rightarrow> enabled)
      | None \<Rightarrow> defaultEnabled ff)"

definition DependencyGraphBasedDeploy :: FeatureFlag where
  "DependencyGraphBasedDeploy =
     \<lparr>envName = ''MONACO_FEAT_GRAPH_DEPLOY'', defaultEnabled = False\<rparr>"

section \<open>Go strings\<close>

definition HasSuffix :: "string \<Rightarrow> string \<Rightarrow> bool" where
  "HasSuffix s suffix =
     (length suffix \<le> length s \<and> drop (length s - length suffix) s = suffix)"

text \<open>\<open>strings.TrimSuffix\<close>: one occurrence of the suffix is cut, if the string ends in it.\<close>

definition TrimSuffix :: "string \<Rightarrow> string \<Rightarrow> string" where
  "TrimSuffix s suffix =
     (if HasSuffix s suffix then take (length s - length suffix) s else s)"

section \<open>pkg/manifest: the manifest as read from YAML\<close>

text \<open>
  The YAML structures of the manifest file. A Go pointer field that may be nil is an
  \<open>option\<close>. Field names carry a prefix where two structures of the source share a
  field name.
\<close>

record url =
  u_Type :: string
  u_Value :: string

record authSecret =
  s_Type :: string
  s_Name :: string

record oAuth =
  o_ClientID :: authSecret
  o_ClientSecret :: authSecret
  o_TokenEndpoint :: "url option"

record auth =
  a_Token :: authSecret
  a_OAuth :: "oAuth option"

record environment =
  e_Name :: string
  e_URL :: url
  e_Auth :: auth

record group =
  g_Name :: string
  g_Environments :: "environment list"

record project =
  p_Name :: string
  p_Type :: string
  p_Path :: string

record manifest =
  ManifestVersion :: string
  Projects :: "project list"
  EnvironmentGroups :: "group list"

text \<open>
  Modelled from the spec: the string constants \<open>urlTypeValue\<close>, \<open>urlTypeEnvironment\<close> and
  \<open>typeEnvironment\<close> of the YAML schema are declared in another file of the package; the
  spec gives \<open>url: { type: value|environment, value }\<close>, and the loader's own message says
  a secret's type must be 'environment'.
\<close>

definition urlTypeValue :: string where
  "urlTypeValue = ''value''"

definition urlTypeEnvironment :: string where
  "urlTypeEnvironment = ''environment''"

definition typeEnvironment :: string where
  "typeEnvironment = ''environment''"

section \<open>pkg/manifest: the loaded manifest\<close>

datatype URLType = ValueURLType | EnvironmentURLType

record URLDefinition =
  ud_Type :: URLType
  ud_Name :: string
  ud_Value :: string

record AuthSecret =
  as_Name :: string
  as_Value :: string

record OAuth =
  ClientID :: AuthSecret
  ClientSecret :: AuthSecret
  TokenEndpoint :: "URLDefinition option"

record Auth =
  Token :: AuthSecret
  OAuth :: "OAuth option"

record EnvironmentDefinition =
  ed_Name :: string
  ed_URL :: URLDefinition
  ed_Auth :: Auth
  ed_Group :: string

record ProjectDefinition =
  pd_Name :: string
  pd_Group :: string
  pd_Path :: string

text \<open>
  A Go map that some code ranges over is an association list with one entry per key; the
  position in the list stands for the order in which \<open>range\<close> visits the keys, which Go
  leaves open, so every statement about such a loop is made for every list.
\<close>

record Manifest =
  m_Projects :: "(string \<times> ProjectDefinition) list"
  m_Environments :: "(string \<times> EnvironmentDefinition) list"

definition empty_Manifest :: Manifest where
  "empty_Manifest = \<lparr>m_Projects = [], m_Environments = []\<rparr>"

record LoaderOptions =
  DontResolveEnvVars :: bool

record LoaderContext =
  lc_ManifestPath :: string
  lc_Environments :: "string list"
  lc_Groups :: "string list"
  lc_Opts :: LoaderOptions

subsection \<open>Errors of the loader\<close>

text \<open>
  Every \<open>errors.New\<close> and \<open>fmt.Errorf\<close> of the loader is one constructor, carrying the
  values its message is formatted from; \<open>%w\<close> wrapping is a constructor over the wrapped
  error. The version parser's own error is kept as its message.
\<close>

datatype merror =
    NoUrlConfigured
  | UrlEnvVarNotFound string
  | UrlEnvVarEmpty string
  | InvalidURLType string
  | SecretTypeNotEnvironment
  | SecretNoName
  | SecretEnvVarNotFound string
  | SecretEnvVarEmpty string
  | ErrParsingToken merror
  | ErrParseOAuth merror
  | ErrParseClientID merror
  | ErrParseClientSecret merror
  | ErrParseTokenEndpoint merror
  | ManifestVersionMissing
  | ManifestVersionInvalid string
  | ManifestVersionNoLongerSupported string
  | ManifestVersionNotSupported string
  | NoProjectsDefined
  | NoEnvironmentGroupsDefined

datatype reason =
    InvalidManifestDefinition merror
  | NoProjectsInManifest
  | NoEnvironmentsInManifest
  | MissingGroupName nat
  | DuplicatedGroupName string
  | MissingEnvironmentName string nat
  | DuplicatedEnvironmentName string
  | RequestedGroupNotFound string
  | RequestedEnvironmentNotFound string
  | FailedToParseAuth merror
  | ErrorText merror
  | OtherReason string

record EnvironmentDetails =
  det_Group :: string
  det_Environment :: string

datatype lerror =
    ManifestLoaderError string reason
  | EnvironmentLoaderError string reason EnvironmentDetails
  | ProjectLoaderError string reason string

definition newManifestLoaderError :: "string \<Rightarrow> reason \<Rightarrow> lerror" where
  "newManifestLoaderError path reason = ManifestLoaderError path reason"

definition newManifestEnvironmentLoaderError ::
  "string \<Rightarrow> string \<Rightarrow> string \<Rightarrow> reason \<Rightarrow> lerror" where
  "newManifestEnvironmentLoaderError manifest grp env reason =
     EnvironmentLoaderError manifest reason \<lparr>det_Group = grp, det_Environment = env\<rparr>"

subsection \<open>Version validation\<close>

text \<open>
  The version package (\<open>ParseVersion\<close>, \<open>SmallerThan\<close>, \<open>GreaterThan\<close>) and the two
  version constants are declared outside the loader's file; they are arguments of the
  model. \<open>'v\<close> is the type of a parsed version; a parse error is its message.
\<close>

record 'v versioning =
  ParseVersion :: "string \<Rightarrow> string + 'v"
  SmallerThan :: "'v \<Rightarrow> 'v \<Rightarrow> bool"
  GreaterThan :: "'v \<Rightarrow> 'v \<Rightarrow> bool"
  minSupportedManifestVersion :: 'v
  maxSupportedManifestVersion :: 'v

definition validateManifestVersion ::
  "'v versioning \<Rightarrow> string \<Rightarrow> merror option" where
  "validateManifestVersion vp manifestVersion =
     (if length manifestVersion = 0 then Some ManifestVersionMissing
      else case ParseVersion vp manifestVersion of
        Inl err \<Rightarrow> Some (ManifestVersionInvalid err)
      | Inr v \<Rightarrow>
          if SmallerThan vp v (minSupportedManifestVersion vp)
          then Some (ManifestVersionNoLongerSupported manifestVersion)
          else if GreaterThan vp v (maxSupportedManifestVersion vp)
          then Some (ManifestVersionNotSupported manifestVersion)
          else None)"

definition verifyManifestYAML :: "'v versioning \<Rightarrow> manifest \<Rightarrow> merror list" where
  "verifyManifestYAML vp m =
     (case validateManifestVersion vp (ManifestVersion m) of
        Some err \<Rightarrow> [err] | None \<Rightarrow> [])
     @ (if length (Projects m) = 0 then [NoProjectsDefined] else [])
     @ (if length (EnvironmentGroups m) = 0 then [NoEnvironmentGroupsDefined] else [])"

subsection \<open>Secrets, URLs and environments\<close>

definition parseURLDefinition ::
  "LoaderContext \<Rightarrow> osenv \<Rightarrow> url \<Rightarrow> merror + URLDefinition" where
  "parseURLDefinition context osenv u =
     (if u_Value u = '''' then Inl NoUrlConfigured
      else if u_Type u = '''' \<or> u_Type u = urlTypeValue then
        Inr \<lparr>ud_Type = ValueURLType, ud_Name = '''', ud_Value = TrimSuffix (u_Value u) ''/''\<rparr>
      else if u_Type u = urlTypeEnvironment then
        (if DontResolveEnvVars (lc_Opts context) then
           Inr \<lparr>ud_Type = EnvironmentURLType, ud_Name = u_Value u,
                ud_Value = ''SKIPPED RESOLUTION OF ENV_VAR: '' @ u_Value u\<rparr>
         else case osenv (u_Value u) of
           None \<Rightarrow> Inl (UrlEnvVarNotFound (u_Value u))
         | Some val \<Rightarrow>
             if val = '''' then Inl (UrlEnvVarEmpty (u_Value u))
             else Inr \<lparr>ud_Type = EnvironmentURLType, ud_Name = u_Value u,
                       ud_Value = TrimSuffix val ''/''\<rparr>)
      else Inl (InvalidURLType (u_Type u)))"

definition parseAuthSecret ::
  "LoaderContext \<Rightarrow> osenv \<Rightarrow> authSecret \<Rightarrow> merror + AuthSecret" where
  "parseAuthSecret context osenv s =
     (if \<not> (s_Type s = typeEnvironment \<or> s_Type s = '''') then Inl SecretTypeNotEnvironment
      else if s_Name s = '''' then Inl SecretNoName
      else if DontResolveEnvVars (lc_Opts context) then
        Inr \<lparr>as_Name = s_Name s, as_Value = ''SKIPPED RESOLUTION OF ENV_VAR: '' @ s_Name s\<rparr>
      else case osenv (s_Name s) of
        None \<Rightarrow> Inl (SecretEnvVarNotFound (s_Name s))
      | Some v \<Rightarrow>
          if v = '''' then Inl (SecretEnvVarEmpty (s_Name s))
          else Inr \<lparr>as_Name = s_Name s, as_Value = v\<rparr>)"

definition parseOAuth :: "LoaderContext \<Rightarrow> osenv \<Rightarrow> oAuth \<Rightarrow> merror + OAuth" where
  "parseOAuth context osenv a =
     (case parseAuthSecret context osenv (o_ClientID a) of
        Inl err \<Rightarrow> Inl (ErrParseClientID err)
      | Inr clientID \<Rightarrow>
          (case parseAuthSecret context osenv (o_ClientSecret a) of
             Inl err \<Rightarrow> Inl (ErrParseClientSecret err)
           | Inr clientSecret \<Rightarrow>
               (case o_TokenEndpoint a of
                  Some te \<Rightarrow>
                    (case parseURLDefinition context osenv te of
                       Inl err \<Rightarrow> Inl (ErrParseTokenEndpoint err)
                     | Inr urlDef \<Rightarrow>
                         Inr \<lparr>ClientID = clientID, ClientSecret = clientSecret,
                              TokenEndpoint = Some urlDef\<rparr>)
                | None \<Rightarrow>
                    Inr \<lparr>ClientID = clientID, ClientSecret = clientSecret,
                         TokenEndpoint = None\<rparr>)))"

definition parseAuth :: "LoaderContext \<Rightarrow> osenv \<Rightarrow> auth \<Rightarrow> merror + Auth" where
  "parseAuth context osenv a =
     (case parseAuthSecret context osenv (a_Token a) of
        Inl err \<Rightarrow> Inl (ErrParsingToken err)
      | Inr token \<Rightarrow>
          (case a_OAuth a of
             None \<Rightarrow> Inr \<lparr>Token = token, OAuth = None\<rparr>
           | Some oa \<Rightarrow>
               (case parseOAuth context osenv oa of
                  Inl err \<Rightarrow> Inl (ErrParseOAuth err)
                | Inr o' \<Rightarrow> Inr \<lparr>Token = token, OAuth = Some o'\<rparr>)))"

text \<open>
  \<open>parseEnvironment\<close> returns the definition or the list of errors; the list is never
  empty when the definition is missing.
\<close>

definition parseEnvironment ::
  "LoaderContext \<Rightarrow> osenv \<Rightarrow> environment \<Rightarrow> string \<Rightarrow> lerror list + EnvironmentDefinition"
  where
  "parseEnvironment context osenv config grp =
     (let ra = parseAuth context osenv (e_Auth config);
          ru = parseURLDefinition context osenv (e_URL config);
          errs =
            (case ra of
               Inl err \<Rightarrow>
                 [newManifestEnvironmentLoaderError (lc_ManifestPath context) grp (e_Name config)
                    (FailedToParseAuth err)]
             | Inr _ \<Rightarrow> [])
            @ (case ru of
                 Inl err \<Rightarrow>
                   [newManifestEnvironmentLoaderError (lc_ManifestPath context) grp
                      (e_Name config) (ErrorText err)]
               | Inr _ \<Rightarrow> [])
      in case (ra, ru) of
           (Inr a, Inr urlDef) \<Rightarrow>
             Inr \<lparr>ed_Name = e_Name config, ed_URL = urlDef, ed_Auth = a, ed_Group = grp\<rparr>
         | _ \<Rightarrow> Inl errs)"

definition shouldSkipEnv :: "LoaderContext \<Rightarrow> group \<Rightarrow> environment \<Rightarrow> bool" where
  "shouldSkipEnv context grp env =
     (if length (lc_Groups context) = 0 \<and> length (lc_Environments context) = 0 then False
      else if g_Name grp \<in> set (lc_Groups context) then False
      else if e_Name env \<in> set (lc_Environments context) then False
      else True)"

subsection \<open>toEnvironments\<close>

text \<open>The variables of \<open>toEnvironments\<close> that its two loops update.\<close>

record te_state =
  te_errors :: "lerror list"
  te_environments :: "(string \<times> EnvironmentDefinition) list"
  te_groupNames :: "string set"
  te_envNames :: "string set"

text \<open>One turn of the inner loop, over the environments of a group.\<close>

definition envStep ::
  "LoaderContext \<Rightarrow> osenv \<Rightarrow> group \<Rightarrow> nat \<times> environment \<Rightarrow> te_state \<Rightarrow> te_state"
  where
  "envStep context osenv grp je st =
     (let j = fst je; env = snd je in
      if e_Name env = '''' then
        st\<lparr>te_errors := te_errors st @
             [newManifestLoaderError (lc_ManifestPath context)
                (MissingEnvironmentName (g_Name grp) j)]\<rparr>
      else if e_Name env \<in> te_envNames st then
        st\<lparr>te_errors := te_errors st @
             [newManifestLoaderError (lc_ManifestPath context)
                (DuplicatedEnvironmentName (e_Name env))]\<rparr>
      else
        (let st1 = st\<lparr>te_envNames := insert (e_Name env) (te_envNames st)\<rparr> in
         if shouldSkipEnv context grp env then st1
         else case parseEnvironment context osenv env (g_Name grp) of
           Inl configErrors \<Rightarrow> st1\<lparr>te_errors := te_errors st1 @ configErrors\<rparr>
         | Inr parsedEnv \<Rightarrow>
             st1\<lparr>te_environments :=
                   AList.update (ed_Name parsedEnv) parsedEnv (te_environments st1)\<rparr>))"

text \<open>One turn of the outer loop, over the groups.\<close>

definition groupStep ::
  "LoaderContext \<Rightarrow> osenv \<Rightarrow> nat \<times> group \<Rightarrow> te_state \<Rightarrow> te_state" where
  "groupStep context osenv ig st =
     (let i = fst ig; grp = snd ig;
          st1 = (if g_Name grp = '''' then
                   st\<lparr>te_errors := te_errors st @
                        [newManifestLoaderError (lc_ManifestPath context) (MissingGroupName i)]\<rparr>
                 else st);
          st2 = (if g_Name grp \<in> te_groupNames st1 then
                   st1\<lparr>te_errors := te_errors st1 @
                         [newManifestLoaderError (lc_ManifestPath context)
                            (DuplicatedGroupName (g_Name grp))]\<rparr>
                 else st1);
          st3 = st2\<lparr>te_groupNames := insert (g_Name grp) (te_groupNames st2)\<rparr>
      in fold (envStep context osenv grp) (enumerate 0 (g_Environments grp)) st3)"

definition requestedGroupErrors :: "LoaderContext \<Rightarrow> string set \<Rightarrow> lerror list" where
  "requestedGroupErrors context groupNames =
     map (\<lambda>g. newManifestLoaderError (lc_ManifestPath context) (RequestedGroupNotFound g))
       (filter (\<lambda>g. g \<notin> groupNames) (lc_Groups context))"

definition requestedEnvironmentErrors :: "LoaderContext \<Rightarrow> string set \<Rightarrow> lerror list" where
  "requestedEnvironmentErrors context envNames =
     map (\<lambda>e. newManifestLoaderError (lc_ManifestPath context) (RequestedEnvironmentNotFound e))
       (filter (\<lambda>e. e \<notin> envNames) (lc_Environments context))"

text \<open>
  \<open>toEnvironments\<close> returns the map of environments and the errors; with errors the map is
  nil (the empty list here).
\<close>

definition toEnvironments ::
  "LoaderContext \<Rightarrow> osenv \<Rightarrow> group list
     \<Rightarrow> (string \<times> EnvironmentDefinition) list \<times> lerror list" where
  "toEnvironments context osenv groups =
     (let st = fold (groupStep context osenv) (enumerate 0 groups)
                 \<lparr>te_errors = [], te_environments = [], te_groupNames = {}, te_envNames = {}\<rparr>;
          errors = te_errors st
                   @ requestedGroupErrors context (te_groupNames st)
                   @ requestedEnvironmentErrors context (te_envNames st)
      in if errors \<noteq> [] then ([], errors) else (te_environments st, []))"

subsection \<open>LoadManifest\<close>

text \<open>
  Reading and parsing the file (\<open>readManifestYAML\<close>) and turning the project entries into
  definitions (\<open>toProjectDefinitions\<close>, which lists directories) are the file system's part;
  their outcomes are arguments.
\<close>

definition LoadManifest ::
  "'v versioning \<Rightarrow> LoaderContext \<Rightarrow> osenv \<Rightarrow> lerror + manifest
     \<Rightarrow> (string \<times> ProjectDefinition) list \<times> lerror list
     \<Rightarrow> Manifest \<times> lerror list" where
  "LoadManifest vp context osenv readManifestYAML toProjectDefinitions =
     (case readManifestYAML of
        Inl err \<Rightarrow> (empty_Manifest, [err])
      | Inr manifestYAML \<Rightarrow>
          (let verrs = verifyManifestYAML vp manifestYAML in
           if verrs \<noteq> [] then
             (empty_Manifest,
              map (\<lambda>e. newManifestLoaderError (lc_ManifestPath context)
                          (InvalidManifestDefinition e)) verrs)
           else
             (let projectDefinitions = fst toProjectDefinitions;
                  projectErrors = snd toProjectDefinitions;
                  errs1 = (if projectErrors \<noteq> [] then projectErrors
                           else if length projectDefinitions = 0 then
                             [newManifestLoaderError (lc_ManifestPath context)
                                NoProjectsInManifest]
                           else []);
                  te = toEnvironments context osenv (EnvironmentGroups manifestYAML);
                  environmentDefinitions = fst te;
                  manifestErrors = snd te;
                  errs = errs1 @
                         (if manifestErrors \<noteq> [] then manifestErrors
                          else if length environmentDefinitions = 0 then
                            [newManifestLoaderError (lc_ManifestPath context)
                               NoEnvironmentsInManifest]
                          else [])
              in if errs \<noteq> [] then (empty_Manifest, errs)
                 else (\<lparr>m_Projects = projectDefinitions,
                        m_Environments = environmentDefinitions\<rparr>, []))))"

subsection \<open>Vocabulary for the loader's properties\<close>

text \<open>The group names and the environment names that the manifest defines.\<close>

definition definedGroupNames :: "group list \<Rightarrow> string set" where
  "definedGroupNames groups = g_Name ` set groups"

definition definedEnvironmentNames :: "group list \<Rightarrow> string set" where
  "definedEnvironmentNames groups = e_Name ` (\<Union>g \<in> set groups. set (g_Environments g))"

text \<open>The errors that report a requested group or environment as not found.\<close>

definition isRequestedNotFound :: "lerror \<Rightarrow> bool" where
  "isRequestedNotFound x =
     (case x of
        ManifestLoaderError p (RequestedGroupNotFound n) \<Rightarrow> True
      | ManifestLoaderError p (RequestedEnvironmentNotFound n) \<Rightarrow> True
      | _ \<Rightarrow> False)"

text \<open>The state of \<open>toEnvironments\<close> when its loops over the groups have ended.\<close>

definition loopState :: "LoaderContext \<Rightarrow> osenv \<Rightarrow> group list \<Rightarrow> te_state" where
  "loopState context osenv groups =
     fold (groupStep context osenv) (enumerate 0 groups)
       \<lparr>te_errors = [], te_environments = [], te_groupNames = {}, te_envNames = {}\<rparr>"

section \<open>pkg/config: coordinates and configurations\<close>

text \<open>
  Modelled from the spec: the declarations of \<open>Coordinate\<close>, \<open>Config\<close>, the configuration
  types and the parameters (packages \<open>pkg/config\<close>, \<open>pkg/config/coordinate\<close> and
  \<open>pkg/config/parameter\<close>) are missing. The spec gives the
  coordinate as the triple (Project, Type, ConfigId) with the canonical string form
  \<open>P:T:C\<close>, the configuration with its coordinate, type, template, parameters, skip flag,
  origin object id, environment and group, and a parameter as something that declares its
  references, each a \<open>ParameterReference{Coordinate, Property}\<close>. The field and constructor
  names are the ones the source files use.
\<close>

record Coordinate =
  Project :: string
  Type :: string
  ConfigId :: string

definition Coordinate_String :: "Coordinate \<Rightarrow> string" where
  "Coordinate_String c = Project c @ '':'' @ Type c @ '':'' @ ConfigId c"

record ParameterReference =
  ref_Config :: Coordinate
  ref_Property :: string

datatype Parameter = DummyParameter (References: "ParameterReference list")

datatype ConfigType =
    ClassicApiType string
  | SettingsType (SchemaId: string) (SchemaVersion: string)
  | AutomationType string
  | BucketType

record Config =
  cfg_Template :: string
  cfg_Coordinate :: Coordinate
  cfg_Group :: string
  cfg_Environment :: string
  cfg_Type :: ConfigType
  cfg_Parameters :: "(string \<times> Parameter) list"
  cfg_Skip :: bool
  cfg_OriginObjectId :: string

text \<open>
  Modelled from the spec: the method \<open>Config.References()\<close> is missing; by the spec's graph
  of references it gives the coordinates that the references of the configuration's
  parameters point to.
\<close>

definition Config_References :: "Config \<Rightarrow> Coordinate list" where
  "Config_References c =
     concat (map (\<lambda>np. map ref_Config (References (snd np))) (cfg_Parameters c))"

section \<open>pkg/project/v2: the project loader\<close>

record Project =
  pr_Id :: string
  pr_GroupId :: string
  pr_Configs :: "(string \<times> (string \<times> Config list) list) list"
  pr_Dependencies :: "(string \<times> string list) list"

definition empty_Project :: Project where
  "empty_Project = \<lparr>pr_Id = '''', pr_GroupId = '''', pr_Configs = [], pr_Dependencies = []\<rparr>"

text \<open>
  The errors of the project loader. The errors of the file system and of the
  configuration file loader come from outside and are kept as their messages.
\<close>

datatype perror =
    FailedToLoadProject string string string
  | ProjectPathDoesNotExist string string
  | FailedToWalkFiles string
  | ConfigLoaderError string
  | DuplicateConfigIdentifierError Coordinate EnvironmentDetails

definition newDuplicateConfigIdentifierError :: "Config \<Rightarrow> perror" where
  "newDuplicateConfigIdentifierError c =
     DuplicateConfigIdentifierError (cfg_Coordinate c)
       \<lparr>det_Group = cfg_Group c, det_Environment = cfg_Environment c\<rparr>"

text \<open>
  What the loader gets from the file system and from the configuration file loader:
  \<open>afero.Exists\<close>, the files that \<open>findConfigFiles\<close> collects while walking the project's
  directory, and \<open>loader.LoadConfig\<close> for one file.
\<close>

record ProjectFs =
  fs_Exists :: "string \<Rightarrow> string + bool"
  fs_findConfigFiles :: "string \<Rightarrow> string + string list"
  fs_LoadConfig ::
    "ProjectDefinition \<Rightarrow> EnvironmentDefinition list \<Rightarrow> string \<Rightarrow> Config list \<times> perror list"

record ProjectLoaderContext =
  plc_WorkingDir :: string
  plc_Manifest :: Manifest

definition toFullyQualifiedConfigIdentifier :: "Config \<Rightarrow> string" where
  "toFullyQualifiedConfigIdentifier config =
     cfg_Group config @ '':'' @ cfg_Environment config @ '':''
       @ Coordinate_String (cfg_Coordinate config)"

text \<open>
  The loop of \<open>findDuplicatedConfigIdentifiers\<close>, with its two variables: the identifiers
  seen so far and the duplicates collected so far.
\<close>

fun findDuplicatedLoop :: "Config list \<Rightarrow> string set \<Rightarrow> Config list \<Rightarrow> Config list" where
  "findDuplicatedLoop [] coordinates duplicates = duplicates"
| "findDuplicatedLoop (c # cs) coordinates duplicates =
     (let id = toFullyQualifiedConfigIdentifier c in
      findDuplicatedLoop cs (insert id coordinates)
        (if id \<in> coordinates then duplicates @ [c] else duplicates))"

definition findDuplicatedConfigIdentifiers :: "Config list \<Rightarrow> Config list" where
  "findDuplicatedConfigIdentifiers configs = findDuplicatedLoop configs {} []"

fun containsProject :: "string list \<Rightarrow> string \<Rightarrow> bool" where
  "containsProject [] project = False"
| "containsProject (p # projects) project =
     (if p = project then True else containsProject projects project)"

text \<open>Reading a key of a Go map of slices: a missing key reads as the nil slice.\<close>

definition lookupList :: "('k \<times> 'a list) list \<Rightarrow> 'k \<Rightarrow> 'a list" where
  "lookupList m k = (case map_of m k of None \<Rightarrow> [] | Some xs \<Rightarrow> xs)"

definition toDependenciesMap :: "string \<Rightarrow> Config list \<Rightarrow> (string \<times> string list) list" where
  "toDependenciesMap projectId configs =
     fold (\<lambda>c result.
        if cfg_Skip c then result
        else fold (\<lambda>ref result.
               if projectId = Project ref then result
               else if \<not> containsProject (lookupList result (cfg_Environment c)) (Project ref)
               then AList.update (cfg_Environment c)
                      (lookupList result (cfg_Environment c) @ [Project ref]) result
               else result)
             (Config_References c) result)
       configs []"

definition loadConfigsOfProject ::
  "ProjectFs \<Rightarrow> ProjectLoaderContext \<Rightarrow> ProjectDefinition \<Rightarrow> EnvironmentDefinition list
     \<Rightarrow> Config list \<times> perror list" where
  "loadConfigsOfProject fs loadingContext projectDefinition environments =
     (case fs_findConfigFiles fs (pd_Path projectDefinition) of
        Inl err \<Rightarrow> ([], [FailedToWalkFiles err])
      | Inr configFiles \<Rightarrow>
          fold (\<lambda>file (configs, errs).
                  (let r = fs_LoadConfig fs projectDefinition environments file
                   in (configs @ fst r, errs @ snd r)))
            configFiles ([], []))"

text \<open>The map of configurations per environment and type, filled in the order of loading.\<close>

definition addToConfigMap ::
  "Config \<Rightarrow> (string \<times> (string \<times> Config list) list) list
     \<Rightarrow> (string \<times> (string \<times> Config list) list) list" where
  "addToConfigMap conf configMap =
     (let perType = lookupList configMap (cfg_Environment conf);
          ty = Type (cfg_Coordinate conf)
      in AList.update (cfg_Environment conf)
           (AList.update ty (lookupList perType ty @ [conf]) perType) configMap)"

text \<open>
  \<open>loadProject\<close> returns a project and a list of errors; with errors the project is the
  zero value \<open>Project{}\<close>, which the caller drops.
\<close>

definition loadProject ::
  "ProjectFs \<Rightarrow> ProjectLoaderContext \<Rightarrow> ProjectDefinition \<Rightarrow> EnvironmentDefinition list
     \<Rightarrow> Project \<times> perror list" where
  "loadProject fs context projectDefinition environments =
     (case fs_Exists fs (pd_Path projectDefinition) of
        Inl err \<Rightarrow>
          (empty_Project,
           [FailedToLoadProject (pd_Name projectDefinition) (pd_Path projectDefinition) err])
      | Inr exists \<Rightarrow>
          if \<not> exists then
            (empty_Project,
             [ProjectPathDoesNotExist (pd_Name projectDefinition) (pd_Path projectDefinition)])
          else
            (let loaded = loadConfigsOfProject fs context projectDefinition environments;
                 configs = fst loaded;
                 errors = snd loaded
                   @ map newDuplicateConfigIdentifierError
                       (findDuplicatedConfigIdentifiers configs)
             in if errors \<noteq> [] then (empty_Project, errors)
                else (\<lparr>pr_Id = pd_Name projectDefinition,
                       pr_GroupId = pd_Group projectDefinition,
                       pr_Configs = fold addToConfigMap configs [],
                       pr_Dependencies =
                         toDependenciesMap (pd_Name projectDefinition) configs\<rparr>, [])))"

definition toEnvironmentSlice ::
  "(string \<times> EnvironmentDefinition) list \<Rightarrow> EnvironmentDefinition list" where
  "toEnvironmentSlice environments = map snd environments"

text \<open>
  \<open>LoadProjects\<close>: the loop keeps the projects loaded so far and the errors so far; a
  project with errors adds its errors and is not kept.
\<close>

definition LoadProjects ::
  "ProjectFs \<Rightarrow> ProjectLoaderContext \<Rightarrow> Project list \<times> perror list" where
  "LoadProjects fs context =
     (let environments = toEnvironmentSlice (m_Environments (plc_Manifest context));
          r = fold (\<lambda>kv (projects, errors).
                      (let lp = loadProject fs context (snd kv) environments
                       in if snd lp \<noteq> [] then (projects, errors @ snd lp)
                          else (projects @ [fst lp], errors)))
                (m_Projects (plc_Manifest context)) ([], [])
      in if snd r \<noteq> [] then ([], snd r) else (fst r, []))"

section \<open>cmd/monaco/deploy\<close>

text \<open>
  The errors that \<open>deployConfigs\<close> and its helpers create, one constructor for each
  message, carrying the values the message is formatted from. Errors of the deployment
  itself come from outside and are kept as their messages.
\<close>

datatype derror =
    AbsPathError string string
  | ErrLoadingManifest
  | ErrVerifyEnvironmentGeneration
  | ErrLoadingProjects
  | ErrLoadingRelevantProjects derror
  | NoProjectWithNames "string list"
  | UnknownDependencyProjects "string list"
  | CannotFindEnvironment string
  | NotPlatformEnvironment string Coordinate
  | FailedToCreateAPIClients string
  | FailedToCreateClientsFor string string
  | ErrDuringConfigurationSort
  | ErrorsDuring bool
  | DeploymentError string

subsection \<open>Selecting the projects\<close>

text \<open>
  The loop of \<open>filterProjectsByName\<close>: the names found so far and the ids collected so
  far.
\<close>

fun filterByNameLoop ::
  "Project list \<Rightarrow> string list \<Rightarrow> string set \<Rightarrow> string list \<Rightarrow> string set \<times> string list"
  where
  "filterByNameLoop [] names foundProjects result = (foundProjects, result)"
| "filterByNameLoop (p # ps) names foundProjects result =
     (if pr_Id p \<in> set names then
        filterByNameLoop ps names (insert (pr_Id p) foundProjects) (result @ [pr_Id p])
      else if pr_GroupId p \<in> set names then
        filterByNameLoop ps names (insert (pr_GroupId p) foundProjects) (result @ [pr_Id p])
      else filterByNameLoop ps names foundProjects result)"

definition filterProjectsByName :: "Project list \<Rightarrow> string list \<Rightarrow> derror + string list" where
  "filterProjectsByName projects names =
     (let r = filterByNameLoop projects names {} [];
          notFoundProjects = filter (\<lambda>name. name \<notin> fst r) names
      in if notFoundProjects \<noteq> [] then Inl (NoProjectWithNames names) else Inr (snd r))"

definition toProjectMap :: "Project list \<Rightarrow> (string \<rightharpoonup> Project)" where
  "toProjectMap projects = fold (\<lambda>p result. result(pr_Id p \<mapsto> p)) projects Map.empty"

lemma toProjectMap_fold_dom:
  "dom (fold (\<lambda>p result. result(pr_Id p \<mapsto> p)) projects m) = dom m \<union> pr_Id ` set projects"
  by (induction projects arbitrary: m) auto

lemma toProjectMap_Some: "toProjectMap projects k = Some p \<Longrightarrow> k \<in> pr_Id ` set projects"
  using toProjectMap_fold_dom[of projects Map.empty] by (auto simp: toProjectMap_def)

text \<open>
  The work list loop of \<open>loadProjectsWithDependencies\<close>, with the variables it updates:
  the ids still to check, the ids already checked, the projects collected and the ids
  that name no project. An id leaves the work list in every turn, and new ids enter it
  only when a project is checked for the first time, so the loop ends.
\<close>

function dependenciesLoop ::
  "Project list \<Rightarrow> string list \<Rightarrow> string list \<Rightarrow> string set \<Rightarrow> Project list \<Rightarrow> string list
     \<Rightarrow> Project list \<times> string list" where
  "dependenciesLoop projects environments toCheck alreadyChecked result unknownProjects =
     (case toCheck of
        [] \<Rightarrow> (result, unknownProjects)
      | current # rest \<Rightarrow>
          if current \<in> alreadyChecked then
            dependenciesLoop projects environments rest alreadyChecked result unknownProjects
          else
            (case toProjectMap projects current of
               Some project \<Rightarrow>
                 dependenciesLoop projects environments
                   (rest @ concat (map (lookupList (pr_Dependencies project)) environments))
                   (insert current alreadyChecked) (result @ [project]) unknownProjects
             | None \<Rightarrow>
                 dependenciesLoop projects environments rest alreadyChecked result
                   (unknownProjects @ [current])))"
  by pat_completeness auto
termination
proof (relation "measures
    [\<lambda>(projects, environments, toCheck, alreadyChecked, result, unknownProjects).
        card (pr_Id ` set projects - alreadyChecked),
     \<lambda>(projects, environments, toCheck, alreadyChecked, result, unknownProjects).
        length toCheck]")
  show "wf (measures
    [\<lambda>(projects, environments, toCheck, alreadyChecked, result, unknownProjects).
        card (pr_Id ` set projects - alreadyChecked),
     \<lambda>(projects, environments, toCheck, alreadyChecked, result, unknownProjects).
        length toCheck])"
    by simp
next
  fix projects :: "Project list" and environments toCheck :: "string list"
    and alreadyChecked :: "string set" and current rest project
    and result :: "Project list" and unknownProjects :: "string list"
  assume "toCheck = current # rest" "current \<notin> alreadyChecked"
    "toProjectMap projects current = Some project"
  then have "current \<in> pr_Id ` set projects - alreadyChecked"
    by (auto dest: toProjectMap_Some)
  then have "card (pr_Id ` set projects - insert current alreadyChecked)
      < card (pr_Id ` set projects - alreadyChecked)"
    by (metis Diff_insert card_Diff1_less finite_Diff finite_imageI finite_set)
  then show "((projects, environments,
        rest @ concat (map (lookupList (pr_Dependencies project)) environments),
        insert current alreadyChecked, result @ [project], unknownProjects),
       (projects, environments, toCheck, alreadyChecked, result, unknownProjects))
      \<in> measures
    [\<lambda>(projects, environments, toCheck, alreadyChecked, result, unknownProjects).
        card (pr_Id ` set projects - alreadyChecked),
     \<lambda>(projects, environments, toCheck, alreadyChecked, result, unknownProjects).
        length toCheck]"
    by simp
qed auto

definition loadProjectsWithDependencies ::
  "Project list \<Rightarrow> string list \<Rightarrow> string list \<Rightarrow> derror + Project list" where
  "loadProjectsWithDependencies projects projectIdsToLoad environments =
     (let r = dependenciesLoop projects environments projectIdsToLoad {} [] []
      in if snd r \<noteq> [] then Inl (UnknownDependencyProjects (snd r)) else Inr (fst r))"

definition filterProjects ::
  "Project list \<Rightarrow> string list \<Rightarrow> string list \<Rightarrow> derror + Project list" where
  "filterProjects projects specificProjects specificEnvironments =
     (if length specificProjects > 0 then
        (case filterProjectsByName projects specificProjects of
           Inl err \<Rightarrow> Inl err
         | Inr filtered \<Rightarrow>
             loadProjectsWithDependencies projects filtered specificEnvironments)
      else Inr projects)"

subsection \<open>Checking the environments\<close>

definition platformEnvironment :: "EnvironmentDefinition \<Rightarrow> bool" where
  "platformEnvironment e = (OAuth (ed_Auth e) \<noteq> None)"

definition onlyAvailableOnPlatform :: "Config \<Rightarrow> bool" where
  "onlyAvailableOnPlatform c =
     (case cfg_Type c of
        AutomationType _ \<Rightarrow> True
      | BucketType \<Rightarrow> True
      | _ \<Rightarrow> False)"

fun checkConfigsForEnvironment :: "EnvironmentDefinition \<Rightarrow> Config list \<Rightarrow> derror option" where
  "checkConfigsForEnvironment env [] = None"
| "checkConfigsForEnvironment env (c # cfgs) =
     (if \<not> cfg_Skip c \<and> onlyAvailableOnPlatform c \<and> \<not> platformEnvironment env
      then Some (NotPlatformEnvironment (ed_Name env) (cfg_Coordinate c))
      else checkConfigsForEnvironment env cfgs)"

text \<open>
  The three nested loops of \<open>checkEnvironments\<close>, innermost first; each returns at the
  first error.
\<close>

fun checkConfigsPerType ::
  "EnvironmentDefinition \<Rightarrow> (string \<times> Config list) list \<Rightarrow> derror option" where
  "checkConfigsPerType env [] = None"
| "checkConfigsPerType env (tc # cfgPerType) =
     (case checkConfigsForEnvironment env (snd tc) of
        Some err \<Rightarrow> Some err
      | None \<Rightarrow> checkConfigsPerType env cfgPerType)"

fun checkProjectConfigs ::
  "(string \<times> EnvironmentDefinition) list \<Rightarrow> (string \<times> (string \<times> Config list) list) list
     \<Rightarrow> derror option" where
  "checkProjectConfigs envs [] = None"
| "checkProjectConfigs envs (ec # configs) =
     (case map_of envs (fst ec) of
        None \<Rightarrow> Some (CannotFindEnvironment (fst ec))
      | Some env \<Rightarrow>
          (case checkConfigsPerType env (snd ec) of
             Some err \<Rightarrow> Some err
           | None \<Rightarrow> checkProjectConfigs envs configs))"

fun checkEnvironments ::
  "Project list \<Rightarrow> (string \<times> EnvironmentDefinition) list \<Rightarrow> derror option" where
  "checkEnvironments [] envs = None"
| "checkEnvironments (p # projects) envs =
     (case checkProjectConfigs envs (pr_Configs p) of
        Some err \<Rightarrow> Some err
      | None \<Rightarrow> checkEnvironments projects envs)"

subsection \<open>The deploy command\<close>

text \<open>
  Everything \<open>deployConfigs\<close> gets from outside: the file system, the YAML reader and the
  version package behind \<open>manifest.LoadManifest\<close> and \<open>project.LoadProjects\<close>, the
  process environment while the manifest is loaded and at the moment the feature flag is
  evaluated, the creation of clients, the check of the environment generation, the
  sorting of configurations and the two deployers. \<open>'cs\<close> is the type of a client set.
\<close>

record EnvironmentInfo =
  ei_Name :: string
  ei_Group :: string

record DeployConfigsOptions =
  ContinueOnErr :: bool
  DryRun :: bool

datatype GraphDeployResult =
    NoDeployError
  | EnvironmentDeploymentErrors "(string \<times> derror list) list"
  | OtherDeployError derror

record ('v, 'cs) DeployWorld =
  w_absPath :: "string \<Rightarrow> string + string"
  w_versioning :: "'v versioning"
  w_loadEnv :: osenv
  w_readManifestYAML :: "string \<Rightarrow> lerror + manifest"
  w_toProjectDefinitions :: "string \<Rightarrow> (string \<times> ProjectDefinition) list \<times> lerror list"
  w_VerifyEnvironmentGeneration :: "(string \<times> EnvironmentDefinition) list \<Rightarrow> bool"
  w_Dir :: "string \<Rightarrow> string"
  w_projectFs :: "string \<Rightarrow> ProjectFs"
  w_flagEnv :: osenv
  w_CreateClientSet :: "string \<Rightarrow> Auth \<Rightarrow> string + 'cs"
  w_DummyClientSet :: 'cs
  w_DeployConfigGraph ::
    "Project list \<Rightarrow> (EnvironmentInfo \<times> 'cs) list \<Rightarrow> DeployConfigsOptions \<Rightarrow> GraphDeployResult"
  w_ConfigsPerEnvironment ::
    "Project list \<Rightarrow> string list \<Rightarrow> (string \<times> Config list) list \<times> string list"
  w_DeployConfigs :: "'cs \<Rightarrow> Config list \<Rightarrow> DeployConfigsOptions \<Rightarrow> derror list"

text \<open>
  The calls that reach an environment, in the order they are made; \<open>deployConfigs\<close>
  returns them next to its error.
\<close>

datatype event =
    EvVerifyEnvironmentGeneration
  | EvCreateClientSet string
  | EvDeployConfigGraph
  | EvDeployConfigs string

text \<open>
  Modelled from the spec: the method \<open>Environments.Names()\<close> of the manifest package is
  missing; it gives the names of the manifest's environments, which the spec has unique
  across all groups.
\<close>

definition Names :: "(string \<times> EnvironmentDefinition) list \<Rightarrow> string list" where
  "Names environments = map fst environments"

text \<open>
  The zero value that a Go map lookup gives for a missing key. The declaration of the URL
  types, which fixes the zero one, is missing; nothing below depends on it.
\<close>

definition empty_EnvironmentDefinition :: EnvironmentDefinition where
  "empty_EnvironmentDefinition =
     \<lparr>ed_Name = '''', ed_URL = \<lparr>ud_Type = ValueURLType, ud_Name = '''', ud_Value = ''''\<rparr>,
      ed_Auth = \<lparr>Token = \<lparr>as_Name = '''', as_Value = ''''\<rparr>, OAuth = None\<rparr>, ed_Group = ''''\<rparr>"

definition loadManifest ::
  "('v, 'cs) DeployWorld \<Rightarrow> string \<Rightarrow> string list \<Rightarrow> string list \<Rightarrow> derror + Manifest" where
  "loadManifest w manifestPath groups environments =
     (let r = LoadManifest (w_versioning w)
                \<lparr>lc_ManifestPath = manifestPath, lc_Environments = environments,
                 lc_Groups = groups, lc_Opts = \<lparr>DontResolveEnvVars = False\<rparr>\<rparr>
                (w_loadEnv w) (w_readManifestYAML w manifestPath)
                (w_toProjectDefinitions w manifestPath)
      in if length (snd r) > 0 then Inl ErrLoadingManifest else Inr (fst r))"

definition verifyEnvironmentGen ::
  "('v, 'cs) DeployWorld \<Rightarrow> (string \<times> EnvironmentDefinition) list \<Rightarrow> bool \<Rightarrow> bool \<times> event list"
  where
  "verifyEnvironmentGen w environments dryRun =
     (if \<not> dryRun
      then (w_VerifyEnvironmentGeneration w environments, [EvVerifyEnvironmentGeneration])
      else (True, []))"

definition loadProjects ::
  "('v, 'cs) DeployWorld \<Rightarrow> string \<Rightarrow> Manifest \<Rightarrow> derror + Project list" where
  "loadProjects w manifestPath man =
     (let r = LoadProjects (w_projectFs w (w_Dir w manifestPath))
                \<lparr>plc_WorkingDir = w_Dir w manifestPath, plc_Manifest = man\<rparr>
      in if snd r \<noteq> [] then Inl ErrLoadingProjects else Inr (fst r))"

definition createDeployClientSet ::
  "('v, 'cs) DeployWorld \<Rightarrow> EnvironmentDefinition \<Rightarrow> bool \<Rightarrow> (string + 'cs) \<times> event list" where
  "createDeployClientSet w env dryRun =
     (if dryRun then (Inr (w_DummyClientSet w), [])
      else (w_CreateClientSet w (ud_Value (ed_URL env)) (ed_Auth env),
            [EvCreateClientSet (ed_Name env)]))"

fun createDeployClientSetsLoop ::
  "('v, 'cs) DeployWorld \<Rightarrow> (string \<times> EnvironmentDefinition) list \<Rightarrow> bool
     \<Rightarrow> (EnvironmentInfo \<times> 'cs) list \<Rightarrow> event list
     \<Rightarrow> (string + (EnvironmentInfo \<times> 'cs) list) \<times> event list" where
  "createDeployClientSetsLoop w [] dryRun clients events = (Inr clients, events)"
| "createDeployClientSetsLoop w (kv # environments) dryRun clients events =
     (case createDeployClientSet w (snd kv) dryRun of
        (Inl err, ev) \<Rightarrow> (Inl err, events @ ev)
      | (Inr clientSet, ev) \<Rightarrow>
          createDeployClientSetsLoop w environments dryRun
            (AList.update \<lparr>ei_Name = ed_Name (snd kv), ei_Group = ed_Group (snd kv)\<rparr>
               clientSet clients)
            (events @ ev))"

definition createDeployClientSets ::
  "('v, 'cs) DeployWorld \<Rightarrow> (string \<times> EnvironmentDefinition) list \<Rightarrow> bool
     \<Rightarrow> (string + (EnvironmentInfo \<times> 'cs) list) \<times> event list" where
  "createDeployClientSets w environments dryRun =
     createDeployClientSetsLoop w environments dryRun [] []"

definition deployOnEnvironment ::
  "('v, 'cs) DeployWorld \<Rightarrow> EnvironmentDefinition \<Rightarrow> Config list \<Rightarrow> bool \<Rightarrow> bool
     \<Rightarrow> derror list \<times> event list" where
  "deployOnEnvironment w env cfgs continueOnErr dryRun =
     (case createDeployClientSet w env dryRun of
        (Inl err, ev) \<Rightarrow> ([FailedToCreateClientsFor (ed_Name env) err], ev)
      | (Inr clientSet, ev) \<Rightarrow>
          (w_DeployConfigs w clientSet cfgs \<lparr>ContinueOnErr = continueOnErr, DryRun = dryRun\<rparr>,
           ev @ [EvDeployConfigs (ed_Name env)]))"

text \<open>
  The loop of the sequential deployment over the sorted configurations of each
  environment; it breaks at the first environment with errors unless \<open>continueOnErr\<close>.
\<close>

fun deployLoop ::
  "('v, 'cs) DeployWorld \<Rightarrow> (string \<times> EnvironmentDefinition) list
     \<Rightarrow> (string \<times> Config list) list \<Rightarrow> bool \<Rightarrow> bool \<Rightarrow> derror list \<Rightarrow> event list
     \<Rightarrow> derror list \<times> event list" where
  "deployLoop w environments [] continueOnErr dryRun deployErrs events = (deployErrs, events)"
| "deployLoop w environments (ec # sortedConfigs) continueOnErr dryRun deployErrs events =
     (let env = (case map_of environments (fst ec) of
                   None \<Rightarrow> empty_EnvironmentDefinition
                 | Some e \<Rightarrow> e);
          r = deployOnEnvironment w env (snd ec) continueOnErr dryRun
      in if length (fst r) > 0 \<and> \<not> continueOnErr
         then (deployErrs @ fst r, events @ snd r)
         else deployLoop w environments sortedConfigs continueOnErr dryRun
                (deployErrs @ fst r) (events @ snd r))"

definition deployConfigs ::
  "('v, 'cs) DeployWorld \<Rightarrow> string \<Rightarrow> string list \<Rightarrow> string list \<Rightarrow> string list
     \<Rightarrow> bool \<Rightarrow> bool \<Rightarrow> derror option \<times> event list" where
  "deployConfigs w manifestPath environmentGroups specificEnvironments specificProjects
       continueOnErr dryRun =
     (case w_absPath w manifestPath of
        Inl err \<Rightarrow> (Some (AbsPathError manifestPath err), [])
      | Inr absManifestPath \<Rightarrow>
     (case loadManifest w absManifestPath environmentGroups specificEnvironments of
        Inl err \<Rightarrow> (Some err, [])
      | Inr loadedManifest \<Rightarrow>
     (let v = verifyEnvironmentGen w (m_Environments loadedManifest) dryRun in
      if \<not> fst v then (Some ErrVerifyEnvironmentGeneration, snd v)
      else
     (case loadProjects w absManifestPath loadedManifest of
        Inl err \<Rightarrow> (Some err, snd v)
      | Inr loadedProjects \<Rightarrow>
     (case filterProjects loadedProjects specificProjects
             (Names (m_Environments loadedManifest)) of
        Inl err \<Rightarrow> (Some (ErrLoadingRelevantProjects err), snd v)
      | Inr filteredProjects \<Rightarrow>
     (case checkEnvironments filteredProjects (m_Environments loadedManifest) of
        Some err \<Rightarrow> (Some err, snd v)
      | None \<Rightarrow>
          if Enabled DependencyGraphBasedDeploy (w_flagEnv w) then
            (case createDeployClientSets w (m_Environments loadedManifest) dryRun of
               (Inl err, ev) \<Rightarrow> (Some (FailedToCreateAPIClients err), snd v @ ev)
             | (Inr clientSets, ev) \<Rightarrow>
                 (case w_DeployConfigGraph w filteredProjects clientSets
                         \<lparr>ContinueOnErr = continueOnErr, DryRun = dryRun\<rparr> of
                    NoDeployError \<Rightarrow> (None, snd v @ ev @ [EvDeployConfigGraph])
                  | _ \<Rightarrow> (Some (ErrorsDuring dryRun), snd v @ ev @ [EvDeployConfigGraph])))
          else
            (let s = w_ConfigsPerEnvironment w filteredProjects
                       (Names (m_Environments loadedManifest)) in
             if snd s \<noteq> [] then (Some ErrDuringConfigurationSort, snd v)
             else
               (let d = deployLoop w (m_Environments loadedManifest) (fst s)
                          continueOnErr dryRun [] (snd v)
                in if length (fst d) > 0 then (Some (ErrorsDuring dryRun), snd d)
                   else (None, snd d)))))))))"

subsection \<open>Vocabulary for the properties of the deploy command\<close>

text \<open>
  A configuration \<open>c\<close> that is not skipped and is available on the platform only is
  assigned, in some project, to an environment of the manifest that has no OAuth
  credentials, \<open>env\<close>.
\<close>

definition platformExclusiveOnClassic ::
  "Project list \<Rightarrow> (string \<times> EnvironmentDefinition) list \<Rightarrow> EnvironmentDefinition \<Rightarrow> Config
     \<Rightarrow> bool" where
  "platformExclusiveOnClassic projects envs env c =
     (\<exists>p \<in> set projects. \<exists>ec \<in> set (pr_Configs p). \<exists>tc \<in> set (snd ec).
        c \<in> set (snd tc) \<and> map_of envs (fst ec) = Some env
        \<and> \<not> cfg_Skip c \<and> onlyAvailableOnPlatform c \<and> \<not> platformEnvironment env)"

text \<open>Some project has configurations for an environment name the manifest does not have.\<close>

definition unknownEnvironment ::
  "Project list \<Rightarrow> (string \<times> EnvironmentDefinition) list \<Rightarrow> string \<Rightarrow> bool" where
  "unknownEnvironment projects envs n =
     (\<exists>p \<in> set projects. \<exists>ec \<in> set (pr_Configs p). fst ec = n \<and> map_of envs n = None)"

section \<open>The identity service\<close>

text \<open>
  Modelled from the spec: the package that generates external ids (\<open>internal/idutils\<close>) is
  missing. The spec (section 4.1) has \<open>generateExternalId\<close> concatenate
  \<open>Project|Type|ConfigId\<close>, hash the result and prefix it with \<open>monaco:\<close>. The spec does not
  fix the hash; it is the argument \<open>hash\<close>.
\<close>

definition generateExternalId :: "(string \<Rightarrow> string) \<Rightarrow> Coordinate \<Rightarrow> string" where
  "generateExternalId hash c =
     ''monaco:'' @ hash (Project c @ ''|'' @ Type c @ ''|'' @ ConfigId c)"

text \<open>
  Modelled from the spec: \<open>generateLegacyExternalId\<close> is missing as well; the spec has it
  be the same function ignoring the project.
\<close>

definition generateLegacyExternalId :: "(string \<Rightarrow> string) \<Rightarrow> string \<Rightarrow> string \<Rightarrow> string" where
  "generateLegacyExternalId hash ty configId = ''monaco:'' @ hash (ty @ ''|'' @ configId)"

section \<open>The Settings 2.0 adapter\<close>

text \<open>
  Modelled from the spec: the settings client (\<open>UpsertSettings\<close> in \<open>pkg/client/dtclient\<close>)
  and the server behind it are missing; only the test that calls them is present. The
  server's objects are a list; \<open>dtclient.SettingsObject\<close> is the request the test builds.
\<close>

record DownloadSettingsObject =
  so_ObjectId :: string
  so_SchemaId :: string
  so_ExternalId :: string
  so_Scope :: string
  so_Content :: string

record SettingsObject =
  rq_Coordinate :: Coordinate
  rq_SchemaId :: string
  rq_SchemaVersion :: string
  rq_Scope :: string
  rq_Content :: string
  rq_OriginObjectId :: string

text \<open>
  Modelled from the spec: an upsert at an object id is create-if-absent-else-update: the
  object with that id is replaced, and without one the object is added.
\<close>

definition putSettingsObject ::
  "DownloadSettingsObject \<Rightarrow> DownloadSettingsObject list \<Rightarrow> DownloadSettingsObject list" where
  "putSettingsObject obj store =
     (if so_ObjectId obj \<in> so_ObjectId ` set store
      then map (\<lambda>x. if so_ObjectId x = so_ObjectId obj then obj else x) store
      else store @ [obj])"

text \<open>
  Modelled from the spec (section 4.3.3): compute the external id; among the settings of
  the schema look for an object with that external id and upsert at its object id;
  otherwise look for an object with the legacy external id and upsert at its object id,
  which rewrites its external id; otherwise POST a new object, whose id the server
  chooses (\<open>newObjectId\<close>). An \<open>OriginObjectId\<close> of the configuration is preferred over the
  search results. The object written always carries the new external id. The result is
  the id of the object written and the server's objects after the call.
\<close>

definition UpsertSettings ::
  "(string \<Rightarrow> string) \<Rightarrow> (DownloadSettingsObject list \<Rightarrow> string)
     \<Rightarrow> DownloadSettingsObject list \<Rightarrow> SettingsObject
     \<Rightarrow> string \<times> DownloadSettingsObject list" where
  "UpsertSettings hash newObjectId store obj =
     (let extId = generateExternalId hash (rq_Coordinate obj);
          legacyExtId = generateLegacyExternalId hash (Type (rq_Coordinate obj))
                          (ConfigId (rq_Coordinate obj));
          ofSchema = filter (\<lambda>x. so_SchemaId x = rq_SchemaId obj) store;
          objectId =
            (if rq_OriginObjectId obj \<noteq> '''' then rq_OriginObjectId obj
             else case find (\<lambda>x. so_ExternalId x = extId) ofSchema of
               Some x \<Rightarrow> so_ObjectId x
             | None \<Rightarrow>
                 (case find (\<lambda>x. so_ExternalId x = legacyExtId) ofSchema of
                    Some x \<Rightarrow> so_ObjectId x
                  | None \<Rightarrow> newObjectId store))
      in (objectId,
          putSettingsObject
            \<lparr>so_ObjectId = objectId, so_SchemaId = rq_SchemaId obj, so_ExternalId = extId,
             so_Scope = rq_Scope obj, so_Content = rq_Content obj\<rparr> store))"

section \<open>The adapter for classic APIs with non-unique names\<close>

text \<open>
  Modelled from the spec: the classic client (\<open>UpsertConfigByNonUniqueNameAndId\<close> in
  \<open>pkg/client/dtclient\<close>) and the server behind it are missing; only the test that calls
  them is present. The objects of one API are a list of id, name and payload.
\<close>

record Value =
  v_Id :: string
  v_Name :: string
  v_Payload :: string

record DynatraceEntity =
  de_Id :: string
  de_Name :: string

text \<open>Modelled from the spec: a PUT to an id creates the object or updates it.\<close>

definition putConfig :: "Value \<Rightarrow> Value list \<Rightarrow> Value list" where
  "putConfig obj store =
     (if v_Id obj \<in> v_Id ` set store
      then map (\<lambda>x. if v_Id x = v_Id obj then obj else x) store
      else store @ [obj])"

text \<open>
  Modelled from the spec (the table of section 4.3.2), by the objects of the same name
  that are present: none, PUT to the deterministic UUID; one whose id is the deterministic
  UUID, PUT to the same; one whose id is another, PUT to the existing id; two or more, PUT
  to the deterministic UUID. The id returned is the id written.
\<close>

definition UpsertConfigByNonUniqueNameAndId ::
  "Value list \<Rightarrow> string \<Rightarrow> string \<Rightarrow> string \<Rightarrow> DynatraceEntity \<times> Value list" where
  "UpsertConfigByNonUniqueNameAndId store entityId name payload =
     (let sameName = filter (\<lambda>x. v_Name x = name) store;
          target =
            (case sameName of
               [] \<Rightarrow> entityId
             | [e] \<Rightarrow> (if v_Id e = entityId then entityId else v_Id e)
             | _ \<Rightarrow> entityId)
      in (\<lparr>de_Id = target, de_Name = name\<rparr>,
          putConfig \<lparr>v_Id = target, v_Name = name, v_Payload = payload\<rparr> store))"

section \<open>The template and parameter resolver, and the deployment of one configuration\<close>

text \<open>
  Modelled from the spec: the parameter sort and \<open>Deploy\<close> (packages \<open>pkg/deploy\<close>) are
  missing; only the test that calls \<open>Deploy\<close> is present. The spec (section 4.2) has the resolver
  sort the configuration's own parameters topologically by their references and abort
  with a \<open>CyclicParameterDependency\<close> error if a cycle exists, then resolve the parameters
  in that order, render the template and, in the orchestrator (section 4.4, step 3), call
  \<open>Upsert\<close>; the resolver does not touch the network.
\<close>

datatype deployError =
    CyclicParameterDependency "string list"
  | ResolveError string
  | RenderError string
  | UpsertError string

record ResolvedEntity =
  re_Coordinate :: Coordinate
  re_EntityName :: string
  re_Properties :: "(string \<times> string) list"
  re_Skip :: bool

text \<open>
  Modelled from the spec: the sort goes by the references among the configuration's own
  parameters (the code for it is missing). The parameters of the same configuration that
  a parameter refers to are the properties of its references to the configuration's own
  coordinate that name one of its parameters.
\<close>

definition ownReferences :: "Coordinate \<Rightarrow> (string \<times> Parameter) list \<Rightarrow> Parameter \<Rightarrow> string list"
  where
  "ownReferences coord params p =
     map ref_Property
       (filter (\<lambda>r. ref_Config r = coord \<and> ref_Property r \<in> fst ` set params) (References p))"

text \<open>
  Modelled from the spec: a topological order resolves a parameter after the parameters
  it refers to (the code of the sort is missing). A parameter is ready when every
  parameter it refers to has been put in order.
\<close>

definition ready ::
  "Coordinate \<Rightarrow> (string \<times> Parameter) list \<Rightarrow> (string \<times> Parameter) list
     \<Rightarrow> string \<times> Parameter \<Rightarrow> bool" where
  "ready coord params ordered np =
     list_all (\<lambda>d. d \<in> fst ` set ordered) (ownReferences coord params (snd np))"

text \<open>
  Modelled from the spec: the topological sort of the parameters, whose code is missing.
  In every round the ready parameters move from the remaining ones to the end of the
  order; a round without a ready parameter, while parameters remain, is a cycle. Every
  other round makes the remaining list shorter, so the sort ends.
\<close>

function sortLoop ::
  "Coordinate \<Rightarrow> (string \<times> Parameter) list \<Rightarrow> (string \<times> Parameter) list
     \<Rightarrow> (string \<times> Parameter) list \<Rightarrow> deployError + (string \<times> Parameter) list" where
  "sortLoop coord params remaining ordered =
     (if remaining = [] then Inr ordered
      else if filter (ready coord params ordered) remaining = []
      then Inl (CyclicParameterDependency (map fst remaining))
      else sortLoop coord params
             (filter (\<lambda>np. \<not> ready coord params ordered np) remaining)
             (ordered @ filter (ready coord params ordered) remaining))"
  by pat_completeness auto
termination
proof (relation "measure (\<lambda>(coord, params, remaining, ordered). length remaining)")
  show "wf (measure (\<lambda>(coord, params, remaining, ordered). length remaining))" by simp
next
  fix coord :: Coordinate and params remaining ordered :: "(string \<times> Parameter) list"
  assume "filter (ready coord params ordered) remaining \<noteq> []"
  then have "0 < length (filter (ready coord params ordered) remaining)" by simp
  moreover have "length (filter (ready coord params ordered) remaining)
      + length (filter (\<lambda>np. \<not> ready coord params ordered np) remaining) = length remaining"
    by (rule sum_length_filter_compl)
  ultimately have "length (filter (\<lambda>np. \<not> ready coord params ordered np) remaining)
      < length remaining" by linarith
  then show "((coord, params, filter (\<lambda>np. \<not> ready coord params ordered np) remaining,
        ordered @ filter (ready coord params ordered) remaining),
       (coord, params, remaining, ordered))
      \<in> measure (\<lambda>(coord, params, remaining, ordered). length remaining)"
    by simp
qed

text \<open>
  Modelled from the spec: the sort of a configuration's own parameters (its code is
  missing) starts with all of them remaining and none in order.
\<close>

definition sortParameters :: "Config \<Rightarrow> deployError + (string \<times> Parameter) list" where
  "sortParameters conf =
     sortLoop (cfg_Coordinate conf) (cfg_Parameters conf) (cfg_Parameters conf) []"

text \<open>
  Modelled from the spec: \<open>Deploy\<close> for one configuration, whose code is missing: sort the
  parameters, resolve them in that order, render the template, call the adapter's upsert.
  Resolving the values and rendering the template are pure; the adapter's \<open>upsert\<close> is the
  only step that is given the network, whose state (for instance the requests sent so
  far) is \<open>'net\<close>.
\<close>

definition Deploy ::
  "((string \<times> Parameter) list \<Rightarrow> string + (string \<times> string) list)
     \<Rightarrow> (string \<Rightarrow> (string \<times> string) list \<Rightarrow> string + string)
     \<Rightarrow> (string \<Rightarrow> 'net \<Rightarrow> (string + ResolvedEntity) \<times> 'net)
     \<Rightarrow> Config \<Rightarrow> 'net \<Rightarrow> (deployError + ResolvedEntity) \<times> 'net" where
  "Deploy resolveValues render upsert conf net =
     (case sortParameters conf of
        Inl err \<Rightarrow> (Inl err, net)
      | Inr ordered \<Rightarrow>
          (case resolveValues ordered of
             Inl msg \<Rightarrow> (Inl (ResolveError msg), net)
           | Inr properties \<Rightarrow>
               (case render (cfg_Template conf) properties of
                  Inl msg \<Rightarrow> (Inl (RenderError msg), net)
                | Inr payload \<Rightarrow>
                    (case upsert payload net of
                       (Inl msg, net') \<Rightarrow> (Inl (UpsertError msg), net')
                     | (Inr entity, net') \<Rightarrow> (Inr entity, net')))))"

subsection \<open>Vocabulary for the properties of the parameter sort\<close>

text \<open>
  Parameter \<open>a\<close> of the configuration depends on its parameter \<open>b\<close>: \<open>a\<close> has a reference to
  the property \<open>b\<close> of the configuration's own coordinate. A reference cycle is a parameter
  that depends on itself through one or more such steps.
\<close>

definition parameterDependencies :: "Config \<Rightarrow> (string \<times> string) set" where
  "parameterDependencies conf =
     {(a, b). \<exists>p. (a, p) \<in> set (cfg_Parameters conf)
        \<and> b \<in> set (ownReferences (cfg_Coordinate conf) (cfg_Parameters conf) p)}"

definition onParameterCycle :: "Config \<Rightarrow> string \<Rightarrow> bool" where
  "onParameterCycle conf a = ((a, a) \<in> (parameterDependencies conf)\<^sup>+)"

section \<open>Properties of the feature flags\<close>

lemma ToLower_true: "ToLower ''true'' = ''true''"
  by (simp add: ToLower_def toLowerChar_def)

lemma toLowerChar_not_capital:
  "\<not> ((65::nat) \<le> of_char (toLowerChar c) \<and> of_char (toLowerChar c) \<le> (90::nat))"
proof (cases "(65::nat) \<le> of_char c \<and> of_char c \<le> (90::nat)")
  case True
  then have "(of_char c + 32) mod 256 = (of_char c + 32::nat)" by simp
  with True show ?thesis by (simp add: toLowerChar_def)
next
  case False
  then show ?thesis by (simp add: toLowerChar_def)
qed

lemma ToLower_no_capital:
  assumes "c \<in> set s" "(65::nat) \<le> of_char c" "of_char c \<le> (90::nat)"
  shows "ToLower v \<noteq> s"
proof
  assume "ToLower v = s"
  with assms(1) obtain d where "c = toLowerChar d" by (auto simp: ToLower_def)
  with assms(2,3) toLowerChar_not_capital[of d] show False by simp
qed

lemma ParseBool_ToLower:
  "ParseBool (ToLower v)
     = (if ToLower v \<in> {''1'', ''t'', ''true''} then Some True
        else if ToLower v \<in> {''0'', ''f'', ''false''} then Some False
        else None)"
proof -
  have "ToLower v \<noteq> ''T''" "ToLower v \<noteq> ''TRUE''" "ToLower v \<noteq> ''True''"
    by (rule ToLower_no_capital[of "CHR ''T''"]; simp)+
  moreover have "ToLower v \<noteq> ''F''" "ToLower v \<noteq> ''FALSE''" "ToLower v \<noteq> ''False''"
    by (rule ToLower_no_capital[of "CHR ''F''"]; simp)+
  ultimately show ?thesis by (simp add: ParseBool_def)
qed

text \<open>
  C5 (as stated, refuted): the flag is not snapshotted. \<open>Enabled\<close> reads the variable at
  every evaluation, so the graph-deploy flag evaluates to true in an environment that sets
  \<open>MONACO_FEAT_GRAPH_DEPLOY=true\<close> and to false once the variable is gone.
\<close>

theorem C5_enabled_rereads_environment:
  "Enabled DependencyGraphBasedDeploy
     (Map.empty(''MONACO_FEAT_GRAPH_DEPLOY'' \<mapsto> ''true'')) = True
   \<and> Enabled DependencyGraphBasedDeploy Map.empty = False"
  by (simp add: Enabled_def DependencyGraphBasedDeploy_def ParseBool_def ToLower_true)

text \<open>
  C5 (amended): every evaluation of a feature flag reads the flag's own variable in the
  environment as it is at that moment, and nothing else of it. With the variable unset the
  result is the flag's default. With the variable set, the result is true when the value
  is \<open>1\<close>, \<open>t\<close> or \<open>true\<close> written in any letter case, false when it is \<open>0\<close>, \<open>f\<close> or \<open>false\<close>
  written in any letter case, and the flag's default for every other value. So two
  evaluations agree whenever the variable has the same value, or is unset, at both of
  them, whatever else has changed.
\<close>

theorem C5_enabled_reads_own_variable:
  "(env (envName ff) = None \<longrightarrow> Enabled ff env = defaultEnabled ff)
   \<and> (\<forall>v. env (envName ff) = Some v \<longrightarrow>
         Enabled ff env
           = (if ToLower v \<in> {''1'', ''t'', ''true''} then True
              else if ToLower v \<in> {''0'', ''f'', ''false''} then False
              else defaultEnabled ff))
   \<and> (\<forall>env'. env' (envName ff) = env (envName ff) \<longrightarrow> Enabled ff env' = Enabled ff env)"
proof (intro conjI allI impI)
  assume "env (envName ff) = None"
  then show "Enabled ff env = defaultEnabled ff" by (simp add: Enabled_def)
next
  fix v
  assume "env (envName ff) = Some v"
  then have "Enabled ff env
      = (case ParseBool (ToLower v) of None \<Rightarrow> defaultEnabled ff | Some enabled \<Rightarrow> enabled)"
    by (simp add: Enabled_def)
  then show "Enabled ff env
      = (if ToLower v \<in> {''1'', ''t'', ''true''} then True
         else if ToLower v \<in> {''0'', ''f'', ''false''} then False
         else defaultEnabled ff)"
    unfolding ParseBool_ToLower by simp
next
  fix env'
  assume "env' (envName ff) = env (envName ff)"
  then show "Enabled ff env' = Enabled ff env" by (simp add: Enabled_def)
qed

theorem C5_enabled_reads_own_variable_witness:
  "(let ff = DependencyGraphBasedDeploy;
        on = \<lparr>envName = ''MONACO_FEAT_X'', defaultEnabled = True\<rparr>;
        unset = Map.empty(''OTHER'' \<mapsto> ''true'');
        mixed = Map.empty(''MONACO_FEAT_GRAPH_DEPLOY'' \<mapsto> ''TrUe'');
        mixed' = Map.empty(''OTHER'' \<mapsto> ''0'', ''MONACO_FEAT_GRAPH_DEPLOY'' \<mapsto> ''TrUe'');
        off = Map.empty(''MONACO_FEAT_X'' \<mapsto> ''F'');
        other = Map.empty(''MONACO_FEAT_X'' \<mapsto> ''yes'')
    in unset (envName ff) = None \<and> Enabled ff unset = False
       \<and> mixed (envName ff) = Some ''TrUe'' \<and> ToLower ''TrUe'' = ''true''
       \<and> Enabled ff mixed = True
       \<and> mixed' (envName ff) = mixed (envName ff) \<and> Enabled ff mixed' = True
       \<and> off (envName on) = Some ''F'' \<and> ToLower ''F'' = ''f'' \<and> Enabled on off = False
       \<and> other (envName on) = Some ''yes'' \<and> ToLower ''yes'' = ''yes''
       \<and> Enabled on other = True)"
proof -
  define ff where "ff = DependencyGraphBasedDeploy"
  define on where "on = \<lparr>envName = ''MONACO_FEAT_X'', defaultEnabled = True\<rparr>"
  define unset :: osenv where "unset = Map.empty(''OTHER'' \<mapsto> ''true'')"
  define mixed :: osenv where "mixed = Map.empty(''MONACO_FEAT_GRAPH_DEPLOY'' \<mapsto> ''TrUe'')"
  define mixed' :: osenv where
    "mixed' = Map.empty(''OTHER'' \<mapsto> ''0'', ''MONACO_FEAT_GRAPH_DEPLOY'' \<mapsto> ''TrUe'')"
  define off :: osenv where "off = Map.empty(''MONACO_FEAT_X'' \<mapsto> ''F'')"
  define other :: osenv where "other = Map.empty(''MONACO_FEAT_X'' \<mapsto> ''yes'')"
  have l: "ToLower ''TrUe'' = ''true''" "ToLower ''F'' = ''f''" "ToLower ''yes'' = ''yes''"
    by (simp_all add: ToLower_def toLowerChar_def char_of_def bit_Suc_0_iff)
  have n: "envName ff = ''MONACO_FEAT_GRAPH_DEPLOY''" "defaultEnabled ff = False"
    "envName on = ''MONACO_FEAT_X''" "defaultEnabled on = True"
    by (simp_all add: ff_def on_def DependencyGraphBasedDeploy_def)
  have v: "unset (envName ff) = None" "mixed (envName ff) = Some ''TrUe''"
    "mixed' (envName ff) = mixed (envName ff)"
    "off (envName on) = Some ''F''" "other (envName on) = Some ''yes''"
    by (simp_all add: n unset_def mixed_def mixed'_def off_def other_def)
  from C5_enabled_reads_own_variable[of unset ff] v(1) n(2)
  have e1: "Enabled ff unset = False" by simp
  from C5_enabled_reads_own_variable[of mixed ff] v(2,3)
  have e2: "Enabled ff mixed = True" "Enabled ff mixed' = True" by (simp_all add: l)
  from C5_enabled_reads_own_variable[of off on] v(4)
  have e3: "Enabled on off = False" by (simp add: l)
  from C5_enabled_reads_own_variable[of other on] v(5) n(4)
  have e4: "Enabled on other = True" by (simp add: l)
  from e1 e2 e3 e4 v l show ?thesis
    unfolding Let_def ff_def[symmetric] on_def[symmetric] unset_def[symmetric]
      mixed_def[symmetric] mixed'_def[symmetric] off_def[symmetric] other_def[symmetric]
    by simp
qed

section \<open>Properties of the manifest loader\<close>

lemma verifyManifestYAML_version:
  "validateManifestVersion vp (ManifestVersion m) = Some e \<Longrightarrow> e \<in> set (verifyManifestYAML vp m)"
  by (simp add: verifyManifestYAML_def)

text \<open>
  C6: \<open>validateManifestVersion\<close> returns an error exactly when the version string is
  empty, does not parse, parses to a version smaller than the minimum or parses to one
  greater than the maximum; in every other case it returns no error. When it returns an
  error for the version of a manifest that was read, \<open>LoadManifest\<close> returns no manifest
  and lists that error as an invalid manifest definition.
\<close>

theorem C6_validateManifestVersion:
  "(validateManifestVersion vp s \<noteq> None) =
     (s = '''' \<or> (\<exists>err. ParseVersion vp s = Inl err)
      \<or> (\<exists>v. ParseVersion vp s = Inr v
            \<and> (SmallerThan vp v (minSupportedManifestVersion vp)
                \<or> GreaterThan vp v (maxSupportedManifestVersion vp))))
   \<and> (validateManifestVersion vp (ManifestVersion m) \<noteq> None \<longrightarrow>
        fst (LoadManifest vp context osenv (Inr m) tpd) = empty_Manifest
        \<and> (\<exists>e. validateManifestVersion vp (ManifestVersion m) = Some e
              \<and> ManifestLoaderError (lc_ManifestPath context) (InvalidManifestDefinition e)
                  \<in> set (snd (LoadManifest vp context osenv (Inr m) tpd))))"
proof (intro conjI impI)
  show "(validateManifestVersion vp s \<noteq> None) =
     (s = '''' \<or> (\<exists>err. ParseVersion vp s = Inl err)
      \<or> (\<exists>v. ParseVersion vp s = Inr v
            \<and> (SmallerThan vp v (minSupportedManifestVersion vp)
                \<or> GreaterThan vp v (maxSupportedManifestVersion vp))))"
    by (cases "ParseVersion vp s") (auto simp: validateManifestVersion_def)
next
  assume a: "validateManifestVersion vp (ManifestVersion m) \<noteq> None"
  then obtain e where e: "validateManifestVersion vp (ManifestVersion m) = Some e" by blast
  then have mem: "e \<in> set (verifyManifestYAML vp m)" by (rule verifyManifestYAML_version)
  then have ne: "verifyManifestYAML vp m \<noteq> []" by auto
  show "fst (LoadManifest vp context osenv (Inr m) tpd) = empty_Manifest"
    using ne by (simp add: LoadManifest_def Let_def)
  have "ManifestLoaderError (lc_ManifestPath context) (InvalidManifestDefinition e)
          \<in> set (snd (LoadManifest vp context osenv (Inr m) tpd))"
    using ne mem by (simp add: LoadManifest_def Let_def newManifestLoaderError_def image_iff)
  with e show "\<exists>e. validateManifestVersion vp (ManifestVersion m) = Some e
              \<and> ManifestLoaderError (lc_ManifestPath context) (InvalidManifestDefinition e)
                  \<in> set (snd (LoadManifest vp context osenv (Inr m) tpd))" by blast
qed

theorem C6_validateManifestVersion_witness:
  "validateManifestVersion
      \<lparr>ParseVersion = (\<lambda>s. if s = ''9'' then Inr (9::nat) else Inl ''no version''),
       SmallerThan = (\<lambda>a b. a < b), GreaterThan = (\<lambda>a b. b < a),
       minSupportedManifestVersion = 1, maxSupportedManifestVersion = 5\<rparr>
      (ManifestVersion \<lparr>ManifestVersion = ''9'', Projects = [], EnvironmentGroups = []\<rparr>)
     \<noteq> None
   \<and> fst (LoadManifest
      \<lparr>ParseVersion = (\<lambda>s. if s = ''9'' then Inr (9::nat) else Inl ''no version''),
       SmallerThan = (\<lambda>a b. a < b), GreaterThan = (\<lambda>a b. b < a),
       minSupportedManifestVersion = 1, maxSupportedManifestVersion = 5\<rparr>
      \<lparr>lc_ManifestPath = ''manifest.yaml'', lc_Environments = [], lc_Groups = [],
       lc_Opts = \<lparr>DontResolveEnvVars = False\<rparr>\<rparr>
      Map.empty
      (Inr \<lparr>ManifestVersion = ''9'', Projects = [], EnvironmentGroups = []\<rparr>)
      ([], [])) = empty_Manifest
   \<and> ManifestLoaderError ''manifest.yaml''
        (InvalidManifestDefinition (ManifestVersionNotSupported ''9''))
      \<in> set (snd (LoadManifest
      \<lparr>ParseVersion = (\<lambda>s. if s = ''9'' then Inr (9::nat) else Inl ''no version''),
       SmallerThan = (\<lambda>a b. a < b), GreaterThan = (\<lambda>a b. b < a),
       minSupportedManifestVersion = 1, maxSupportedManifestVersion = 5\<rparr>
      \<lparr>lc_ManifestPath = ''manifest.yaml'', lc_Environments = [], lc_Groups = [],
       lc_Opts = \<lparr>DontResolveEnvVars = False\<rparr>\<rparr>
      Map.empty
      (Inr \<lparr>ManifestVersion = ''9'', Projects = [], EnvironmentGroups = []\<rparr>)
      ([], [])))"
  using C6_validateManifestVersion
    [of "\<lparr>ParseVersion = (\<lambda>s. if s = ''9'' then Inr (9::nat) else Inl ''no version''),
       SmallerThan = (\<lambda>a b. a < b), GreaterThan = (\<lambda>a b. b < a),
       minSupportedManifestVersion = 1, maxSupportedManifestVersion = 5\<rparr>"
       "''9''"
       "\<lparr>ManifestVersion = ''9'', Projects = [], EnvironmentGroups = []\<rparr>"
       "\<lparr>lc_ManifestPath = ''manifest.yaml'', lc_Environments = [], lc_Groups = [],
         lc_Opts = \<lparr>DontResolveEnvVars = False\<rparr>\<rparr>"
       Map.empty "([], [])"]
  by (simp add: validateManifestVersion_def)

lemma TrimSuffix_slash_iff:
  "(TrimSuffix s ''/'' = r) = (s = r @ ''/'' \<or> (s = r \<and> \<not> (\<exists>p. s = p @ ''/'')))"
proof (cases "HasSuffix s ''/''")
  case True
  then have "s = take (length s - 1) s @ ''/''"
    unfolding HasSuffix_def
    by (metis append_take_drop_id length_Cons list.size(3) One_nat_def)
  then obtain p where p: "s = p @ ''/''" by blast
  then show ?thesis using True by (auto simp: TrimSuffix_def)
next
  case False
  then have "\<not> (\<exists>p. s = p @ ''/'')" by (auto simp: HasSuffix_def)
  then show ?thesis using False by (auto simp: TrimSuffix_def)
qed

text \<open>
  C8: \<open>parseURLDefinition\<close> answers a blank \<open>url.value\<close> with the error that no URL is
  configured. When it accepts a definition whose URL is given literally, or is resolved
  from an environment variable, the returned value is that URL with its trailing \<open>/\<close>
  cut: the URL is the returned value followed by \<open>/\<close>, or it does not end in \<open>/\<close> and is
  returned as it is. (With \<open>DontResolveEnvVars\<close> no URL is resolved from the variable and
  a placeholder is returned; that case is outside the statement.)
\<close>

theorem C8_parseURLDefinition:
  "(u_Value u = '''' \<longrightarrow> parseURLDefinition context osenv u = Inl NoUrlConfigured)
   \<and> (parseURLDefinition context osenv u = Inr d
        \<and> \<not> (u_Type u = urlTypeEnvironment \<and> DontResolveEnvVars (lc_Opts context)) \<longrightarrow>
        (\<exists>raw. raw \<noteq> ''''
           \<and> (if u_Type u = urlTypeEnvironment then osenv (u_Value u) = Some raw
               else raw = u_Value u)
           \<and> (raw = ud_Value d @ ''/'' \<or> (raw = ud_Value d \<and> \<not> (\<exists>p. raw = p @ ''/'')))))"
proof (intro conjI impI)
  assume "u_Value u = ''''"
  then show "parseURLDefinition context osenv u = Inl NoUrlConfigured"
    by (simp add: parseURLDefinition_def)
next
  assume a: "parseURLDefinition context osenv u = Inr d
        \<and> \<not> (u_Type u = urlTypeEnvironment \<and> DontResolveEnvVars (lc_Opts context))"
  show "\<exists>raw. raw \<noteq> ''''
           \<and> (if u_Type u = urlTypeEnvironment then osenv (u_Value u) = Some raw
               else raw = u_Value u)
           \<and> (raw = ud_Value d @ ''/'' \<or> (raw = ud_Value d \<and> \<not> (\<exists>p. raw = p @ ''/'')))"
  proof (cases "u_Type u = urlTypeEnvironment")
    case True
    with a obtain val where v: "osenv (u_Value u) = Some val" "val \<noteq> ''''"
        "ud_Value d = TrimSuffix val ''/''"
      by (auto simp: parseURLDefinition_def urlTypeEnvironment_def urlTypeValue_def
          split: if_splits option.splits)
    from v(3) have "val = ud_Value d @ ''/'' \<or> (val = ud_Value d \<and> \<not> (\<exists>p. val = p @ ''/''))"
      using TrimSuffix_slash_iff[of val "ud_Value d"] by simp
    with v True show ?thesis by auto
  next
    case False
    with a have v: "u_Value u \<noteq> ''''" "ud_Value d = TrimSuffix (u_Value u) ''/''"
      by (auto simp: parseURLDefinition_def split: if_splits option.splits)
    from v(2) have "u_Value u = ud_Value d @ ''/''
        \<or> (u_Value u = ud_Value d \<and> \<not> (\<exists>p. u_Value u = p @ ''/''))"
      using TrimSuffix_slash_iff[of "u_Value u" "ud_Value d"] by simp
    with v False show ?thesis by auto
  qed
qed

theorem C8_parseURLDefinition_witness:
  "u_Value \<lparr>u_Type = ''value'', u_Value = ''''\<rparr> = ''''
   \<and> parseURLDefinition
        \<lparr>lc_ManifestPath = ''manifest.yaml'', lc_Environments = [], lc_Groups = [],
         lc_Opts = \<lparr>DontResolveEnvVars = False\<rparr>\<rparr>
        Map.empty \<lparr>u_Type = ''value'', u_Value = ''''\<rparr> = Inl NoUrlConfigured
   \<and> parseURLDefinition
        \<lparr>lc_ManifestPath = ''manifest.yaml'', lc_Environments = [], lc_Groups = [],
         lc_Opts = \<lparr>DontResolveEnvVars = False\<rparr>\<rparr>
        (Map.empty(''DT_URL'' \<mapsto> ''https://a.b/''))
        \<lparr>u_Type = ''environment'', u_Value = ''DT_URL''\<rparr>
      = Inr \<lparr>ud_Type = EnvironmentURLType, ud_Name = ''DT_URL'', ud_Value = ''https://a.b''\<rparr>
   \<and> (\<exists>raw. (Map.empty(''DT_URL'' \<mapsto> ''https://a.b/'')) ''DT_URL'' = Some raw
          \<and> raw = ''https://a.b'' @ ''/'')"
  using C8_parseURLDefinition
    [of "\<lparr>u_Type = ''value'', u_Value = ''''\<rparr>"
        "\<lparr>lc_ManifestPath = ''manifest.yaml'', lc_Environments = [], lc_Groups = [],
          lc_Opts = \<lparr>DontResolveEnvVars = False\<rparr>\<rparr>"
        Map.empty]
    C8_parseURLDefinition
    [of "\<lparr>u_Type = ''environment'', u_Value = ''DT_URL''\<rparr>"
        "\<lparr>lc_ManifestPath = ''manifest.yaml'', lc_Environments = [], lc_Groups = [],
          lc_Opts = \<lparr>DontResolveEnvVars = False\<rparr>\<rparr>"
        "Map.empty(''DT_URL'' \<mapsto> ''https://a.b/'')"
        "\<lparr>ud_Type = EnvironmentURLType, ud_Name = ''DT_URL'', ud_Value = ''https://a.b''\<rparr>"]
  by (simp add: parseURLDefinition_def urlTypeValue_def urlTypeEnvironment_def
      TrimSuffix_def HasSuffix_def)

lemma parseEnvironment_errors:
  "parseEnvironment context osenv env g = Inl errs \<Longrightarrow> x \<in> set errs \<Longrightarrow> \<not> isRequestedNotFound x"
  by (auto simp: parseEnvironment_def Let_def isRequestedNotFound_def
      newManifestEnvironmentLoaderError_def split: sum.splits)

lemma envStep_groupNames: "te_groupNames (envStep context osenv grp je st) = te_groupNames st"
  by (simp add: envStep_def Let_def split: sum.splits)

lemma envStep_envNames:
  "te_envNames (envStep context osenv grp je st)
     = te_envNames st \<union> ({e_Name (snd je)} - {''''})"
  by (auto simp: envStep_def Let_def split: sum.splits)

lemma envStep_errors:
  "\<forall>x \<in> set (te_errors st). \<not> isRequestedNotFound x \<Longrightarrow>
   \<forall>x \<in> set (te_errors (envStep context osenv grp je st)). \<not> isRequestedNotFound x"
  by (auto simp: envStep_def Let_def isRequestedNotFound_def newManifestLoaderError_def
      split: sum.splits dest: parseEnvironment_errors)

lemma fold_envStep_groupNames:
  "te_groupNames (fold (envStep context osenv grp) (enumerate n envs) st) = te_groupNames st"
  by (induction envs arbitrary: n st) (simp_all add: envStep_groupNames)

lemma fold_envStep_envNames:
  "te_envNames (fold (envStep context osenv grp) (enumerate n envs) st)
     = te_envNames st \<union> (e_Name ` set envs - {''''})"
proof (induction envs arbitrary: n st)
  case Nil
  then show ?case by simp
next
  case (Cons env envs)
  have "te_envNames (fold (envStep context osenv grp) (enumerate n (env # envs)) st)
      = te_envNames (envStep context osenv grp (n, env) st) \<union> (e_Name ` set envs - {''''})"
    by (simp add: Cons.IH)
  also have "\<dots> = (te_envNames st \<union> ({e_Name env} - {''''})) \<union> (e_Name ` set envs - {''''})"
    by (simp only: envStep_envNames snd_conv)
  also have "\<dots> = te_envNames st \<union> (e_Name ` set (env # envs) - {''''})"
    by auto
  finally show ?case .
qed

lemma fold_envStep_errors:
  "\<forall>x \<in> set (te_errors st). \<not> isRequestedNotFound x \<Longrightarrow>
   \<forall>x \<in> set (te_errors (fold (envStep context osenv grp) (enumerate n envs) st)).
      \<not> isRequestedNotFound x"
proof (induction envs arbitrary: n st)
  case Nil
  then show ?case by simp
next
  case (Cons env envs)
  from Cons.prems
  have "\<forall>x \<in> set (te_errors (envStep context osenv grp (n, env) st)). \<not> isRequestedNotFound x"
    by (rule envStep_errors)
  then have "\<forall>x \<in> set (te_errors (fold (envStep context osenv grp) (enumerate (Suc n) envs)
                (envStep context osenv grp (n, env) st))). \<not> isRequestedNotFound x"
    by (rule Cons.IH)
  then show ?case by simp
qed

text \<open>The state of \<open>groupStep\<close> before it enters the loop over the group's environments.\<close>

lemma groupStep_unfold:
  "\<exists>st3. groupStep context osenv ig st
            = fold (envStep context osenv (snd ig)) (enumerate 0 (g_Environments (snd ig))) st3
     \<and> te_groupNames st3 = insert (g_Name (snd ig)) (te_groupNames st)
     \<and> te_envNames st3 = te_envNames st
     \<and> ((\<forall>x \<in> set (te_errors st). \<not> isRequestedNotFound x) \<longrightarrow>
          (\<forall>x \<in> set (te_errors st3). \<not> isRequestedNotFound x))"
proof -
  define st1 where "st1 =
    (if g_Name (snd ig) = '''' then
       st\<lparr>te_errors := te_errors st @
            [newManifestLoaderError (lc_ManifestPath context) (MissingGroupName (fst ig))]\<rparr>
     else st)"
  define st2 where "st2 =
    (if g_Name (snd ig) \<in> te_groupNames st1 then
       st1\<lparr>te_errors := te_errors st1 @
             [newManifestLoaderError (lc_ManifestPath context)
                (DuplicatedGroupName (g_Name (snd ig)))]\<rparr>
     else st1)"
  define st3 where "st3 = st2\<lparr>te_groupNames := insert (g_Name (snd ig)) (te_groupNames st2)\<rparr>"
  have g: "groupStep context osenv ig st
      = fold (envStep context osenv (snd ig)) (enumerate 0 (g_Environments (snd ig))) st3"
    by (simp add: groupStep_def st3_def st2_def st1_def Let_def)
  have n1: "te_groupNames st1 = te_groupNames st" "te_envNames st1 = te_envNames st"
    by (simp_all add: st1_def)
  have n2: "te_groupNames st2 = te_groupNames st" "te_envNames st2 = te_envNames st"
    by (simp_all add: st2_def n1)
  have a: "te_groupNames st3 = insert (g_Name (snd ig)) (te_groupNames st)"
    by (simp add: st3_def n2)
  have b: "te_envNames st3 = te_envNames st" by (simp add: st3_def n2)
  have e1: "set (te_errors st1) \<subseteq> set (te_errors st)
      \<union> {ManifestLoaderError (lc_ManifestPath context) (MissingGroupName (fst ig))}"
    by (auto simp: st1_def newManifestLoaderError_def)
  have e2: "set (te_errors st2) \<subseteq> set (te_errors st1)
      \<union> {ManifestLoaderError (lc_ManifestPath context) (DuplicatedGroupName (g_Name (snd ig)))}"
    by (auto simp: st2_def newManifestLoaderError_def)
  have e3: "te_errors st3 = te_errors st2" by (simp add: st3_def)
  have c: "(\<forall>x \<in> set (te_errors st). \<not> isRequestedNotFound x) \<longrightarrow>
       (\<forall>x \<in> set (te_errors st3). \<not> isRequestedNotFound x)"
  proof (intro impI ballI)
    fix x
    assume h: "\<forall>x \<in> set (te_errors st). \<not> isRequestedNotFound x" and x: "x \<in> set (te_errors st3)"
    from x e1 e2 e3 have "x \<in> set (te_errors st)
        \<or> x = ManifestLoaderError (lc_ManifestPath context) (MissingGroupName (fst ig))
        \<or> x = ManifestLoaderError (lc_ManifestPath context) (DuplicatedGroupName (g_Name (snd ig)))"
      by auto
    with h show "\<not> isRequestedNotFound x" by (auto simp: isRequestedNotFound_def)
  qed
  from g a b c show ?thesis by blast
qed

lemma groupStep_groupNames:
  "te_groupNames (groupStep context osenv ig st) = insert (g_Name (snd ig)) (te_groupNames st)"
  using groupStep_unfold[of "context" osenv ig st] by (auto simp: fold_envStep_groupNames)

lemma groupStep_envNames:
  "te_envNames (groupStep context osenv ig st)
     = te_envNames st \<union> (e_Name ` set (g_Environments (snd ig)) - {''''})"
  using groupStep_unfold[of "context" osenv ig st] by (auto simp: fold_envStep_envNames)

lemma groupStep_errors:
  assumes "\<forall>x \<in> set (te_errors st). \<not> isRequestedNotFound x"
  shows "\<forall>x \<in> set (te_errors (groupStep context osenv ig st)). \<not> isRequestedNotFound x"
proof -
  from groupStep_unfold[of "context" osenv ig st] assms obtain st3 where
    g: "groupStep context osenv ig st
          = fold (envStep context osenv (snd ig)) (enumerate 0 (g_Environments (snd ig))) st3"
    and c: "\<forall>x \<in> set (te_errors st3). \<not> isRequestedNotFound x"
    by blast
  from c show ?thesis unfolding g by (rule fold_envStep_errors)
qed

lemma fold_groupStep_groupNames:
  "te_groupNames (fold (groupStep context osenv) (enumerate n groups) st)
     = te_groupNames st \<union> definedGroupNames groups"
  by (induction groups arbitrary: n st)
     (simp_all add: groupStep_groupNames definedGroupNames_def)

lemma fold_groupStep_envNames:
  "te_envNames (fold (groupStep context osenv) (enumerate n groups) st)
     = te_envNames st \<union> (definedEnvironmentNames groups - {''''})"
proof (induction groups arbitrary: n st)
  case Nil
  then show ?case by (simp add: definedEnvironmentNames_def)
next
  case (Cons grp groups)
  have "te_envNames (fold (groupStep context osenv) (enumerate n (grp # groups)) st)
      = te_envNames (groupStep context osenv (n, grp) st)
        \<union> (definedEnvironmentNames groups - {''''})"
    by (simp add: Cons.IH)
  also have "\<dots> = (te_envNames st \<union> (e_Name ` set (g_Environments grp) - {''''}))
        \<union> (definedEnvironmentNames groups - {''''})"
    by (simp only: groupStep_envNames snd_conv)
  also have "\<dots> = te_envNames st \<union> (definedEnvironmentNames (grp # groups) - {''''})"
    by (auto simp: definedEnvironmentNames_def)
  finally show ?case .
qed

lemma fold_groupStep_errors:
  "\<forall>x \<in> set (te_errors st). \<not> isRequestedNotFound x \<Longrightarrow>
   \<forall>x \<in> set (te_errors (fold (groupStep context osenv) (enumerate n groups) st)).
      \<not> isRequestedNotFound x"
proof (induction groups arbitrary: n st)
  case Nil
  then show ?case by simp
next
  case (Cons grp groups)
  from Cons.prems
  have "\<forall>x \<in> set (te_errors (groupStep context osenv (n, grp) st)). \<not> isRequestedNotFound x"
    by (rule groupStep_errors)
  then have "\<forall>x \<in> set (te_errors (fold (groupStep context osenv) (enumerate (Suc n) groups)
                (groupStep context osenv (n, grp) st))). \<not> isRequestedNotFound x"
    by (rule Cons.IH)
  then show ?case by simp
qed

lemma loopState_facts:
  "te_groupNames (loopState context osenv groups) = definedGroupNames groups"
  "te_envNames (loopState context osenv groups) = definedEnvironmentNames groups - {''''}"
  "isRequestedNotFound x \<Longrightarrow> count_list (te_errors (loopState context osenv groups)) x = 0"
proof -
  show "te_groupNames (loopState context osenv groups) = definedGroupNames groups"
    by (simp add: loopState_def fold_groupStep_groupNames)
  show "te_envNames (loopState context osenv groups) = definedEnvironmentNames groups - {''''}"
    by (simp add: loopState_def fold_groupStep_envNames)
  have "\<forall>x \<in> set (te_errors (loopState context osenv groups)). \<not> isRequestedNotFound x"
    unfolding loopState_def by (rule fold_groupStep_errors) simp
  then show "isRequestedNotFound x \<Longrightarrow> count_list (te_errors (loopState context osenv groups)) x = 0"
    by (auto simp: count_list_0_iff)
qed

lemma count_requested_map:
  "inj f \<Longrightarrow> count_list (map f (filter P xs)) (f x) = (if P x then count_list xs x else 0)"
  by (induction xs) (auto dest: injD)

lemma count_requested_other:
  "\<forall>y. f y \<noteq> z \<Longrightarrow> count_list (map f xs) z = 0"
  by (induction xs) auto

lemma count_requestedGroupErrors:
  "count_list (requestedGroupErrors context names)
      (ManifestLoaderError (lc_ManifestPath context) (RequestedGroupNotFound g))
     = (if g \<notin> names then count_list (lc_Groups context) g else 0)"
  unfolding requestedGroupErrors_def newManifestLoaderError_def
  by (rule count_requested_map) (simp add: inj_def)

lemma count_requestedEnvironmentErrors:
  "count_list (requestedEnvironmentErrors context names)
      (ManifestLoaderError (lc_ManifestPath context) (RequestedEnvironmentNotFound e))
     = (if e \<notin> names then count_list (lc_Environments context) e else 0)"
  unfolding requestedEnvironmentErrors_def newManifestLoaderError_def
  by (rule count_requested_map) (simp add: inj_def)

lemma count_requested_cross:
  "count_list (requestedGroupErrors context names)
      (ManifestLoaderError p (RequestedEnvironmentNotFound e)) = 0"
  "count_list (requestedEnvironmentErrors context names)
      (ManifestLoaderError p (RequestedGroupNotFound g)) = 0"
  unfolding requestedGroupErrors_def requestedEnvironmentErrors_def newManifestLoaderError_def
  by (rule count_requested_other, simp)+

lemma toEnvironments_if:
  "toEnvironments context osenv groups =
     (if te_errors (loopState context osenv groups)
           @ requestedGroupErrors context (definedGroupNames groups)
           @ requestedEnvironmentErrors context (definedEnvironmentNames groups - {[]}) \<noteq> []
      then ([], te_errors (loopState context osenv groups)
           @ requestedGroupErrors context (definedGroupNames groups)
           @ requestedEnvironmentErrors context (definedEnvironmentNames groups - {[]}))
      else (te_environments (loopState context osenv groups), []))"
  unfolding toEnvironments_def Let_def loopState_def[symmetric] loopState_facts ..

lemma toEnvironments_errors:
  "snd (toEnvironments context osenv groups)
     = te_errors (loopState context osenv groups)
       @ requestedGroupErrors context (definedGroupNames groups)
       @ requestedEnvironmentErrors context (definedEnvironmentNames groups - {[]})"
  "snd (toEnvironments context osenv groups) \<noteq> [] \<Longrightarrow> fst (toEnvironments context osenv groups) = []"
proof -
  let ?E = "te_errors (loopState context osenv groups)
       @ requestedGroupErrors context (definedGroupNames groups)
       @ requestedEnvironmentErrors context (definedEnvironmentNames groups - {[]})"
  show s: "snd (toEnvironments context osenv groups) = ?E"
  proof (cases "?E = []")
    case True
    then show ?thesis by (simp add: toEnvironments_if)
  next
    case False
    then show ?thesis by (simp add: toEnvironments_if)
  qed
  show "snd (toEnvironments context osenv groups) \<noteq> [] \<Longrightarrow> fst (toEnvironments context osenv groups) = []"
    unfolding s by (simp add: toEnvironments_if)
qed

lemma toEnvironments_group_count:
  assumes "g \<notin> definedGroupNames groups"
  shows "count_list (snd (toEnvironments context osenv groups))
           (ManifestLoaderError (lc_ManifestPath context) (RequestedGroupNotFound g))
         = count_list (lc_Groups context) g"
  using assms
  by (simp add: toEnvironments_errors(1) count_requestedGroupErrors count_requested_cross
      loopState_facts(3) isRequestedNotFound_def)

lemma toEnvironments_environment_count:
  assumes "e \<notin> definedEnvironmentNames groups"
  shows "count_list (snd (toEnvironments context osenv groups))
           (ManifestLoaderError (lc_ManifestPath context) (RequestedEnvironmentNotFound e))
         = count_list (lc_Environments context) e"
  using assms
  by (simp add: toEnvironments_errors(1) count_requestedEnvironmentErrors count_requested_cross
      loopState_facts(3) isRequestedNotFound_def)

lemma LoadManifest_environment_errors:
  assumes "x \<in> set (snd (toEnvironments context osenv (EnvironmentGroups m)))"
  shows "fst (LoadManifest vp context osenv (Inr m) tpd) = empty_Manifest"
    and "snd (LoadManifest vp context osenv (Inr m) tpd) \<noteq> []"
    and "verifyManifestYAML vp m = [] \<Longrightarrow> x \<in> set (snd (LoadManifest vp context osenv (Inr m) tpd))"
proof -
  from assms have ne: "snd (toEnvironments context osenv (EnvironmentGroups m)) \<noteq> []" by auto
  show "fst (LoadManifest vp context osenv (Inr m) tpd) = empty_Manifest"
    using ne by (simp add: LoadManifest_def Let_def)
  show "snd (LoadManifest vp context osenv (Inr m) tpd) \<noteq> []"
    using ne by (simp add: LoadManifest_def Let_def)
  show "verifyManifestYAML vp m = [] \<Longrightarrow> x \<in> set (snd (LoadManifest vp context osenv (Inr m) tpd))"
    using ne assms by (simp add: LoadManifest_def Let_def)
qed

text \<open>
  C10: a name requested in the group filter that is the name of no group of the manifest,
  and a name requested in the environment filter that is the name of no environment of
  the manifest, each gets its own error, "requested group not found" or "requested
  environment not found" with that name, once for every time the filter lists it.
  \<open>toEnvironments\<close> then returns no environments at all, and \<open>LoadManifest\<close> returns no
  manifest and a non-empty error list, which holds that error whenever the manifest
  passed the checks made before the environments are read.
\<close>

theorem C10_requested_names_not_found:
  "(g \<in> set (lc_Groups context) \<and> g \<notin> definedGroupNames (EnvironmentGroups m) \<longrightarrow>
      fst (toEnvironments context osenv (EnvironmentGroups m)) = []
      \<and> ManifestLoaderError (lc_ManifestPath context) (RequestedGroupNotFound g)
          \<in> set (snd (toEnvironments context osenv (EnvironmentGroups m)))
      \<and> count_list (snd (toEnvironments context osenv (EnvironmentGroups m)))
             (ManifestLoaderError (lc_ManifestPath context) (RequestedGroupNotFound g))
          = count_list (lc_Groups context) g
      \<and> fst (LoadManifest vp context osenv (Inr m) tpd) = empty_Manifest
      \<and> snd (LoadManifest vp context osenv (Inr m) tpd) \<noteq> []
      \<and> (verifyManifestYAML vp m = [] \<longrightarrow>
           ManifestLoaderError (lc_ManifestPath context) (RequestedGroupNotFound g)
             \<in> set (snd (LoadManifest vp context osenv (Inr m) tpd))))
   \<and> (e \<in> set (lc_Environments context) \<and> e \<notin> definedEnvironmentNames (EnvironmentGroups m) \<longrightarrow>
      fst (toEnvironments context osenv (EnvironmentGroups m)) = []
      \<and> ManifestLoaderError (lc_ManifestPath context) (RequestedEnvironmentNotFound e)
          \<in> set (snd (toEnvironments context osenv (EnvironmentGroups m)))
      \<and> count_list (snd (toEnvironments context osenv (EnvironmentGroups m)))
             (ManifestLoaderError (lc_ManifestPath context) (RequestedEnvironmentNotFound e))
          = count_list (lc_Environments context) e
      \<and> fst (LoadManifest vp context osenv (Inr m) tpd) = empty_Manifest
      \<and> snd (LoadManifest vp context osenv (Inr m) tpd) \<noteq> []
      \<and> (verifyManifestYAML vp m = [] \<longrightarrow>
           ManifestLoaderError (lc_ManifestPath context) (RequestedEnvironmentNotFound e)
             \<in> set (snd (LoadManifest vp context osenv (Inr m) tpd))))"
proof (intro conjI impI)
  assume a: "g \<in> set (lc_Groups context) \<and> g \<notin> definedGroupNames (EnvironmentGroups m)"
  let ?x = "ManifestLoaderError (lc_ManifestPath context) (RequestedGroupNotFound g)"
  let ?errs = "snd (toEnvironments context osenv (EnvironmentGroups m))"
  from a have c: "count_list ?errs ?x = count_list (lc_Groups context) g"
    by (simp add: toEnvironments_group_count)
  from a have "count_list (lc_Groups context) g \<noteq> 0" by (simp add: count_list_0_iff)
  with c have mem: "?x \<in> set ?errs" by (metis count_list_0_iff)
  then have "?errs \<noteq> []" by auto
  then have f: "fst (toEnvironments context osenv (EnvironmentGroups m)) = []"
    by (rule toEnvironments_errors(2))
  note l = LoadManifest_environment_errors[OF mem, of vp tpd]
  show "fst (toEnvironments context osenv (EnvironmentGroups m)) = []" by (rule f)
  show "?x \<in> set ?errs" by (rule mem)
  show "count_list ?errs ?x = count_list (lc_Groups context) g" by (rule c)
  show "fst (LoadManifest vp context osenv (Inr m) tpd) = empty_Manifest" by (rule l(1))
  show "snd (LoadManifest vp context osenv (Inr m) tpd) \<noteq> []" by (rule l(2))
  show "verifyManifestYAML vp m = [] \<Longrightarrow> ?x \<in> set (snd (LoadManifest vp context osenv (Inr m) tpd))"
    by (rule l(3))
next
  assume a: "e \<in> set (lc_Environments context) \<and> e \<notin> definedEnvironmentNames (EnvironmentGroups m)"
  let ?x = "ManifestLoaderError (lc_ManifestPath context) (RequestedEnvironmentNotFound e)"
  let ?errs = "snd (toEnvironments context osenv (EnvironmentGroups m))"
  from a have c: "count_list ?errs ?x = count_list (lc_Environments context) e"
    by (simp add: toEnvironments_environment_count)
  from a have "count_list (lc_Environments context) e \<noteq> 0" by (simp add: count_list_0_iff)
  with c have mem: "?x \<in> set ?errs" by (metis count_list_0_iff)
  then have "?errs \<noteq> []" by auto
  then have f: "fst (toEnvironments context osenv (EnvironmentGroups m)) = []"
    by (rule toEnvironments_errors(2))
  note l = LoadManifest_environment_errors[OF mem, of vp tpd]
  show "fst (toEnvironments context osenv (EnvironmentGroups m)) = []" by (rule f)
  show "?x \<in> set ?errs" by (rule mem)
  show "count_list ?errs ?x = count_list (lc_Environments context) e" by (rule c)
  show "fst (LoadManifest vp context osenv (Inr m) tpd) = empty_Manifest" by (rule l(1))
  show "snd (LoadManifest vp context osenv (Inr m) tpd) \<noteq> []" by (rule l(2))
  show "verifyManifestYAML vp m = [] \<Longrightarrow> ?x \<in> set (snd (LoadManifest vp context osenv (Inr m) tpd))"
    by (rule l(3))
qed

theorem C10_requested_names_not_found_witness:
  "(let ctx = \<lparr>lc_ManifestPath = ''manifest.yaml'', lc_Environments = [''staging''],
               lc_Groups = [''prod''], lc_Opts = \<lparr>DontResolveEnvVars = False\<rparr>\<rparr>;
        m = \<lparr>ManifestVersion = ''1.0'',
             Projects = [\<lparr>p_Name = ''infra'', p_Type = '''', p_Path = ''''\<rparr>],
             EnvironmentGroups = [\<lparr>g_Name = ''dev'', g_Environments =
               [\<lparr>e_Name = ''test'', e_URL = \<lparr>u_Type = ''value'', u_Value = ''https://a.b''\<rparr>,
                 e_Auth = \<lparr>a_Token = \<lparr>s_Type = '''', s_Name = ''TOKEN''\<rparr>,
                           a_OAuth = None\<rparr>\<rparr>]\<rparr>]\<rparr>;
        vp = \<lparr>ParseVersion = (\<lambda>s. Inr (1::nat)),
              SmallerThan = (\<lambda>a b. a < b), GreaterThan = (\<lambda>a b. b < a),
              minSupportedManifestVersion = 1, maxSupportedManifestVersion = 1\<rparr>;
        tpd = ([(''infra'', \<lparr>pd_Name = ''infra'', pd_Group = '''', pd_Path = ''infra''\<rparr>)], [])
    in ''prod'' \<in> set (lc_Groups ctx)
       \<and> ''prod'' \<notin> definedGroupNames (EnvironmentGroups m)
       \<and> ''staging'' \<in> set (lc_Environments ctx)
       \<and> ''staging'' \<notin> definedEnvironmentNames (EnvironmentGroups m)
       \<and> verifyManifestYAML vp m = []
       \<and> toEnvironments ctx Map.empty (EnvironmentGroups m)
           = ([], [ManifestLoaderError ''manifest.yaml'' (RequestedGroupNotFound ''prod''),
                   ManifestLoaderError ''manifest.yaml''
                     (RequestedEnvironmentNotFound ''staging'')])
       \<and> fst (LoadManifest vp ctx Map.empty (Inr m) tpd) = empty_Manifest
       \<and> ManifestLoaderError ''manifest.yaml'' (RequestedGroupNotFound ''prod'')
           \<in> set (snd (LoadManifest vp ctx Map.empty (Inr m) tpd))
       \<and> ManifestLoaderError ''manifest.yaml'' (RequestedEnvironmentNotFound ''staging'')
           \<in> set (snd (LoadManifest vp ctx Map.empty (Inr m) tpd)))"
proof -
  define ctx where "ctx = \<lparr>lc_ManifestPath = ''manifest.yaml'', lc_Environments = [''staging''],
               lc_Groups = [''prod''], lc_Opts = \<lparr>DontResolveEnvVars = False\<rparr>\<rparr>"
  define m where "m = \<lparr>ManifestVersion = ''1.0'',
             Projects = [\<lparr>p_Name = ''infra'', p_Type = '''', p_Path = ''''\<rparr>],
             EnvironmentGroups = [\<lparr>g_Name = ''dev'', g_Environments =
               [\<lparr>e_Name = ''test'', e_URL = \<lparr>u_Type = ''value'', u_Value = ''https://a.b''\<rparr>,
                 e_Auth = \<lparr>a_Token = \<lparr>s_Type = '''', s_Name = ''TOKEN''\<rparr>,
                           a_OAuth = None\<rparr>\<rparr>]\<rparr>]\<rparr>"
  define vp :: "nat versioning" where "vp = \<lparr>ParseVersion = (\<lambda>s. Inr (1::nat)),
              SmallerThan = (\<lambda>a b. a < b), GreaterThan = (\<lambda>a b. b < a),
              minSupportedManifestVersion = 1, maxSupportedManifestVersion = 1\<rparr>"
  define tpd :: "(string \<times> ProjectDefinition) list \<times> lerror list" where
    "tpd = ([(''infra'', \<lparr>pd_Name = ''infra'', pd_Group = '''', pd_Path = ''infra''\<rparr>)], [])"
  have g: "''prod'' \<in> set (lc_Groups ctx) \<and> ''prod'' \<notin> definedGroupNames (EnvironmentGroups m)"
    by (simp add: ctx_def m_def definedGroupNames_def)
  have e: "''staging'' \<in> set (lc_Environments ctx)
      \<and> ''staging'' \<notin> definedEnvironmentNames (EnvironmentGroups m)"
    by (simp add: ctx_def m_def definedEnvironmentNames_def)
  have v: "verifyManifestYAML vp m = []"
    by (simp add: verifyManifestYAML_def validateManifestVersion_def vp_def m_def)
  have te: "toEnvironments ctx Map.empty (EnvironmentGroups m)
      = ([], [ManifestLoaderError ''manifest.yaml'' (RequestedGroupNotFound ''prod''),
              ManifestLoaderError ''manifest.yaml'' (RequestedEnvironmentNotFound ''staging'')])"
    by (simp add: toEnvironments_def groupStep_def envStep_def shouldSkipEnv_def Let_def
        requestedGroupErrors_def requestedEnvironmentErrors_def newManifestLoaderError_def
        ctx_def m_def)
  have p: "lc_ManifestPath ctx = ''manifest.yaml''" by (simp add: ctx_def)
  from C10_requested_names_not_found[of "''prod''" ctx m Map.empty vp tpd "''staging''"] g e v
  have "fst (LoadManifest vp ctx Map.empty (Inr m) tpd) = empty_Manifest
       \<and> ManifestLoaderError ''manifest.yaml'' (RequestedGroupNotFound ''prod'')
           \<in> set (snd (LoadManifest vp ctx Map.empty (Inr m) tpd))
       \<and> ManifestLoaderError ''manifest.yaml'' (RequestedEnvironmentNotFound ''staging'')
           \<in> set (snd (LoadManifest vp ctx Map.empty (Inr m) tpd))"
    unfolding p by blast
  with g e v te show ?thesis
    unfolding Let_def ctx_def[symmetric] m_def[symmetric] vp_def[symmetric] tpd_def[symmetric]
    by simp
qed

section \<open>Properties of the project loader\<close>

lemma findDuplicatedLoop_mono:
  "set duplicates \<subseteq> set (findDuplicatedLoop cs coordinates duplicates)"
proof (induction cs arbitrary: coordinates duplicates)
  case Nil
  then show ?case by simp
next
  case (Cons c cs)
  let ?id = "toFullyQualifiedConfigIdentifier c"
  let ?d = "if ?id \<in> coordinates then duplicates @ [c] else duplicates"
  have "set duplicates \<subseteq> set ?d" by auto
  also have "set ?d \<subseteq> set (findDuplicatedLoop cs (insert ?id coordinates) ?d)"
    by (rule Cons.IH)
  finally show ?case by (simp add: Let_def)
qed

lemma same_tuple_same_identifier:
  "cfg_Group a = cfg_Group b \<Longrightarrow> cfg_Environment a = cfg_Environment b \<Longrightarrow>
   cfg_Coordinate a = cfg_Coordinate b \<Longrightarrow>
   toFullyQualifiedConfigIdentifier a = toFullyQualifiedConfigIdentifier b"
  by (simp add: toFullyQualifiedConfigIdentifier_def)

text \<open>
  A configuration whose identifier was seen before, or whose tuple occurs twice in the
  rest of the list, has a configuration of the same tuple among the duplicates.
\<close>

lemma findDuplicatedLoop_finds:
  assumes "(\<exists>c' \<in> set cs. P c' \<and> toFullyQualifiedConfigIdentifier c' \<in> coordinates)
           \<or> 1 < length (filter P cs)"
    and "\<And>a b. P a \<Longrightarrow> P b \<Longrightarrow>
           toFullyQualifiedConfigIdentifier a = toFullyQualifiedConfigIdentifier b"
  shows "\<exists>d \<in> set (findDuplicatedLoop cs coordinates duplicates). P d"
  using assms(1)
proof (induction cs arbitrary: coordinates duplicates)
  case Nil
  then show ?case by simp
next
  case (Cons c cs)
  let ?id = "toFullyQualifiedConfigIdentifier c"
  let ?d = "if ?id \<in> coordinates then duplicates @ [c] else duplicates"
  have step: "findDuplicatedLoop (c # cs) coordinates duplicates
      = findDuplicatedLoop cs (insert ?id coordinates) ?d"
    by (simp add: Let_def)
  show ?case
  proof (cases "P c \<and> ?id \<in> coordinates")
    case True
    then have "c \<in> set ?d" by simp
    then have "c \<in> set (findDuplicatedLoop cs (insert ?id coordinates) ?d)"
      using findDuplicatedLoop_mono by blast
    with True show ?thesis unfolding step by blast
  next
    case False
    have "(\<exists>c' \<in> set cs. P c' \<and> toFullyQualifiedConfigIdentifier c' \<in> insert ?id coordinates)
           \<or> 1 < length (filter P cs)"
    proof (cases "P c")
      case True
      with False have notin: "?id \<notin> coordinates" by simp
      from Cons.prems True notin
      have "(\<exists>c' \<in> set cs. P c') \<or> 0 < length (filter P cs)" by auto
      then have "\<exists>c' \<in> set cs. P c'"
        by (auto simp: filter_empty_conv)
      then obtain c' where c': "c' \<in> set cs" "P c'" by blast
      from c'(2) True have "toFullyQualifiedConfigIdentifier c' = ?id" by (rule assms(2))
      with c' show ?thesis by auto
    next
      case False
      with Cons.prems show ?thesis by auto
    qed
    then have "\<exists>d \<in> set (findDuplicatedLoop cs (insert ?id coordinates) ?d). P d"
      by (rule Cons.IH)
    then show ?thesis unfolding step .
  qed
qed

lemma findDuplicatedConfigIdentifiers_finds:
  assumes "1 < length (filter (\<lambda>c'. cfg_Group c' = cfg_Group c
                \<and> cfg_Environment c' = cfg_Environment c
                \<and> cfg_Coordinate c' = cfg_Coordinate c) configs)"
  shows "\<exists>d \<in> set (findDuplicatedConfigIdentifiers configs).
           cfg_Group d = cfg_Group c \<and> cfg_Environment d = cfg_Environment c
           \<and> cfg_Coordinate d = cfg_Coordinate c"
  unfolding findDuplicatedConfigIdentifiers_def
  by (rule findDuplicatedLoop_finds [where P = "\<lambda>c'. cfg_Group c' = cfg_Group c
                \<and> cfg_Environment c' = cfg_Environment c
                \<and> cfg_Coordinate c' = cfg_Coordinate c"])
     (use assms in \<open>auto intro: same_tuple_same_identifier\<close>)

text \<open>
  C7: when the project's path exists, every loaded configuration whose tuple (Group,
  Environment, Coordinate) occurs more than once among the loaded configurations is
  reported by a \<open>DuplicateConfigIdentifierError\<close> that carries its coordinate, group and
  environment, and \<open>loadProject\<close> returns errors and the zero project instead of a project.
\<close>

theorem C7_duplicate_identifiers_reported:
  assumes "fs_Exists fs (pd_Path pd) = Inr True"
    and "c \<in> set (fst (loadConfigsOfProject fs context pd envs))"
    and "1 < length (filter (\<lambda>c'. cfg_Group c' = cfg_Group c
                \<and> cfg_Environment c' = cfg_Environment c
                \<and> cfg_Coordinate c' = cfg_Coordinate c)
              (fst (loadConfigsOfProject fs context pd envs)))"
  shows "fst (loadProject fs context pd envs) = empty_Project
    \<and> DuplicateConfigIdentifierError (cfg_Coordinate c)
         \<lparr>det_Group = cfg_Group c, det_Environment = cfg_Environment c\<rparr>
       \<in> set (snd (loadProject fs context pd envs))"
proof -
  let ?configs = "fst (loadConfigsOfProject fs context pd envs)"
  let ?errors = "snd (loadConfigsOfProject fs context pd envs)
                   @ map newDuplicateConfigIdentifierError
                       (findDuplicatedConfigIdentifiers ?configs)"
  from findDuplicatedConfigIdentifiers_finds[OF assms(3)]
  obtain d where d: "d \<in> set (findDuplicatedConfigIdentifiers ?configs)"
    "cfg_Group d = cfg_Group c" "cfg_Environment d = cfg_Environment c"
    "cfg_Coordinate d = cfg_Coordinate c" by blast
  have "newDuplicateConfigIdentifierError d \<in> set ?errors" using d(1) by simp
  then have mem: "DuplicateConfigIdentifierError (cfg_Coordinate c)
         \<lparr>det_Group = cfg_Group c, det_Environment = cfg_Environment c\<rparr> \<in> set ?errors"
    by (simp add: newDuplicateConfigIdentifierError_def d)
  then have ne: "?errors \<noteq> []" by auto
  have lp: "loadProject fs context pd envs = (empty_Project, ?errors)"
    using ne assms(1) by (simp add: loadProject_def Let_def)
  show ?thesis using mem unfolding lp by simp
qed

theorem C7_duplicate_identifiers_reported_witness:
  "(let cfg = \<lparr>cfg_Template = ''{}'',
               cfg_Coordinate = \<lparr>Project = ''infra'', Type = ''dashboard'', ConfigId = ''main''\<rparr>,
               cfg_Group = ''default'', cfg_Environment = ''dev'',
               cfg_Type = ClassicApiType ''dashboard'', cfg_Parameters = [],
               cfg_Skip = False, cfg_OriginObjectId = ''''\<rparr>;
        fs = \<lparr>fs_Exists = (\<lambda>p. Inr True), fs_findConfigFiles = (\<lambda>p. Inr [''a.yaml'', ''b.yaml'']),
              fs_LoadConfig = (\<lambda>pd envs file. ([cfg], []))\<rparr>;
        ctx = \<lparr>plc_WorkingDir = ''.'', plc_Manifest = empty_Manifest\<rparr>;
        pd = \<lparr>pd_Name = ''infra'', pd_Group = '''', pd_Path = ''infra''\<rparr>
    in fs_Exists fs (pd_Path pd) = Inr True
       \<and> fst (loadConfigsOfProject fs ctx pd []) = [cfg, cfg]
       \<and> fst (loadProject fs ctx pd []) = empty_Project
       \<and> DuplicateConfigIdentifierError
            \<lparr>Project = ''infra'', Type = ''dashboard'', ConfigId = ''main''\<rparr>
            \<lparr>det_Group = ''default'', det_Environment = ''dev''\<rparr>
          \<in> set (snd (loadProject fs ctx pd [])))"
  using C7_duplicate_identifiers_reported
    [of "\<lparr>fs_Exists = (\<lambda>p. Inr True), fs_findConfigFiles = (\<lambda>p. Inr [''a.yaml'', ''b.yaml'']),
          fs_LoadConfig = (\<lambda>pd envs file.
            ([\<lparr>cfg_Template = ''{}'',
               cfg_Coordinate = \<lparr>Project = ''infra'', Type = ''dashboard'', ConfigId = ''main''\<rparr>,
               cfg_Group = ''default'', cfg_Environment = ''dev'',
               cfg_Type = ClassicApiType ''dashboard'', cfg_Parameters = [],
               cfg_Skip = False, cfg_OriginObjectId = ''''\<rparr>], []))\<rparr>"
        "\<lparr>pd_Name = ''infra'', pd_Group = '''', pd_Path = ''infra''\<rparr>"
        "\<lparr>cfg_Template = ''{}'',
               cfg_Coordinate = \<lparr>Project = ''infra'', Type = ''dashboard'', ConfigId = ''main''\<rparr>,
               cfg_Group = ''default'', cfg_Environment = ''dev'',
               cfg_Type = ClassicApiType ''dashboard'', cfg_Parameters = [],
               cfg_Skip = False, cfg_OriginObjectId = ''''\<rparr>"
        "\<lparr>plc_WorkingDir = ''.'', plc_Manifest = empty_Manifest\<rparr>"
        "[]"]
  by (simp add: Let_def loadConfigsOfProject_def)

lemma LoadProjects_fold:
  "fold (\<lambda>kv (projects, errors).
            (let lp = f kv
             in if snd lp \<noteq> [] then (projects, errors @ snd lp)
                else (projects @ [fst lp], errors)))
      defs (ps, es)
   = (ps @ map (\<lambda>kv. fst (f kv)) (filter (\<lambda>kv. snd (f kv) = []) defs),
      es @ concat (map (\<lambda>kv. snd (f kv)) defs))"
  by (induction defs arbitrary: ps es) (simp_all add: Let_def)

lemma LoadProjects_eq:
  "LoadProjects fs context =
     (let f = (\<lambda>kv. loadProject fs context (snd kv)
                      (toEnvironmentSlice (m_Environments (plc_Manifest context))));
          defs = m_Projects (plc_Manifest context);
          errors = concat (map (\<lambda>kv. snd (f kv)) defs)
      in if errors \<noteq> [] then ([], errors)
         else (map (\<lambda>kv. fst (f kv)) (filter (\<lambda>kv. snd (f kv) = []) defs), []))"
  unfolding LoadProjects_def Let_def LoadProjects_fold[unfolded Let_def]
  by simp

text \<open>
  C9: \<open>LoadProjects\<close> is all or nothing. If loading any project of the manifest gives
  errors, the result is the nil project list together with the errors of all the
  projects, in the order of loading. If it returns projects at all, there is no error,
  no project of the manifest had one, and every project of the manifest is returned.
\<close>

theorem C9_LoadProjects_all_or_nothing:
  "((\<exists>kv \<in> set (m_Projects (plc_Manifest context)).
        snd (loadProject fs context (snd kv)
               (toEnvironmentSlice (m_Environments (plc_Manifest context)))) \<noteq> []) \<longrightarrow>
      fst (LoadProjects fs context) = []
      \<and> snd (LoadProjects fs context) \<noteq> []
      \<and> snd (LoadProjects fs context)
          = concat (map (\<lambda>kv. snd (loadProject fs context (snd kv)
                      (toEnvironmentSlice (m_Environments (plc_Manifest context)))))
                    (m_Projects (plc_Manifest context))))
   \<and> (fst (LoadProjects fs context) \<noteq> [] \<longrightarrow>
      snd (LoadProjects fs context) = []
      \<and> (\<forall>kv \<in> set (m_Projects (plc_Manifest context)).
            snd (loadProject fs context (snd kv)
                   (toEnvironmentSlice (m_Environments (plc_Manifest context)))) = [])
      \<and> fst (LoadProjects fs context)
          = map (\<lambda>kv. fst (loadProject fs context (snd kv)
                      (toEnvironmentSlice (m_Environments (plc_Manifest context)))))
                (m_Projects (plc_Manifest context)))"
proof -
  let ?f = "\<lambda>kv. loadProject fs context (snd kv)
                    (toEnvironmentSlice (m_Environments (plc_Manifest context)))"
  let ?defs = "m_Projects (plc_Manifest context)"
  let ?errors = "concat (map (\<lambda>kv. snd (?f kv)) ?defs)"
  have eq: "LoadProjects fs context =
      (if ?errors \<noteq> [] then ([], ?errors)
       else (map (\<lambda>kv. fst (?f kv)) (filter (\<lambda>kv. snd (?f kv) = []) ?defs), []))"
    using LoadProjects_eq[of fs "context"] by (simp add: Let_def)
  have ne: "(?errors \<noteq> []) = (\<exists>kv \<in> set ?defs. snd (?f kv) \<noteq> [])"
    by auto
  show ?thesis
  proof (cases "?errors \<noteq> []")
    case True
    then have "LoadProjects fs context = ([], ?errors)" using eq by simp
    with True show ?thesis by simp
  next
    case False
    then have all: "\<forall>kv \<in> set ?defs. snd (?f kv) = []" using ne by blast
    then have "filter (\<lambda>kv. snd (?f kv) = []) ?defs = ?defs" by simp
    with False eq have "LoadProjects fs context = (map (\<lambda>kv. fst (?f kv)) ?defs, [])"
      by simp
    with all show ?thesis by simp
  qed
qed

theorem C9_LoadProjects_all_or_nothing_witness:
  "(let fs = \<lparr>fs_Exists = (\<lambda>p. Inr (p = ''good'')), fs_findConfigFiles = (\<lambda>p. Inr []),
              fs_LoadConfig = (\<lambda>pd envs file. ([], []))\<rparr>;
        good = \<lparr>pd_Name = ''good'', pd_Group = '''', pd_Path = ''good''\<rparr>;
        bad = \<lparr>pd_Name = ''bad'', pd_Group = '''', pd_Path = ''bad''\<rparr>;
        both = \<lparr>plc_WorkingDir = ''.'',
                plc_Manifest = \<lparr>m_Projects = [(''good'', good), (''bad'', bad)],
                                 m_Environments = []\<rparr>\<rparr>;
        one = \<lparr>plc_WorkingDir = ''.'',
               plc_Manifest = \<lparr>m_Projects = [(''good'', good)], m_Environments = []\<rparr>\<rparr>
    in snd (loadProject fs both bad []) = [ProjectPathDoesNotExist ''bad'' ''bad'']
       \<and> snd (loadProject fs both good []) = []
       \<and> LoadProjects fs both = ([], [ProjectPathDoesNotExist ''bad'' ''bad''])
       \<and> LoadProjects fs one
           = ([\<lparr>pr_Id = ''good'', pr_GroupId = '''', pr_Configs = [], pr_Dependencies = []\<rparr>],
              []))"
proof -
  define fs where "fs = \<lparr>fs_Exists = (\<lambda>p. Inr (p = ''good'')),
              fs_findConfigFiles = (\<lambda>p. Inr []),
              fs_LoadConfig = (\<lambda>pd envs file. ([], []))\<rparr>"
  define good where "good = \<lparr>pd_Name = ''good'', pd_Group = '''', pd_Path = ''good''\<rparr>"
  define bad where "bad = \<lparr>pd_Name = ''bad'', pd_Group = '''', pd_Path = ''bad''\<rparr>"
  define both where "both = \<lparr>plc_WorkingDir = ''.'',
                plc_Manifest = \<lparr>m_Projects = [(''good'', good), (''bad'', bad)],
                                 m_Environments = []\<rparr>\<rparr>"
  define one where "one = \<lparr>plc_WorkingDir = ''.'',
               plc_Manifest = \<lparr>m_Projects = [(''good'', good)], m_Environments = []\<rparr>\<rparr>"
  have lb: "loadProject fs ctx bad [] = (empty_Project, [ProjectPathDoesNotExist ''bad'' ''bad''])"
    for ctx
    by (simp add: loadProject_def fs_def bad_def)
  have lg: "loadProject fs ctx good []
      = (\<lparr>pr_Id = ''good'', pr_GroupId = '''', pr_Configs = [], pr_Dependencies = []\<rparr>, [])"
    for ctx
    by (simp add: loadProject_def loadConfigsOfProject_def findDuplicatedConfigIdentifiers_def
        toDependenciesMap_def Let_def fs_def good_def)
  have pb: "m_Projects (plc_Manifest both) = [(''good'', good), (''bad'', bad)]"
    "toEnvironmentSlice (m_Environments (plc_Manifest both)) = []"
    by (simp_all add: both_def toEnvironmentSlice_def)
  have po: "m_Projects (plc_Manifest one) = [(''good'', good)]"
    "toEnvironmentSlice (m_Environments (plc_Manifest one)) = []"
    by (simp_all add: one_def toEnvironmentSlice_def)
  from C9_LoadProjects_all_or_nothing[of both fs]
  have b: "LoadProjects fs both = ([], [ProjectPathDoesNotExist ''bad'' ''bad''])"
    unfolding pb by (simp add: lb lg prod_eq_iff)
  have o1: "LoadProjects fs one
      = ([\<lparr>pr_Id = ''good'', pr_GroupId = '''', pr_Configs = [], pr_Dependencies = []\<rparr>], [])"
    by (simp add: LoadProjects_def po lg Let_def)
  from C9_LoadProjects_all_or_nothing[of one fs] o1
  have o: "snd (LoadProjects fs one) = []
      \<and> fst (LoadProjects fs one)
          = [\<lparr>pr_Id = ''good'', pr_GroupId = '''', pr_Configs = [], pr_Dependencies = []\<rparr>]"
    unfolding po by (simp add: lg)
  from b o lb lg show ?thesis
    unfolding Let_def fs_def[symmetric] good_def[symmetric] bad_def[symmetric]
      both_def[symmetric] one_def[symmetric]
    by (simp add: prod_eq_iff)
qed

section \<open>Properties of the deploy command\<close>

lemma checkConfigsForEnvironment_None:
  "(checkConfigsForEnvironment env cfgs = None)
     = (\<forall>c \<in> set cfgs. cfg_Skip c \<or> \<not> onlyAvailableOnPlatform c \<or> platformEnvironment env)"
  by (induction cfgs) auto

lemma checkConfigsForEnvironment_Some:
  "checkConfigsForEnvironment env cfgs = Some err \<Longrightarrow>
   \<exists>c \<in> set cfgs. \<not> cfg_Skip c \<and> onlyAvailableOnPlatform c \<and> \<not> platformEnvironment env
      \<and> err = NotPlatformEnvironment (ed_Name env) (cfg_Coordinate c)"
  by (induction cfgs) (auto split: if_splits)

lemma checkConfigsPerType_None:
  "(checkConfigsPerType env cfgPerType = None)
     = (\<forall>tc \<in> set cfgPerType. checkConfigsForEnvironment env (snd tc) = None)"
  by (induction cfgPerType) (auto split: option.splits)

lemma checkConfigsPerType_Some:
  "checkConfigsPerType env cfgPerType = Some err \<Longrightarrow>
   \<exists>tc \<in> set cfgPerType. checkConfigsForEnvironment env (snd tc) = Some err"
  by (induction cfgPerType) (auto split: option.splits)

lemma checkProjectConfigs_None:
  "(checkProjectConfigs envs configs = None)
     = (\<forall>ec \<in> set configs. \<exists>env. map_of envs (fst ec) = Some env
           \<and> checkConfigsPerType env (snd ec) = None)"
  by (induction configs) (auto split: option.splits)

lemma checkProjectConfigs_Some:
  "checkProjectConfigs envs configs = Some err \<Longrightarrow>
   (\<exists>ec \<in> set configs. map_of envs (fst ec) = None \<and> err = CannotFindEnvironment (fst ec))
   \<or> (\<exists>ec \<in> set configs. \<exists>env. map_of envs (fst ec) = Some env
         \<and> checkConfigsPerType env (snd ec) = Some err)"
  by (induction configs) (auto split: option.splits)

lemma checkEnvironments_None:
  "(checkEnvironments projects envs = None)
     = (\<forall>p \<in> set projects. checkProjectConfigs envs (pr_Configs p) = None)"
  by (induction projects) (auto split: option.splits)

lemma checkEnvironments_Some:
  "checkEnvironments projects envs = Some err \<Longrightarrow>
   \<exists>p \<in> set projects. checkProjectConfigs envs (pr_Configs p) = Some err"
  by (induction projects) (auto split: option.splits)

lemma checkEnvironments_rejects:
  assumes "platformExclusiveOnClassic projects envs env c"
  shows "checkEnvironments projects envs \<noteq> None"
proof
  assume none: "checkEnvironments projects envs = None"
  from assms obtain p ec tc where h: "p \<in> set projects" "ec \<in> set (pr_Configs p)"
      "tc \<in> set (snd ec)" "c \<in> set (snd tc)" "map_of envs (fst ec) = Some env"
      "\<not> cfg_Skip c" "onlyAvailableOnPlatform c" "\<not> platformEnvironment env"
    unfolding platformExclusiveOnClassic_def by blast
  from none h(1) have "checkProjectConfigs envs (pr_Configs p) = None"
    by (simp add: checkEnvironments_None)
  with h(2) h(5) have "checkConfigsPerType env (snd ec) = None"
    by (auto simp: checkProjectConfigs_None)
  with h(3) have "checkConfigsForEnvironment env (snd tc) = None"
    by (simp add: checkConfigsPerType_None)
  with h(4) have "cfg_Skip c \<or> \<not> onlyAvailableOnPlatform c \<or> platformEnvironment env"
    by (simp add: checkConfigsForEnvironment_None)
  with h(6-8) show False by simp
qed

lemma checkEnvironments_error_kinds:
  assumes "checkEnvironments projects envs = Some err"
  shows "(\<exists>n. unknownEnvironment projects envs n \<and> err = CannotFindEnvironment n)
     \<or> (\<exists>env c. platformExclusiveOnClassic projects envs env c
           \<and> err = NotPlatformEnvironment (ed_Name env) (cfg_Coordinate c))"
proof -
  from checkEnvironments_Some[OF assms] obtain p where
    p: "p \<in> set projects" "checkProjectConfigs envs (pr_Configs p) = Some err" by blast
  from checkProjectConfigs_Some[OF p(2)] show ?thesis
  proof
    assume "\<exists>ec \<in> set (pr_Configs p). map_of envs (fst ec) = None
              \<and> err = CannotFindEnvironment (fst ec)"
    with p(1) show ?thesis unfolding unknownEnvironment_def by blast
  next
    assume "\<exists>ec \<in> set (pr_Configs p). \<exists>env. map_of envs (fst ec) = Some env
         \<and> checkConfigsPerType env (snd ec) = Some err"
    then obtain ec env where e: "ec \<in> set (pr_Configs p)" "map_of envs (fst ec) = Some env"
        "checkConfigsPerType env (snd ec) = Some err" by blast
    from checkConfigsPerType_Some[OF e(3)] obtain tc where
      t: "tc \<in> set (snd ec)" "checkConfigsForEnvironment env (snd tc) = Some err" by blast
    from checkConfigsForEnvironment_Some[OF t(2)] obtain c where
      c: "c \<in> set (snd tc)" "\<not> cfg_Skip c" "onlyAvailableOnPlatform c"
         "\<not> platformEnvironment env"
         "err = NotPlatformEnvironment (ed_Name env) (cfg_Coordinate c)" by blast
    from p(1) e(1,2) t(1) c(1-4) have "platformExclusiveOnClassic projects envs env c"
      unfolding platformExclusiveOnClassic_def by blast
    with c(5) show ?thesis by blast
  qed
qed

lemma deployConfigs_check_failed:
  assumes "w_absPath w manifestPath = Inr absManifestPath"
    and "loadManifest w absManifestPath environmentGroups specificEnvironments = Inr loadedManifest"
    and "fst (verifyEnvironmentGen w (m_Environments loadedManifest) dryRun)"
    and "loadProjects w absManifestPath loadedManifest = Inr loadedProjects"
    and "filterProjects loadedProjects specificProjects (Names (m_Environments loadedManifest))
           = Inr filteredProjects"
    and "checkEnvironments filteredProjects (m_Environments loadedManifest) = Some err"
  shows "deployConfigs w manifestPath environmentGroups specificEnvironments specificProjects
           continueOnErr dryRun
         = (Some err, snd (verifyEnvironmentGen w (m_Environments loadedManifest) dryRun))"
  using assms by (simp add: deployConfigs_def Let_def)

lemma verifyEnvironmentGen_events:
  "set (snd (verifyEnvironmentGen w environments dryRun)) \<subseteq> {EvVerifyEnvironmentGeneration}"
  by (simp add: verifyEnvironmentGen_def)

text \<open>
  C3 (amended): if a configuration that is not skipped and is of Automation or Bucket
  type is assigned to an environment of the manifest that has no OAuth credentials,
  \<open>checkEnvironments\<close> returns an error. The error either reports an environment name of
  some project that the manifest does not have, or names an environment without OAuth
  credentials together with the coordinate of a platform-exclusive configuration that is
  assigned to it and not skipped. When \<open>deployConfigs\<close> has loaded the manifest, verified
  the environments, loaded and filtered the projects, it returns that error, and the only
  call to an environment made before is the verification of the environment generation:
  no client is created and no deployment is started.
\<close>

theorem C3_platform_exclusive_rejected:
  assumes "platformExclusiveOnClassic filteredProjects (m_Environments loadedManifest) env c"
  shows "\<exists>err. checkEnvironments filteredProjects (m_Environments loadedManifest) = Some err
     \<and> ((\<exists>n. unknownEnvironment filteredProjects (m_Environments loadedManifest) n
              \<and> err = CannotFindEnvironment n)
        \<or> (\<exists>env' c'. platformExclusiveOnClassic filteredProjects (m_Environments loadedManifest)
                        env' c'
              \<and> err = NotPlatformEnvironment (ed_Name env') (cfg_Coordinate c')))
     \<and> (w_absPath w manifestPath = Inr absManifestPath
          \<and> loadManifest w absManifestPath environmentGroups specificEnvironments
              = Inr loadedManifest
          \<and> fst (verifyEnvironmentGen w (m_Environments loadedManifest) dryRun)
          \<and> loadProjects w absManifestPath loadedManifest = Inr loadedProjects
          \<and> filterProjects loadedProjects specificProjects
                (Names (m_Environments loadedManifest)) = Inr filteredProjects
        \<longrightarrow> fst (deployConfigs w manifestPath environmentGroups specificEnvironments
                    specificProjects continueOnErr dryRun) = Some err
            \<and> set (snd (deployConfigs w manifestPath environmentGroups specificEnvironments
                    specificProjects continueOnErr dryRun)) \<subseteq> {EvVerifyEnvironmentGeneration})"
proof -
  from checkEnvironments_rejects[OF assms] obtain err where
    err: "checkEnvironments filteredProjects (m_Environments loadedManifest) = Some err"
    by blast
  note kinds = checkEnvironments_error_kinds[OF err]
  have "w_absPath w manifestPath = Inr absManifestPath
          \<and> loadManifest w absManifestPath environmentGroups specificEnvironments
              = Inr loadedManifest
          \<and> fst (verifyEnvironmentGen w (m_Environments loadedManifest) dryRun)
          \<and> loadProjects w absManifestPath loadedManifest = Inr loadedProjects
          \<and> filterProjects loadedProjects specificProjects
                (Names (m_Environments loadedManifest)) = Inr filteredProjects
        \<longrightarrow> fst (deployConfigs w manifestPath environmentGroups specificEnvironments
                    specificProjects continueOnErr dryRun) = Some err
            \<and> set (snd (deployConfigs w manifestPath environmentGroups specificEnvironments
                    specificProjects continueOnErr dryRun)) \<subseteq> {EvVerifyEnvironmentGeneration}"
  proof (intro impI, elim conjE)
    assume a: "w_absPath w manifestPath = Inr absManifestPath"
      "loadManifest w absManifestPath environmentGroups specificEnvironments = Inr loadedManifest"
      "fst (verifyEnvironmentGen w (m_Environments loadedManifest) dryRun)"
      "loadProjects w absManifestPath loadedManifest = Inr loadedProjects"
      "filterProjects loadedProjects specificProjects (Names (m_Environments loadedManifest))
         = Inr filteredProjects"
    note d = deployConfigs_check_failed[OF a err, of continueOnErr]
    show "fst (deployConfigs w manifestPath environmentGroups specificEnvironments
                    specificProjects continueOnErr dryRun) = Some err
            \<and> set (snd (deployConfigs w manifestPath environmentGroups specificEnvironments
                    specificProjects continueOnErr dryRun)) \<subseteq> {EvVerifyEnvironmentGeneration}"
      unfolding d using verifyEnvironmentGen_events[of w "m_Environments loadedManifest" dryRun]
      by simp
  qed
  with err kinds show ?thesis by blast
qed

theorem C3_platform_exclusive_rejected_witness:
  "(let cfg = \<lparr>cfg_Template = ''{}'',
               cfg_Coordinate = \<lparr>Project = ''infra'', Type = ''workflow'', ConfigId = ''wf1''\<rparr>,
               cfg_Group = ''default'', cfg_Environment = ''dev'',
               cfg_Type = AutomationType ''workflow'', cfg_Parameters = [],
               cfg_Skip = False, cfg_OriginObjectId = ''''\<rparr>;
        dev = \<lparr>ed_Name = ''dev'',
               ed_URL = \<lparr>ud_Type = ValueURLType, ud_Name = '''', ud_Value = ''https://a.b''\<rparr>,
               ed_Auth = \<lparr>Token = \<lparr>as_Name = ''TOKEN'', as_Value = ''secret''\<rparr>, OAuth = None\<rparr>,
               ed_Group = ''default''\<rparr>;
        prj = \<lparr>pr_Id = ''infra'', pr_GroupId = '''',
               pr_Configs = [(''dev'', [(''workflow'', [cfg])])], pr_Dependencies = []\<rparr>;
        w = \<lparr>w_absPath = (\<lambda>p. Inr p),
          w_versioning = \<lparr>ParseVersion = (\<lambda>s. Inr (1::nat)),
             SmallerThan = (\<lambda>a b. a < b), GreaterThan = (\<lambda>a b. b < a),
             minSupportedManifestVersion = 1, maxSupportedManifestVersion = 1\<rparr>,
          w_loadEnv = Map.empty(''TOKEN'' \<mapsto> ''secret''),
          w_readManifestYAML = (\<lambda>p. Inr
             \<lparr>ManifestVersion = ''1.0'',
              Projects = [\<lparr>p_Name = ''infra'', p_Type = '''', p_Path = ''''\<rparr>],
              EnvironmentGroups = [\<lparr>g_Name = ''default'', g_Environments =
                [\<lparr>e_Name = ''dev'', e_URL = \<lparr>u_Type = ''value'', u_Value = ''https://a.b/''\<rparr>,
                  e_Auth = \<lparr>a_Token = \<lparr>s_Type = ''environment'', s_Name = ''TOKEN''\<rparr>,
                            a_OAuth = None\<rparr>\<rparr>]\<rparr>]\<rparr>),
          w_toProjectDefinitions = (\<lambda>p.
             ([(''infra'', \<lparr>pd_Name = ''infra'', pd_Group = '''', pd_Path = ''infra''\<rparr>)], [])),
          w_VerifyEnvironmentGeneration = (\<lambda>e. True),
          w_Dir = (\<lambda>p. ''.''),
          w_projectFs = (\<lambda>d. \<lparr>fs_Exists = (\<lambda>p. Inr True),
             fs_findConfigFiles = (\<lambda>p. Inr [''wf.yaml'']),
             fs_LoadConfig = (\<lambda>pd envs file. ([cfg], []))\<rparr>),
          w_flagEnv = Map.empty,
          w_CreateClientSet = (\<lambda>u a. Inr (0::nat)),
          w_DummyClientSet = (0::nat),
          w_DeployConfigGraph = (\<lambda>ps cs opts. NoDeployError),
          w_ConfigsPerEnvironment = (\<lambda>ps names. ([], [])),
          w_DeployConfigs = (\<lambda>cs cfgs opts. [])\<rparr>
    in platformExclusiveOnClassic [prj] [(''dev'', dev)] dev cfg
       \<and> checkEnvironments [prj] [(''dev'', dev)]
           = Some (NotPlatformEnvironment ''dev''
                     \<lparr>Project = ''infra'', Type = ''workflow'', ConfigId = ''wf1''\<rparr>)
       \<and> fst (deployConfigs w ''manifest.yaml'' [] [] [] False False)
           = Some (NotPlatformEnvironment ''dev''
                     \<lparr>Project = ''infra'', Type = ''workflow'', ConfigId = ''wf1''\<rparr>)
       \<and> set (snd (deployConfigs w ''manifest.yaml'' [] [] [] False False))
           \<subseteq> {EvVerifyEnvironmentGeneration})"
proof -
  define cfg where "cfg = \<lparr>cfg_Template = ''{}'',
               cfg_Coordinate = \<lparr>Project = ''infra'', Type = ''workflow'', ConfigId = ''wf1''\<rparr>,
               cfg_Group = ''default'', cfg_Environment = ''dev'',
               cfg_Type = AutomationType ''workflow'', cfg_Parameters = [],
               cfg_Skip = False, cfg_OriginObjectId = ''''\<rparr>"
  define dev where "dev = \<lparr>ed_Name = ''dev'',
               ed_URL = \<lparr>ud_Type = ValueURLType, ud_Name = '''', ud_Value = ''https://a.b''\<rparr>,
               ed_Auth = \<lparr>Token = \<lparr>as_Name = ''TOKEN'', as_Value = ''secret''\<rparr>, OAuth = None\<rparr>,
               ed_Group = ''default''\<rparr>"
  define lm where "lm = \<lparr>m_Projects =
               [(''infra'', \<lparr>pd_Name = ''infra'', pd_Group = '''', pd_Path = ''infra''\<rparr>)],
               m_Environments = [(''dev'', dev)]\<rparr>"
  define prj where "prj = \<lparr>pr_Id = ''infra'', pr_GroupId = '''',
               pr_Configs = [(''dev'', [(''workflow'', [cfg])])], pr_Dependencies = []\<rparr>"
  define w :: "(nat, nat) DeployWorld" where "w = \<lparr>w_absPath = (\<lambda>p. Inr p),
          w_versioning = \<lparr>ParseVersion = (\<lambda>s. Inr (1::nat)),
             SmallerThan = (\<lambda>a b. a < b), GreaterThan = (\<lambda>a b. b < a),
             minSupportedManifestVersion = 1, maxSupportedManifestVersion = 1\<rparr>,
          w_loadEnv = Map.empty(''TOKEN'' \<mapsto> ''secret''),
          w_readManifestYAML = (\<lambda>p. Inr
             \<lparr>ManifestVersion = ''1.0'',
              Projects = [\<lparr>p_Name = ''infra'', p_Type = '''', p_Path = ''''\<rparr>],
              EnvironmentGroups = [\<lparr>g_Name = ''default'', g_Environments =
                [\<lparr>e_Name = ''dev'', e_URL = \<lparr>u_Type = ''value'', u_Value = ''https://a.b/''\<rparr>,
                  e_Auth = \<lparr>a_Token = \<lparr>s_Type = ''environment'', s_Name = ''TOKEN''\<rparr>,
                            a_OAuth = None\<rparr>\<rparr>]\<rparr>]\<rparr>),
          w_toProjectDefinitions = (\<lambda>p.
             ([(''infra'', \<lparr>pd_Name = ''infra'', pd_Group = '''', pd_Path = ''infra''\<rparr>)], [])),
          w_VerifyEnvironmentGeneration = (\<lambda>e. True),
          w_Dir = (\<lambda>p. ''.''),
          w_projectFs = (\<lambda>d. \<lparr>fs_Exists = (\<lambda>p. Inr True),
             fs_findConfigFiles = (\<lambda>p. Inr [''wf.yaml'']),
             fs_LoadConfig = (\<lambda>pd envs file. ([cfg], []))\<rparr>),
          w_flagEnv = Map.empty,
          w_CreateClientSet = (\<lambda>u a. Inr (0::nat)),
          w_DummyClientSet = (0::nat),
          w_DeployConfigGraph = (\<lambda>ps cs opts. NoDeployError),
          w_ConfigsPerEnvironment = (\<lambda>ps names. ([], [])),
          w_DeployConfigs = (\<lambda>cs cfgs opts. [])\<rparr>"
  have te: "toEnvironments
      \<lparr>lc_ManifestPath = ''manifest.yaml'', lc_Environments = [], lc_Groups = [],
       lc_Opts = \<lparr>DontResolveEnvVars = False\<rparr>\<rparr>
      (Map.empty(''TOKEN'' \<mapsto> ''secret''))
      [\<lparr>g_Name = ''default'', g_Environments =
                [\<lparr>e_Name = ''dev'', e_URL = \<lparr>u_Type = ''value'', u_Value = ''https://a.b/''\<rparr>,
                  e_Auth = \<lparr>a_Token = \<lparr>s_Type = ''environment'', s_Name = ''TOKEN''\<rparr>,
                            a_OAuth = None\<rparr>\<rparr>]\<rparr>]
     = ([(''dev'', dev)], [])"
    by (simp add: toEnvironments_def groupStep_def envStep_def shouldSkipEnv_def
        parseEnvironment_def parseAuth_def parseAuthSecret_def parseURLDefinition_def
        typeEnvironment_def urlTypeValue_def TrimSuffix_def HasSuffix_def Let_def
        requestedGroupErrors_def requestedEnvironmentErrors_def dev_def)
  have h1: "w_absPath w ''manifest.yaml'' = Inr ''manifest.yaml''" by (simp add: w_def)
  have h2: "loadManifest w ''manifest.yaml'' [] [] = Inr lm"
    by (simp add: w_def loadManifest_def LoadManifest_def verifyManifestYAML_def
        validateManifestVersion_def te Let_def lm_def)
  have h3: "fst (verifyEnvironmentGen w (m_Environments lm) False)"
    by (simp add: w_def verifyEnvironmentGen_def)
  have h4: "loadProjects w ''manifest.yaml'' lm = Inr [prj]"
    by (simp add: w_def loadProjects_def LoadProjects_def loadProject_def
        loadConfigsOfProject_def findDuplicatedConfigIdentifiers_def toEnvironmentSlice_def
        toDependenciesMap_def addToConfigMap_def lookupList_def Config_References_def Let_def
        lm_def prj_def cfg_def)
  have h5: "filterProjects [prj] [] (Names (m_Environments lm)) = Inr [prj]"
    by (simp add: filterProjects_def)
  have envs: "m_Environments lm = [(''dev'', dev)]" by (simp add: lm_def)
  have viol: "platformExclusiveOnClassic [prj] (m_Environments lm) dev cfg"
    by (simp add: platformExclusiveOnClassic_def prj_def envs cfg_def dev_def
        onlyAvailableOnPlatform_def platformEnvironment_def)
  have chk: "checkEnvironments [prj] (m_Environments lm)
      = Some (NotPlatformEnvironment ''dev''
                \<lparr>Project = ''infra'', Type = ''workflow'', ConfigId = ''wf1''\<rparr>)"
    by (simp add: prj_def envs cfg_def dev_def onlyAvailableOnPlatform_def
        platformEnvironment_def)
  from C3_platform_exclusive_rejected[OF viol, of w "''manifest.yaml''" "''manifest.yaml''"
      "[]" "[]" False "[prj]" "[]" False] h1 h2 h3 h4 h5 chk
  have "fst (deployConfigs w ''manifest.yaml'' [] [] [] False False)
           = Some (NotPlatformEnvironment ''dev''
                     \<lparr>Project = ''infra'', Type = ''workflow'', ConfigId = ''wf1''\<rparr>)
       \<and> set (snd (deployConfigs w ''manifest.yaml'' [] [] [] False False))
           \<subseteq> {EvVerifyEnvironmentGeneration}"
    by simp
  with viol chk show ?thesis
    unfolding Let_def envs cfg_def[symmetric] dev_def[symmetric] prj_def[symmetric]
      w_def[symmetric]
    by simp
qed

text \<open>
  C3 (as stated, refuted): a skipped configuration is not checked. A manifest with one
  environment without OAuth credentials and one project that assigns a skipped
  \<open>automation\<close> workflow to it passes \<open>checkEnvironments\<close>, and \<open>deployConfigs\<close> goes on to
  create the client and to deploy on that environment. And where the workflow is not
  skipped but the project also holds configurations for an environment name that the
  manifest does not have, the error returned is about that name: it names neither the
  environment without OAuth credentials nor a coordinate.
\<close>

theorem C3_skipped_platform_config_not_rejected:
  "(let cfg = \<lparr>cfg_Template = ''{}'',
               cfg_Coordinate = \<lparr>Project = ''infra'', Type = ''workflow'', ConfigId = ''wf1''\<rparr>,
               cfg_Group = ''default'', cfg_Environment = ''dev'',
               cfg_Type = AutomationType ''workflow'', cfg_Parameters = [],
               cfg_Skip = True, cfg_OriginObjectId = ''''\<rparr>;
        dev = \<lparr>ed_Name = ''dev'',
               ed_URL = \<lparr>ud_Type = ValueURLType, ud_Name = '''', ud_Value = ''https://a.b''\<rparr>,
               ed_Auth = \<lparr>Token = \<lparr>as_Name = ''TOKEN'', as_Value = ''secret''\<rparr>, OAuth = None\<rparr>,
               ed_Group = ''default''\<rparr>;
        prj = \<lparr>pr_Id = ''infra'', pr_GroupId = '''',
               pr_Configs = [(''dev'', [(''workflow'', [cfg])])], pr_Dependencies = []\<rparr>;
        w = \<lparr>w_absPath = (\<lambda>p. Inr p),
          w_versioning = \<lparr>ParseVersion = (\<lambda>s. Inr (1::nat)),
             SmallerThan = (\<lambda>a b. a < b), GreaterThan = (\<lambda>a b. b < a),
             minSupportedManifestVersion = 1, maxSupportedManifestVersion = 1\<rparr>,
          w_loadEnv = Map.empty(''TOKEN'' \<mapsto> ''secret''),
          w_readManifestYAML = (\<lambda>p. Inr
             \<lparr>ManifestVersion = ''1.0'',
              Projects = [\<lparr>p_Name = ''infra'', p_Type = '''', p_Path = ''''\<rparr>],
              EnvironmentGroups = [\<lparr>g_Name = ''default'', g_Environments =
                [\<lparr>e_Name = ''dev'', e_URL = \<lparr>u_Type = ''value'', u_Value = ''https://a.b/''\<rparr>,
                  e_Auth = \<lparr>a_Token = \<lparr>s_Type = ''environment'', s_Name = ''TOKEN''\<rparr>,
                            a_OAuth = None\<rparr>\<rparr>]\<rparr>]\<rparr>),
          w_toProjectDefinitions = (\<lambda>p.
             ([(''infra'', \<lparr>pd_Name = ''infra'', pd_Group = '''', pd_Path = ''infra''\<rparr>)], [])),
          w_VerifyEnvironmentGeneration = (\<lambda>e. True),
          w_Dir = (\<lambda>p. ''.''),
          w_projectFs = (\<lambda>d. \<lparr>fs_Exists = (\<lambda>p. Inr True),
             fs_findConfigFiles = (\<lambda>p. Inr [''wf.yaml'']),
             fs_LoadConfig = (\<lambda>pd envs file. ([cfg], []))\<rparr>),
          w_flagEnv = Map.empty,
          w_CreateClientSet = (\<lambda>u a. Inr (0::nat)),
          w_DummyClientSet = (0::nat),
          w_DeployConfigGraph = (\<lambda>ps cs opts. NoDeployError),
          w_ConfigsPerEnvironment = (\<lambda>ps names. ([(''dev'', [cfg])], [])),
          w_DeployConfigs = (\<lambda>cs cfgs opts. [])\<rparr>;
        live = cfg\<lparr>cfg_Skip := False\<rparr>;
        prj2 = \<lparr>pr_Id = ''infra'', pr_GroupId = '''',
               pr_Configs = [(''ghost'', []), (''dev'', [(''workflow'', [live])])],
               pr_Dependencies = []\<rparr>
    in cfg_Type cfg = AutomationType ''workflow''
       \<and> cfg \<in> set [cfg] \<and> (''workflow'', [cfg]) \<in> set [(''workflow'', [cfg])]
       \<and> (''dev'', [(''workflow'', [cfg])]) \<in> set (pr_Configs prj)
       \<and> map_of [(''dev'', dev)] ''dev'' = Some dev
       \<and> OAuth (ed_Auth dev) = None
       \<and> checkEnvironments [prj] [(''dev'', dev)] = None
       \<and> deployConfigs w ''manifest.yaml'' [] [] [] False False
           = (None, [EvVerifyEnvironmentGeneration, EvCreateClientSet ''dev'',
                     EvDeployConfigs ''dev''])
       \<and> platformExclusiveOnClassic [prj2] [(''dev'', dev)] dev live
       \<and> checkEnvironments [prj2] [(''dev'', dev)] = Some (CannotFindEnvironment ''ghost''))"
proof -
  define cfg where "cfg = \<lparr>cfg_Template = ''{}'',
               cfg_Coordinate = \<lparr>Project = ''infra'', Type = ''workflow'', ConfigId = ''wf1''\<rparr>,
               cfg_Group = ''default'', cfg_Environment = ''dev'',
               cfg_Type = AutomationType ''workflow'', cfg_Parameters = [],
               cfg_Skip = True, cfg_OriginObjectId = ''''\<rparr>"
  define dev where "dev = \<lparr>ed_Name = ''dev'',
               ed_URL = \<lparr>ud_Type = ValueURLType, ud_Name = '''', ud_Value = ''https://a.b''\<rparr>,
               ed_Auth = \<lparr>Token = \<lparr>as_Name = ''TOKEN'', as_Value = ''secret''\<rparr>, OAuth = None\<rparr>,
               ed_Group = ''default''\<rparr>"
  define lm where "lm = \<lparr>m_Projects =
               [(''infra'', \<lparr>pd_Name = ''infra'', pd_Group = '''', pd_Path = ''infra''\<rparr>)],
               m_Environments = [(''dev'', dev)]\<rparr>"
  define prj where "prj = \<lparr>pr_Id = ''infra'', pr_GroupId = '''',
               pr_Configs = [(''dev'', [(''workflow'', [cfg])])], pr_Dependencies = []\<rparr>"
  define w :: "(nat, nat) DeployWorld" where "w = \<lparr>w_absPath = (\<lambda>p. Inr p),
          w_versioning = \<lparr>ParseVersion = (\<lambda>s. Inr (1::nat)),
             SmallerThan = (\<lambda>a b. a < b), GreaterThan = (\<lambda>a b. b < a),
             minSupportedManifestVersion = 1, maxSupportedManifestVersion = 1\<rparr>,
          w_loadEnv = Map.empty(''TOKEN'' \<mapsto> ''secret''),
          w_readManifestYAML = (\<lambda>p. Inr
             \<lparr>ManifestVersion = ''1.0'',
              Projects = [\<lparr>p_Name = ''infra'', p_Type = '''', p_Path = ''''\<rparr>],
              EnvironmentGroups = [\<lparr>g_Name = ''default'', g_Environments =
                [\<lparr>e_Name = ''dev'', e_URL = \<lparr>u_Type = ''value'', u_Value = ''https://a.b/''\<rparr>,
                  e_Auth = \<lparr>a_Token = \<lparr>s_Type = ''environment'', s_Name = ''TOKEN''\<rparr>,
                            a_OAuth = None\<rparr>\<rparr>]\<rparr>]\<rparr>),
          w_toProjectDefinitions = (\<lambda>p.
             ([(''infra'', \<lparr>pd_Name = ''infra'', pd_Group = '''', pd_Path = ''infra''\<rparr>)], [])),
          w_VerifyEnvironmentGeneration = (\<lambda>e. True),
          w_Dir = (\<lambda>p. ''.''),
          w_projectFs = (\<lambda>d. \<lparr>fs_Exists = (\<lambda>p. Inr True),
             fs_findConfigFiles = (\<lambda>p. Inr [''wf.yaml'']),
             fs_LoadConfig = (\<lambda>pd envs file. ([cfg], []))\<rparr>),
          w_flagEnv = Map.empty,
          w_CreateClientSet = (\<lambda>u a. Inr (0::nat)),
          w_DummyClientSet = (0::nat),
          w_DeployConfigGraph = (\<lambda>ps cs opts. NoDeployError),
          w_ConfigsPerEnvironment = (\<lambda>ps names. ([(''dev'', [cfg])], [])),
          w_DeployConfigs = (\<lambda>cs cfgs opts. [])\<rparr>"
  have te: "toEnvironments
      \<lparr>lc_ManifestPath = ''manifest.yaml'', lc_Environments = [], lc_Groups = [],
       lc_Opts = \<lparr>DontResolveEnvVars = False\<rparr>\<rparr>
      (Map.empty(''TOKEN'' \<mapsto> ''secret''))
      [\<lparr>g_Name = ''default'', g_Environments =
                [\<lparr>e_Name = ''dev'', e_URL = \<lparr>u_Type = ''value'', u_Value = ''https://a.b/''\<rparr>,
                  e_Auth = \<lparr>a_Token = \<lparr>s_Type = ''environment'', s_Name = ''TOKEN''\<rparr>,
                            a_OAuth = None\<rparr>\<rparr>]\<rparr>]
     = ([(''dev'', dev)], [])"
    by (simp add: toEnvironments_def groupStep_def envStep_def shouldSkipEnv_def
        parseEnvironment_def parseAuth_def parseAuthSecret_def parseURLDefinition_def
        typeEnvironment_def urlTypeValue_def TrimSuffix_def HasSuffix_def Let_def
        requestedGroupErrors_def requestedEnvironmentErrors_def dev_def)
  have h1: "w_absPath w ''manifest.yaml'' = Inr ''manifest.yaml''" by (simp add: w_def)
  have h2: "loadManifest w ''manifest.yaml'' [] [] = Inr lm"
    by (simp add: w_def loadManifest_def LoadManifest_def verifyManifestYAML_def
        validateManifestVersion_def te Let_def lm_def)
  have h3: "verifyEnvironmentGen w (m_Environments lm) False
      = (True, [EvVerifyEnvironmentGeneration])"
    by (simp add: w_def verifyEnvironmentGen_def)
  have h4: "loadProjects w ''manifest.yaml'' lm = Inr [prj]"
    by (simp add: w_def loadProjects_def LoadProjects_def loadProject_def
        loadConfigsOfProject_def findDuplicatedConfigIdentifiers_def toEnvironmentSlice_def
        toDependenciesMap_def addToConfigMap_def lookupList_def Config_References_def Let_def
        lm_def prj_def cfg_def)
  have h5: "filterProjects [prj] [] (Names (m_Environments lm)) = Inr [prj]"
    by (simp add: filterProjects_def)
  have envs: "m_Environments lm = [(''dev'', dev)]" by (simp add: lm_def)
  have chk: "checkEnvironments [prj] (m_Environments lm) = None"
    by (simp add: prj_def envs cfg_def)
  have flag: "\<not> Enabled DependencyGraphBasedDeploy (w_flagEnv w)"
    by (simp add: w_def Enabled_def DependencyGraphBasedDeploy_def)
  have srt: "w_ConfigsPerEnvironment w [prj] (Names (m_Environments lm)) = ([(''dev'', [cfg])], [])"
    by (simp add: w_def)
  have dl: "deployLoop w (m_Environments lm) [(''dev'', [cfg])] False False []
              [EvVerifyEnvironmentGeneration]
      = ([], [EvVerifyEnvironmentGeneration, EvCreateClientSet ''dev'', EvDeployConfigs ''dev''])"
    by (simp add: envs deployOnEnvironment_def createDeployClientSet_def Let_def w_def dev_def)
  have run: "deployConfigs w ''manifest.yaml'' [] [] [] False False
      = (None, [EvVerifyEnvironmentGeneration, EvCreateClientSet ''dev'',
                EvDeployConfigs ''dev''])"
    by (simp add: deployConfigs_def h1 h2 h3 h4 h5 chk flag srt dl Let_def
        del: checkEnvironments.simps deployLoop.simps)
  define live where "live = cfg\<lparr>cfg_Skip := False\<rparr>"
  define prj2 where "prj2 = \<lparr>pr_Id = ''infra'', pr_GroupId = '''',
               pr_Configs = [(''ghost'', []), (''dev'', [(''workflow'', [live])])],
               pr_Dependencies = []\<rparr>"
  have viol2: "platformExclusiveOnClassic [prj2] [(''dev'', dev)] dev live"
    by (simp add: platformExclusiveOnClassic_def prj2_def live_def cfg_def dev_def
        onlyAvailableOnPlatform_def platformEnvironment_def)
  have chk2: "checkEnvironments [prj2] [(''dev'', dev)] = Some (CannotFindEnvironment ''ghost'')"
    by (simp add: prj2_def)
  have rest: "cfg_Type cfg = AutomationType ''workflow''" "OAuth (ed_Auth dev) = None"
    "pr_Configs prj = [(''dev'', [(''workflow'', [cfg])])]"
    by (simp_all add: cfg_def dev_def prj_def)
  from run chk rest viol2 chk2 show ?thesis
    unfolding Let_def envs cfg_def[symmetric] dev_def[symmetric] prj_def[symmetric]
      w_def[symmetric] live_def[symmetric] prj2_def[symmetric]
    by simp
qed

section \<open>Lists with a replaced element\<close>

lemma replace_absent_key:
  assumes "k obj \<notin> k ` set xs"
  shows "map (\<lambda>x. if k x = k obj then obj else x) xs = xs"
proof (rule map_idI)
  fix x
  assume "x \<in> set xs"
  with assms have "k x \<noteq> k obj" by (metis imageI)
  then show "(if k x = k obj then obj else x) = x" by simp
qed

text \<open>
  Replacing the element with the key of \<open>obj\<close> in a list with distinct keys changes the
  number of elements with a property by what the old and the new element contribute.
\<close>

lemma replace_count_key:
  assumes "distinct (map k xs)" "e \<in> set xs" "k obj = k e"
  shows "length (filter P (map (\<lambda>x. if k x = k obj then obj else x) xs))
             + (if P e then 1 else 0)
           = length (filter P xs) + (if P obj then 1 else 0)"
  using assms(1,2)
proof (induction xs)
  case Nil
  then show ?case by simp
next
  case (Cons x xs)
  show ?case
  proof (cases "x = e")
    case True
    with Cons.prems have "k obj \<notin> k ` set xs" using assms(3) by auto
    then have "map (\<lambda>x. if k x = k obj then obj else x) xs = xs"
      by (rule replace_absent_key)
    with True assms(3) show ?thesis by simp
  next
    case False
    with Cons.prems have e: "e \<in> set xs" and d: "distinct (map k xs)" by auto
    from Cons.prems e have "k x \<noteq> k e" by (auto simp: image_iff)
    with Cons.IH[OF d e] assms(3) show ?thesis by simp
  qed
qed

section \<open>Properties of the settings adapter\<close>

lemma putSettingsObject_member: "obj \<in> set (putSettingsObject obj store)"
  by (auto simp: putSettingsObject_def)

lemma putSettingsObject_only:
  assumes "x \<in> set (putSettingsObject obj store)" "so_ObjectId x = so_ObjectId obj"
  shows "x = obj"
proof (cases "so_ObjectId obj \<in> so_ObjectId ` set store")
  case True
  with assms(1) obtain y where y: "y \<in> set store"
      "x = (if so_ObjectId y = so_ObjectId obj then obj else y)"
    by (auto simp: putSettingsObject_def)
  show ?thesis
  proof (cases "so_ObjectId y = so_ObjectId obj")
    case True
    with y show ?thesis by simp
  next
    case False
    with y assms(2) show ?thesis by simp
  qed
next
  case False
  with assms(1) have "x \<in> set store \<or> x = obj" by (auto simp: putSettingsObject_def)
  moreover have "x \<notin> set store" using False assms(2) by (metis imageI)
  ultimately show ?thesis by simp
qed

lemma putSettingsObject_again:
  "putSettingsObject obj (putSettingsObject obj store) = putSettingsObject obj store"
proof -
  have "so_ObjectId obj \<in> so_ObjectId ` set (putSettingsObject obj store)"
    using putSettingsObject_member[of obj store] by blast
  then have "putSettingsObject obj (putSettingsObject obj store)
      = map (\<lambda>x. if so_ObjectId x = so_ObjectId obj then obj else x)
          (putSettingsObject obj store)"
    by (simp add: putSettingsObject_def)
  also have "\<dots> = putSettingsObject obj store"
    by (rule map_idI) (auto dest: putSettingsObject_only)
  finally show ?thesis .
qed

lemma find_only:
  assumes "filter P xs = [e]"
  shows "find P xs = Some e"
proof (cases "find P xs")
  case None
  then have "filter P xs = []" by (auto simp: find_None_iff filter_empty_conv)
  with assms show ?thesis by simp
next
  case (Some y)
  then have "y \<in> set (filter P xs)" by (auto simp: find_Some_iff)
  with assms Some show ?thesis by simp
qed

text \<open>
  C1 (as stated, refuted): an object with the legacy external id is not always adopted.
  Three servers, each holding one object \<open>old\<close> of the schema with the legacy external id:
  where another object of the schema carries the new external id already, the upsert goes
  to that one; where a second object carries the legacy external id, only the first is
  rewritten; where the configuration pins the \<open>OriginObjectId\<close> of another object, the upsert
  goes to the pinned one. In all three an object with the legacy external id is left.
\<close>

theorem C1_legacy_object_not_always_migrated:
  "(let hash = (\<lambda>s. s);
        nid = (\<lambda>s. ''fresh'');
        obj = \<lparr>rq_Coordinate = \<lparr>Project = ''p'', Type = ''builtin:x'', ConfigId = ''c''\<rparr>,
               rq_SchemaId = ''builtin:x'', rq_SchemaVersion = ''1.0'',
               rq_Scope = ''environment'', rq_Content = ''{new}'', rq_OriginObjectId = ''''\<rparr>;
        pinned = \<lparr>rq_Coordinate = \<lparr>Project = ''p'', Type = ''builtin:x'', ConfigId = ''c''\<rparr>,
               rq_SchemaId = ''builtin:x'', rq_SchemaVersion = ''1.0'',
               rq_Scope = ''environment'', rq_Content = ''{new}'',
               rq_OriginObjectId = ''obj-5''\<rparr>;
        old = \<lparr>so_ObjectId = ''obj-7'', so_SchemaId = ''builtin:x'',
               so_ExternalId = ''monaco:builtin:x|c'', so_Scope = ''environment'',
               so_Content = ''{old}''\<rparr>;
        cur = \<lparr>so_ObjectId = ''obj-8'', so_SchemaId = ''builtin:x'',
               so_ExternalId = ''monaco:p|builtin:x|c'', so_Scope = ''environment'',
               so_Content = ''{old}''\<rparr>;
        twin = \<lparr>so_ObjectId = ''obj-9'', so_SchemaId = ''builtin:x'',
                so_ExternalId = ''monaco:builtin:x|c'', so_Scope = ''HOST-1'',
                so_Content = ''{old}''\<rparr>;
        manual = \<lparr>so_ObjectId = ''obj-5'', so_SchemaId = ''builtin:x'',
                  so_ExternalId = ''manual'', so_Scope = ''environment'',
                  so_Content = ''{old}''\<rparr>
    in generateLegacyExternalId hash ''builtin:x'' ''c'' = ''monaco:builtin:x|c''
       \<and> generateExternalId hash (rq_Coordinate obj) = ''monaco:p|builtin:x|c''
       \<and> UpsertSettings hash nid [old, cur] obj
           = (''obj-8'',
              [old,
               \<lparr>so_ObjectId = ''obj-8'', so_SchemaId = ''builtin:x'',
                so_ExternalId = ''monaco:p|builtin:x|c'', so_Scope = ''environment'',
                so_Content = ''{new}''\<rparr>])
       \<and> UpsertSettings hash nid [old, twin] obj
           = (''obj-7'',
              [\<lparr>so_ObjectId = ''obj-7'', so_SchemaId = ''builtin:x'',
                so_ExternalId = ''monaco:p|builtin:x|c'', so_Scope = ''environment'',
                so_Content = ''{new}''\<rparr>,
               twin])
       \<and> UpsertSettings hash nid [old, manual] pinned
           = (''obj-5'',
              [old,
               \<lparr>so_ObjectId = ''obj-5'', so_SchemaId = ''builtin:x'',
                so_ExternalId = ''monaco:p|builtin:x|c'', so_Scope = ''environment'',
                so_Content = ''{new}''\<rparr>])
       \<and> so_SchemaId old = ''builtin:x'' \<and> so_ExternalId old = ''monaco:builtin:x|c''
       \<and> so_SchemaId twin = ''builtin:x'' \<and> so_ExternalId twin = ''monaco:builtin:x|c'')"
proof -
  define hash :: "string \<Rightarrow> string" where "hash = (\<lambda>s. s)"
  define nid :: "DownloadSettingsObject list \<Rightarrow> string" where "nid = (\<lambda>s. ''fresh'')"
  define obj where "obj = \<lparr>rq_Coordinate = \<lparr>Project = ''p'', Type = ''builtin:x'', ConfigId = ''c''\<rparr>,
               rq_SchemaId = ''builtin:x'', rq_SchemaVersion = ''1.0'',
               rq_Scope = ''environment'', rq_Content = ''{new}'', rq_OriginObjectId = ''''\<rparr>"
  define pinned where "pinned = \<lparr>rq_Coordinate = \<lparr>Project = ''p'', Type = ''builtin:x'', ConfigId = ''c''\<rparr>,
               rq_SchemaId = ''builtin:x'', rq_SchemaVersion = ''1.0'',
               rq_Scope = ''environment'', rq_Content = ''{new}'',
               rq_OriginObjectId = ''obj-5''\<rparr>"
  define old where "old = \<lparr>so_ObjectId = ''obj-7'', so_SchemaId = ''builtin:x'',
               so_ExternalId = ''monaco:builtin:x|c'', so_Scope = ''environment'',
               so_Content = ''{old}''\<rparr>"
  define cur where "cur = \<lparr>so_ObjectId = ''obj-8'', so_SchemaId = ''builtin:x'',
               so_ExternalId = ''monaco:p|builtin:x|c'', so_Scope = ''environment'',
               so_Content = ''{old}''\<rparr>"
  define twin where "twin = \<lparr>so_ObjectId = ''obj-9'', so_SchemaId = ''builtin:x'',
                so_ExternalId = ''monaco:builtin:x|c'', so_Scope = ''HOST-1'',
                so_Content = ''{old}''\<rparr>"
  define manual where "manual = \<lparr>so_ObjectId = ''obj-5'', so_SchemaId = ''builtin:x'',
                  so_ExternalId = ''manual'', so_Scope = ''environment'',
                  so_Content = ''{old}''\<rparr>"
  have leg: "generateLegacyExternalId hash ''builtin:x'' ''c'' = ''monaco:builtin:x|c''"
    by (simp add: generateLegacyExternalId_def hash_def)
  have ext: "generateExternalId hash (rq_Coordinate obj) = ''monaco:p|builtin:x|c''"
    "generateExternalId hash (rq_Coordinate pinned) = ''monaco:p|builtin:x|c''"
    by (simp_all add: generateExternalId_def hash_def obj_def pinned_def)
  have o: "Type (rq_Coordinate obj) = ''builtin:x''" "ConfigId (rq_Coordinate obj) = ''c''"
    "rq_SchemaId obj = ''builtin:x''" "rq_OriginObjectId obj = ''''"
    "rq_Scope obj = ''environment''" "rq_Content obj = ''{new}''"
    by (simp_all add: obj_def)
  have p: "Type (rq_Coordinate pinned) = ''builtin:x''" "ConfigId (rq_Coordinate pinned) = ''c''"
    "rq_SchemaId pinned = ''builtin:x''" "rq_OriginObjectId pinned = ''obj-5''"
    "rq_Scope pinned = ''environment''" "rq_Content pinned = ''{new}''"
    by (simp_all add: pinned_def)
  have s: "so_SchemaId old = ''builtin:x''" "so_ExternalId old = ''monaco:builtin:x|c''"
    "so_ObjectId old = ''obj-7''"
    "so_SchemaId cur = ''builtin:x''" "so_ExternalId cur = ''monaco:p|builtin:x|c''"
    "so_ObjectId cur = ''obj-8''"
    "so_SchemaId twin = ''builtin:x''" "so_ExternalId twin = ''monaco:builtin:x|c''"
    "so_ObjectId twin = ''obj-9''"
    "so_SchemaId manual = ''builtin:x''" "so_ExternalId manual = ''manual''"
    "so_ObjectId manual = ''obj-5''"
    by (simp_all add: old_def cur_def twin_def manual_def)
  have u1: "UpsertSettings hash nid [old, cur] obj
           = (''obj-8'',
              [old,
               \<lparr>so_ObjectId = ''obj-8'', so_SchemaId = ''builtin:x'',
                so_ExternalId = ''monaco:p|builtin:x|c'', so_Scope = ''environment'',
                so_Content = ''{new}''\<rparr>])"
    by (simp add: UpsertSettings_def Let_def ext leg o s putSettingsObject_def)
  have u2: "UpsertSettings hash nid [old, twin] obj
           = (''obj-7'',
              [\<lparr>so_ObjectId = ''obj-7'', so_SchemaId = ''builtin:x'',
                so_ExternalId = ''monaco:p|builtin:x|c'', so_Scope = ''environment'',
                so_Content = ''{new}''\<rparr>,
               twin])"
    by (simp add: UpsertSettings_def Let_def ext leg o s putSettingsObject_def)
  have u3: "UpsertSettings hash nid [old, manual] pinned
           = (''obj-5'',
              [old,
               \<lparr>so_ObjectId = ''obj-5'', so_SchemaId = ''builtin:x'',
                so_ExternalId = ''monaco:p|builtin:x|c'', so_Scope = ''environment'',
                so_Content = ''{new}''\<rparr>])"
    by (simp add: UpsertSettings_def Let_def ext leg p s putSettingsObject_def)
  from leg ext(1) u1 u2 u3 s show ?thesis
    unfolding Let_def hash_def[symmetric] nid_def[symmetric] obj_def[symmetric]
      pinned_def[symmetric] old_def[symmetric] cur_def[symmetric] twin_def[symmetric]
      manual_def[symmetric]
    by simp
qed

text \<open>
  C1 (amended): take a configuration without a pinned origin object id and a server
  (object ids distinct) on which exactly one settings object of the schema carries the
  legacy external id and none carries the new one. The upsert then writes to that object:
  the id returned is its object id, the object with that id carries the new external id
  and the configuration's scope and content afterwards, no object is added, exactly one
  object of the schema carries the new external id and none carries the legacy one. A
  second run finds the object by the new id and changes nothing.
\<close>

theorem C1_legacy_external_id_migrated:
  assumes "rq_OriginObjectId obj = ''''"
    and "distinct (map so_ObjectId store)"
    and "filter (\<lambda>x. so_SchemaId x = rq_SchemaId obj
                  \<and> so_ExternalId x = generateLegacyExternalId hash (Type (rq_Coordinate obj))
                        (ConfigId (rq_Coordinate obj))) store = [old]"
    and "filter (\<lambda>x. so_SchemaId x = rq_SchemaId obj
                  \<and> so_ExternalId x = generateExternalId hash (rq_Coordinate obj)) store = []"
  shows "fst (UpsertSettings hash newObjectId store obj) = so_ObjectId old
     \<and> \<lparr>so_ObjectId = so_ObjectId old, so_SchemaId = rq_SchemaId obj,
         so_ExternalId = generateExternalId hash (rq_Coordinate obj),
         so_Scope = rq_Scope obj, so_Content = rq_Content obj\<rparr>
           \<in> set (snd (UpsertSettings hash newObjectId store obj))
     \<and> length (snd (UpsertSettings hash newObjectId store obj)) = length store
     \<and> length (filter (\<lambda>x. so_SchemaId x = rq_SchemaId obj
                  \<and> so_ExternalId x = generateExternalId hash (rq_Coordinate obj))
                (snd (UpsertSettings hash newObjectId store obj))) = 1
     \<and> filter (\<lambda>x. so_SchemaId x = rq_SchemaId obj
                  \<and> so_ExternalId x = generateLegacyExternalId hash (Type (rq_Coordinate obj))
                        (ConfigId (rq_Coordinate obj)))
          (snd (UpsertSettings hash newObjectId store obj)) = []
     \<and> UpsertSettings hash newObjectId (snd (UpsertSettings hash newObjectId store obj)) obj
         = UpsertSettings hash newObjectId store obj"
proof -
  let ?ext = "generateExternalId hash (rq_Coordinate obj)"
  let ?leg = "generateLegacyExternalId hash (Type (rq_Coordinate obj))
                (ConfigId (rq_Coordinate obj))"
  let ?S = "\<lambda>x. so_SchemaId x = rq_SchemaId obj"
  let ?N = "\<lparr>so_ObjectId = so_ObjectId old, so_SchemaId = rq_SchemaId obj,
             so_ExternalId = ?ext, so_Scope = rq_Scope obj, so_Content = rq_Content obj\<rparr>"
  have ne: "?ext \<noteq> ?leg"
  proof
    assume "?ext = ?leg"
    with assms(3,4) show False by simp
  qed
  have fe: "find (\<lambda>x. so_ExternalId x = ?ext) (filter ?S store) = None"
  proof -
    have "filter (\<lambda>x. so_ExternalId x = ?ext) (filter ?S store) = []"
      using assms(4) by (simp add: conj_commute)
    then show ?thesis by (auto simp: find_None_iff filter_empty_conv)
  qed
  have fl: "find (\<lambda>x. so_ExternalId x = ?leg) (filter ?S store) = Some old"
  proof (rule find_only)
    show "filter (\<lambda>x. so_ExternalId x = ?leg) (filter ?S store) = [old]"
      using assms(3) by (simp add: conj_commute)
  qed
  have u: "UpsertSettings hash newObjectId store obj = (so_ObjectId old, putSettingsObject ?N store)"
    by (simp add: UpsertSettings_def Let_def assms(1) fe fl)
  from assms(3) have "old \<in> set (filter (\<lambda>x. ?S x \<and> so_ExternalId x = ?leg) store)" by simp
  then have old: "old \<in> set store" "?S old" "so_ExternalId old = ?leg" by auto
  then have mem: "so_ObjectId ?N \<in> so_ObjectId ` set store" by auto
  then have p: "putSettingsObject ?N store
      = map (\<lambda>x. if so_ObjectId x = so_ObjectId ?N then ?N else x) store"
    by (simp add: putSettingsObject_def)
  have k: "so_ObjectId ?N = so_ObjectId old" by simp
  note rc = replace_count_key[OF assms(2) old(1) k]
  have c1: "length (filter (\<lambda>x. ?S x \<and> so_ExternalId x = ?ext) (putSettingsObject ?N store)) = 1"
    using rc[of "\<lambda>x. ?S x \<and> so_ExternalId x = ?ext"] ne assms(4) old(3)
    unfolding p by simp
  have c2: "filter (\<lambda>x. ?S x \<and> so_ExternalId x = ?leg) (putSettingsObject ?N store) = []"
  proof -
    have "length (filter (\<lambda>x. ?S x \<and> so_ExternalId x = ?leg) (putSettingsObject ?N store)) = 0"
      using rc[of "\<lambda>x. ?S x \<and> so_ExternalId x = ?leg"] ne assms(3) old(2,3)
      unfolding p by simp
    then show ?thesis by simp
  qed
  have len: "length (putSettingsObject ?N store) = length store" unfolding p by simp
  have again: "UpsertSettings hash newObjectId (putSettingsObject ?N store) obj
      = (so_ObjectId old, putSettingsObject ?N store)"
  proof -
    have "?N \<in> set (filter (\<lambda>x. ?S x \<and> so_ExternalId x = ?ext) (putSettingsObject ?N store))"
      using putSettingsObject_member[of ?N store] by simp
    moreover from c1 obtain y where
      y: "filter (\<lambda>x. ?S x \<and> so_ExternalId x = ?ext) (putSettingsObject ?N store) = [y]"
      by (auto simp: length_Suc_conv)
    ultimately have "filter (\<lambda>x. ?S x \<and> so_ExternalId x = ?ext) (putSettingsObject ?N store) = [?N]"
      by simp
    then have "filter (\<lambda>x. so_ExternalId x = ?ext) (filter ?S (putSettingsObject ?N store)) = [?N]"
      by (simp add: conj_commute)
    then have "find (\<lambda>x. so_ExternalId x = ?ext) (filter ?S (putSettingsObject ?N store)) = Some ?N"
      by (rule find_only)
    then show ?thesis
      by (simp add: UpsertSettings_def Let_def assms(1) putSettingsObject_again)
  qed
  have m: "?N \<in> set (putSettingsObject ?N store)" by (rule putSettingsObject_member)
  from m len c1 c2 again show ?thesis unfolding u fst_conv snd_conv by (intro conjI refl)
qed

theorem C1_legacy_external_id_migrated_witness:
  "(let hash = (\<lambda>s. s);
        obj = \<lparr>rq_Coordinate = \<lparr>Project = ''p'', Type = ''builtin:x'', ConfigId = ''c''\<rparr>,
               rq_SchemaId = ''builtin:x'', rq_SchemaVersion = ''1.0'',
               rq_Scope = ''environment'', rq_Content = ''{}'', rq_OriginObjectId = ''''\<rparr>;
        old = \<lparr>so_ObjectId = ''obj-7'', so_SchemaId = ''builtin:x'',
               so_ExternalId = ''monaco:builtin:x|c'', so_Scope = ''environment'',
               so_Content = ''{}''\<rparr>
    in rq_OriginObjectId obj = ''''
       \<and> distinct (map so_ObjectId [old])
       \<and> generateExternalId hash (rq_Coordinate obj) = ''monaco:p|builtin:x|c''
       \<and> generateLegacyExternalId hash (Type (rq_Coordinate obj)) (ConfigId (rq_Coordinate obj))
           = ''monaco:builtin:x|c''
       \<and> UpsertSettings hash (\<lambda>s. ''fresh'') [old] obj
           = (''obj-7'', [\<lparr>so_ObjectId = ''obj-7'', so_SchemaId = ''builtin:x'',
               so_ExternalId = ''monaco:p|builtin:x|c'', so_Scope = ''environment'',
               so_Content = ''{}''\<rparr>]))"
  using C1_legacy_external_id_migrated
    [of "\<lparr>rq_Coordinate = \<lparr>Project = ''p'', Type = ''builtin:x'', ConfigId = ''c''\<rparr>,
               rq_SchemaId = ''builtin:x'', rq_SchemaVersion = ''1.0'',
               rq_Scope = ''environment'', rq_Content = ''{}'', rq_OriginObjectId = ''''\<rparr>"
        "[\<lparr>so_ObjectId = ''obj-7'', so_SchemaId = ''builtin:x'',
               so_ExternalId = ''monaco:builtin:x|c'', so_Scope = ''environment'',
               so_Content = ''{}''\<rparr>]"
        "\<lambda>s. s"
        "\<lparr>so_ObjectId = ''obj-7'', so_SchemaId = ''builtin:x'',
               so_ExternalId = ''monaco:builtin:x|c'', so_Scope = ''environment'',
               so_Content = ''{}''\<rparr>"
        "\<lambda>s. ''fresh''"]
  by (simp add: Let_def UpsertSettings_def putSettingsObject_def generateExternalId_def
      generateLegacyExternalId_def)

section \<open>Properties of the adapter for non-unique names\<close>

lemma putConfig_member: "obj \<in> set (putConfig obj store)"
  by (auto simp: putConfig_def)

lemma putConfig_only:
  assumes "x \<in> set (putConfig obj store)" "v_Id x = v_Id obj"
  shows "x = obj"
proof (cases "v_Id obj \<in> v_Id ` set store")
  case True
  with assms(1) obtain y where y: "y \<in> set store"
      "x = (if v_Id y = v_Id obj then obj else y)"
    by (auto simp: putConfig_def)
  show ?thesis
  proof (cases "v_Id y = v_Id obj")
    case True
    with y show ?thesis by simp
  next
    case False
    with y assms(2) show ?thesis by simp
  qed
next
  case False
  with assms(1) have "x \<in> set store \<or> x = obj" by (auto simp: putConfig_def)
  moreover have "x \<notin> set store" using False assms(2) by (metis imageI)
  ultimately show ?thesis by simp
qed

lemma putConfig_ids:
  "map v_Id (putConfig obj store)
     = (if v_Id obj \<in> v_Id ` set store then map v_Id store else map v_Id store @ [v_Id obj])"
  by (simp add: putConfig_def)

lemma putConfig_distinct:
  "distinct (map v_Id store) \<Longrightarrow> distinct (map v_Id (putConfig obj store))"
  by (simp add: putConfig_ids)

lemma putConfig_again: "putConfig obj (putConfig obj store) = putConfig obj store"
proof -
  have "v_Id obj \<in> v_Id ` set (putConfig obj store)"
    using putConfig_member[of obj store] by blast
  then have "putConfig obj (putConfig obj store)
      = map (\<lambda>x. if v_Id x = v_Id obj then obj else x) (putConfig obj store)"
    by (simp add: putConfig_def)
  also have "\<dots> = putConfig obj store"
    by (rule map_idI) (auto dest: putConfig_only)
  finally show ?thesis .
qed

lemma replace_count_mono:
  "P obj \<Longrightarrow> length (filter P xs)
     \<le> length (filter P (map (\<lambda>x. if v_Id x = v_Id obj then obj else x) xs))"
  by (induction xs) auto

lemma putConfig_count_mono:
  "P obj \<Longrightarrow> length (filter P store) \<le> length (filter P (putConfig obj store))"
  using replace_count_mono[of P obj store] by (simp add: putConfig_def)

lemma putConfig_length:
  "length (putConfig obj store)
     = (if v_Id obj \<in> v_Id ` set store then length store else length store + 1)"
  by (simp add: putConfig_def)

lemma upsert_many:
  assumes "2 \<le> length (filter (\<lambda>x. v_Name x = name) store)"
  shows "UpsertConfigByNonUniqueNameAndId store D name payload
     = (\<lparr>de_Id = D, de_Name = name\<rparr>,
        putConfig \<lparr>v_Id = D, v_Name = name, v_Payload = payload\<rparr> store)"
proof (cases "filter (\<lambda>x. v_Name x = name) store")
  case Nil
  with assms show ?thesis by simp
next
  case (Cons a as)
  with assms obtain b bs where "as = b # bs" by (cases as) auto
  with Cons show ?thesis by (simp add: UpsertConfigByNonUniqueNameAndId_def Let_def)
qed

lemma upsert_one:
  assumes "filter (\<lambda>x. v_Name x = name) store = [e]"
  shows "UpsertConfigByNonUniqueNameAndId store D name payload
     = (\<lparr>de_Id = v_Id e, de_Name = name\<rparr>,
        putConfig \<lparr>v_Id = v_Id e, v_Name = name, v_Payload = payload\<rparr> store)"
  using assms by (simp add: UpsertConfigByNonUniqueNameAndId_def Let_def)

text \<open>
  C2: on a server whose objects have distinct ids, an upsert with the name \<open>name\<close> and the
  deterministic UUID \<open>D\<close> behaves as follows. If exactly one object has that name and its
  id differs from \<open>D\<close>, that object is updated: its id is returned, the object with that id
  carries the name and the payload afterwards, every other object is as it was, one object
  has the name afterwards and no object is added. If two or more objects have that name, the id
  returned is \<open>D\<close> and the object with id \<open>D\<close> carries the name and the payload afterwards;
  it is added when no object had the id \<open>D\<close> (one object more, one more of that name) and
  replaces the object with id \<open>D\<close> otherwise; and running the same upsert again returns
  \<open>D\<close> again and changes nothing.
\<close>

theorem C2_non_unique_name_upsert:
  assumes "distinct (map v_Id store)"
  shows "(filter (\<lambda>x. v_Name x = name) store = [e] \<and> v_Id e \<noteq> D \<longrightarrow>
            de_Id (fst (UpsertConfigByNonUniqueNameAndId store D name payload)) = v_Id e
            \<and> \<lparr>v_Id = v_Id e, v_Name = name, v_Payload = payload\<rparr>
                \<in> set (snd (UpsertConfigByNonUniqueNameAndId store D name payload))
            \<and> snd (UpsertConfigByNonUniqueNameAndId store D name payload)
                = map (\<lambda>x. if x = e then \<lparr>v_Id = v_Id e, v_Name = name, v_Payload = payload\<rparr>
                            else x) store
            \<and> length (filter (\<lambda>x. v_Name x = name)
                 (snd (UpsertConfigByNonUniqueNameAndId store D name payload))) = 1
            \<and> length (snd (UpsertConfigByNonUniqueNameAndId store D name payload))
                = length store)
     \<and> (2 \<le> length (filter (\<lambda>x. v_Name x = name) store) \<longrightarrow>
            de_Id (fst (UpsertConfigByNonUniqueNameAndId store D name payload)) = D
            \<and> \<lparr>v_Id = D, v_Name = name, v_Payload = payload\<rparr>
                \<in> set (snd (UpsertConfigByNonUniqueNameAndId store D name payload))
            \<and> (if D \<in> v_Id ` set store
                then length (snd (UpsertConfigByNonUniqueNameAndId store D name payload))
                       = length store
                else length (snd (UpsertConfigByNonUniqueNameAndId store D name payload))
                       = length store + 1
                     \<and> length (filter (\<lambda>x. v_Name x = name)
                          (snd (UpsertConfigByNonUniqueNameAndId store D name payload)))
                       = length (filter (\<lambda>x. v_Name x = name) store) + 1)
            \<and> UpsertConfigByNonUniqueNameAndId
                 (snd (UpsertConfigByNonUniqueNameAndId store D name payload)) D name payload
               = (\<lparr>de_Id = D, de_Name = name\<rparr>,
                  snd (UpsertConfigByNonUniqueNameAndId store D name payload)))"
proof (intro conjI impI)
  assume a: "filter (\<lambda>x. v_Name x = name) store = [e] \<and> v_Id e \<noteq> D"
  let ?obj = "\<lparr>v_Id = v_Id e, v_Name = name, v_Payload = payload\<rparr>"
  from a have u: "UpsertConfigByNonUniqueNameAndId store D name payload
      = (\<lparr>de_Id = v_Id e, de_Name = name\<rparr>, putConfig ?obj store)"
    by (simp add: upsert_one)
  from a have "e \<in> set (filter (\<lambda>x. v_Name x = name) store)" by simp
  then have e: "e \<in> set store" "v_Name e = name" by auto
  then have mem: "v_Id ?obj \<in> v_Id ` set store" by auto
  then have p: "putConfig ?obj store
      = map (\<lambda>x. if v_Id x = v_Id ?obj then ?obj else x) store"
    by (simp add: putConfig_def)
  have "length (filter (\<lambda>x. v_Name x = name) (putConfig ?obj store))
      = length (filter (\<lambda>x. v_Name x = name) store)"
    unfolding p
    using replace_count_key[OF assms e(1), of ?obj "\<lambda>x. v_Name x = name"] e(2)
    by simp
  with a have c: "length (filter (\<lambda>x. v_Name x = name) (putConfig ?obj store)) = 1" by simp
  show "de_Id (fst (UpsertConfigByNonUniqueNameAndId store D name payload)) = v_Id e"
    by (simp add: u)
  show "?obj \<in> set (snd (UpsertConfigByNonUniqueNameAndId store D name payload))"
    by (simp add: u putConfig_member)
  have "map (\<lambda>x. if v_Id x = v_Id ?obj then ?obj else x) store
      = map (\<lambda>x. if x = e then ?obj else x) store"
  proof (rule map_cong[OF refl])
    fix x
    assume "x \<in> set store"
    with assms e(1) have "v_Id x = v_Id e \<longleftrightarrow> x = e"
      by (auto simp: distinct_map inj_on_def)
    then show "(if v_Id x = v_Id ?obj then ?obj else x) = (if x = e then ?obj else x)"
      by simp
  qed
  then show "snd (UpsertConfigByNonUniqueNameAndId store D name payload)
      = map (\<lambda>x. if x = e then ?obj else x) store"
    by (simp add: u p)
  show "length (filter (\<lambda>x. v_Name x = name)
          (snd (UpsertConfigByNonUniqueNameAndId store D name payload))) = 1"
    using c by (simp add: u)
  show "length (snd (UpsertConfigByNonUniqueNameAndId store D name payload)) = length store"
    using mem by (simp add: u putConfig_length)
next
  assume a: "2 \<le> length (filter (\<lambda>x. v_Name x = name) store)"
  let ?obj = "\<lparr>v_Id = D, v_Name = name, v_Payload = payload\<rparr>"
  note u = upsert_many[OF a, of D payload]
  show "de_Id (fst (UpsertConfigByNonUniqueNameAndId store D name payload)) = D"
    by (simp add: u)
  show "?obj \<in> set (snd (UpsertConfigByNonUniqueNameAndId store D name payload))"
    by (simp add: u putConfig_member)
  show "if D \<in> v_Id ` set store
        then length (snd (UpsertConfigByNonUniqueNameAndId store D name payload))
               = length store
        else length (snd (UpsertConfigByNonUniqueNameAndId store D name payload))
               = length store + 1
             \<and> length (filter (\<lambda>x. v_Name x = name)
                  (snd (UpsertConfigByNonUniqueNameAndId store D name payload)))
               = length (filter (\<lambda>x. v_Name x = name) store) + 1"
    by (simp add: u putConfig_def)
  have "length (filter (\<lambda>x. v_Name x = name) store)
      \<le> length (filter (\<lambda>x. v_Name x = name) (putConfig ?obj store))"
    by (rule putConfig_count_mono) simp
  with a have "2 \<le> length (filter (\<lambda>x. v_Name x = name) (putConfig ?obj store))" by simp
  from upsert_many[OF this, of D payload]
  show "UpsertConfigByNonUniqueNameAndId
          (snd (UpsertConfigByNonUniqueNameAndId store D name payload)) D name payload
        = (\<lparr>de_Id = D, de_Name = name\<rparr>,
           snd (UpsertConfigByNonUniqueNameAndId store D name payload))"
    by (simp add: u putConfig_again)
qed

theorem C2_non_unique_name_upsert_witness:
  "(let r = \<lparr>v_Id = ''r-1'', v_Name = ''profile'', v_Payload = ''{old}''\<rparr>;
        a = \<lparr>v_Id = ''a-2'', v_Name = ''profile'', v_Payload = ''{old}''\<rparr>;
        d = \<lparr>v_Id = ''d-0'', v_Name = ''profile'', v_Payload = ''{new}''\<rparr>
    in distinct (map v_Id [r]) \<and> distinct (map v_Id [r, a])
       \<and> UpsertConfigByNonUniqueNameAndId [r] ''d-0'' ''profile'' ''{new}''
           = (\<lparr>de_Id = ''r-1'', de_Name = ''profile''\<rparr>,
              [\<lparr>v_Id = ''r-1'', v_Name = ''profile'', v_Payload = ''{new}''\<rparr>])
       \<and> UpsertConfigByNonUniqueNameAndId [r, a] ''d-0'' ''profile'' ''{new}''
           = (\<lparr>de_Id = ''d-0'', de_Name = ''profile''\<rparr>, [r, a, d])
       \<and> UpsertConfigByNonUniqueNameAndId [r, a, d] ''d-0'' ''profile'' ''{new}''
           = (\<lparr>de_Id = ''d-0'', de_Name = ''profile''\<rparr>, [r, a, d]))"
  using C2_non_unique_name_upsert
    [of "[\<lparr>v_Id = ''r-1'', v_Name = ''profile'', v_Payload = ''{old}''\<rparr>]"
        "''profile''" "\<lparr>v_Id = ''r-1'', v_Name = ''profile'', v_Payload = ''{old}''\<rparr>"
        "''d-0''" "''{new}''"]
    C2_non_unique_name_upsert
    [of "[\<lparr>v_Id = ''r-1'', v_Name = ''profile'', v_Payload = ''{old}''\<rparr>,
          \<lparr>v_Id = ''a-2'', v_Name = ''profile'', v_Payload = ''{old}''\<rparr>]"
        "''profile''" "\<lparr>v_Id = ''r-1'', v_Name = ''profile'', v_Payload = ''{old}''\<rparr>"
        "''d-0''" "''{new}''"]
  by (simp add: Let_def UpsertConfigByNonUniqueNameAndId_def putConfig_def)

section \<open>Properties of the parameter sort\<close>

lemma cycle_successor:
  assumes "(a, a) \<in> R\<^sup>+"
  shows "\<exists>b. (a, b) \<in> R \<and> (b, b) \<in> R\<^sup>+"
proof -
  from assms obtain b where b: "(a, b) \<in> R" "(b, a) \<in> R\<^sup>*" by (blast dest: tranclD)
  from b(2) b(1) have "(b, b) \<in> R\<^sup>+" by (rule rtrancl_into_trancl1)
  with b(1) show ?thesis by blast
qed

lemma cycle_start:
  assumes "(a, a) \<in> R\<^sup>+"
  shows "\<exists>b. (a, b) \<in> R"
  using assms by (blast dest: tranclD)

text \<open>
  A parameter on a cycle is never ready while no parameter on a cycle has been put in
  order: it refers to another parameter on a cycle.
\<close>

lemma cycle_parameter_not_ready:
  assumes dist: "distinct (map fst (cfg_Parameters conf))"
    and np: "np \<in> set (cfg_Parameters conf)"
    and cyc: "onParameterCycle conf (fst np)"
    and inv: "\<forall>c \<in> fst ` set ordered. \<not> onParameterCycle conf c"
  shows "\<not> ready (cfg_Coordinate conf) (cfg_Parameters conf) ordered np"
proof
  assume r: "ready (cfg_Coordinate conf) (cfg_Parameters conf) ordered np"
  from cyc obtain b where b: "(fst np, b) \<in> parameterDependencies conf"
      "onParameterCycle conf b"
    unfolding onParameterCycle_def by (blast dest: cycle_successor)
  from b(1) obtain p where p: "(fst np, p) \<in> set (cfg_Parameters conf)"
      "b \<in> set (ownReferences (cfg_Coordinate conf) (cfg_Parameters conf) p)"
    unfolding parameterDependencies_def by blast
  have "np = (fst np, snd np)" by simp
  with np have "(fst np, snd np) \<in> set (cfg_Parameters conf)" by simp
  with p(1) dist have "p = snd np" by (meson eq_key_imp_eq_value)
  with p(2) r have "b \<in> fst ` set ordered"
    by (simp add: ready_def list_all_iff)
  with inv b(2) show False by blast
qed

lemma sortLoop_cycle:
  assumes dist: "distinct (map fst (cfg_Parameters conf))"
    and a: "onParameterCycle conf a"
  shows "set remaining \<subseteq> set (cfg_Parameters conf) \<Longrightarrow>
         \<forall>c \<in> fst ` set ordered. \<not> onParameterCycle conf c \<Longrightarrow>
         \<forall>c. onParameterCycle conf c \<longrightarrow> c \<in> fst ` set remaining \<Longrightarrow>
         coord = cfg_Coordinate conf \<Longrightarrow> params = cfg_Parameters conf \<Longrightarrow>
         \<exists>names. sortLoop coord params remaining ordered = Inl (CyclicParameterDependency names)
            \<and> (\<forall>c. onParameterCycle conf c \<longrightarrow> c \<in> set names)"
proof (induction coord params remaining ordered rule: sortLoop.induct)
  case (1 coord params remaining ordered)
  note sub = "1.prems"(1) and inv = "1.prems"(2) and all = "1.prems"(3)
    and co = "1.prems"(4) and pa = "1.prems"(5)
  from all a have ne: "remaining \<noteq> []" by auto
  have notready: "\<not> ready coord params ordered np"
    if "np \<in> set remaining" "onParameterCycle conf (fst np)" for np
    unfolding co pa
    using that sub inv by (intro cycle_parameter_not_ready[OF dist]) auto
  show ?case
  proof (cases "filter (ready coord params ordered) remaining = []")
    case True
    with ne have "sortLoop coord params remaining ordered
        = Inl (CyclicParameterDependency (map fst remaining))"
      by (subst sortLoop.simps) simp
    with all show ?thesis by simp
  next
    case False
    let ?rem = "filter (\<lambda>np. \<not> ready coord params ordered np) remaining"
    let ?ord = "ordered @ filter (ready coord params ordered) remaining"
    have step: "sortLoop coord params remaining ordered = sortLoop coord params ?rem ?ord"
      using ne False by (subst sortLoop.simps) simp
    have s1: "set ?rem \<subseteq> set (cfg_Parameters conf)" using sub by auto
    have s2: "\<forall>c \<in> fst ` set ?ord. \<not> onParameterCycle conf c"
    proof
      fix c
      assume "c \<in> fst ` set ?ord"
      then consider "c \<in> fst ` set ordered"
        | np where "np \<in> set remaining" "ready coord params ordered np" "c = fst np"
        by auto
      then show "\<not> onParameterCycle conf c"
      proof cases
        case 1
        with inv show ?thesis by blast
      next
        case 2
        with notready show ?thesis by blast
      qed
    qed
    have s3: "\<forall>c. onParameterCycle conf c \<longrightarrow> c \<in> fst ` set ?rem"
    proof (intro allI impI)
      fix c
      assume c: "onParameterCycle conf c"
      with all obtain np where np: "np \<in> set remaining" "c = fst np" by auto
      with c notready have "\<not> ready coord params ordered np" by blast
      with np show "c \<in> fst ` set ?rem" by auto
    qed
    from "1.IH"[OF ne False s1 s2 s3 co pa] show ?thesis unfolding step .
  qed
qed

lemma cycle_is_parameter:
  assumes "onParameterCycle conf c"
  shows "c \<in> fst ` set (cfg_Parameters conf)"
proof -
  from assms obtain b where "(c, b) \<in> parameterDependencies conf"
    unfolding onParameterCycle_def by (blast dest: cycle_start)
  then show ?thesis unfolding parameterDependencies_def by force
qed

text \<open>
  C4: for a configuration whose parameters have distinct names and one of whose parameters
  is on a reference cycle, the parameter sort returns a \<open>CyclicParameterDependency\<close> error
  that names every parameter on a cycle, and \<open>Deploy\<close> returns that error with the network
  left as it was, whatever the resolver, the renderer and the adapter are: the error comes
  from the sort, before anything is rendered or upserted.
\<close>

theorem C4_cyclic_parameters_rejected:
  assumes "distinct (map fst (cfg_Parameters conf))"
    and "onParameterCycle conf a"
  shows "\<exists>names. sortParameters conf = Inl (CyclicParameterDependency names)
     \<and> a \<in> set names
     \<and> (\<forall>c. onParameterCycle conf c \<longrightarrow> c \<in> set names)
     \<and> Deploy resolveValues render upsert conf net = (Inl (CyclicParameterDependency names), net)"
proof -
  have "\<exists>names. sortLoop (cfg_Coordinate conf) (cfg_Parameters conf) (cfg_Parameters conf) []
            = Inl (CyclicParameterDependency names)
         \<and> (\<forall>c. onParameterCycle conf c \<longrightarrow> c \<in> set names)"
    by (rule sortLoop_cycle[OF assms]) (auto dest: cycle_is_parameter)
  then obtain names where n: "sortParameters conf = Inl (CyclicParameterDependency names)"
      "\<forall>c. onParameterCycle conf c \<longrightarrow> c \<in> set names"
    unfolding sortParameters_def by blast
  from n(1) have "Deploy resolveValues render upsert conf net
      = (Inl (CyclicParameterDependency names), net)"
    by (simp add: Deploy_def)
  with n assms(2) show ?thesis by blast
qed

theorem C4_cyclic_parameters_rejected_witness:
  "(let zero = \<lparr>Project = '''', Type = '''', ConfigId = ''''\<rparr>;
        conf = \<lparr>cfg_Template = ''{}'', cfg_Coordinate = zero,
                cfg_Group = '''', cfg_Environment = '''', cfg_Type = ClassicApiType '''',
                cfg_Parameters =
                  [(''name'', DummyParameter [\<lparr>ref_Config = zero, ref_Property = ''owner''\<rparr>]),
                   (''owner'', DummyParameter [\<lparr>ref_Config = zero, ref_Property = ''name''\<rparr>])],
                cfg_Skip = False, cfg_OriginObjectId = ''''\<rparr>;
        upsert = (\<lambda>payload net.
                    (Inr \<lparr>re_Coordinate = zero, re_EntityName = ''n'', re_Properties = [],
                          re_Skip = False\<rparr>, net @ [payload]))
    in distinct (map fst (cfg_Parameters conf))
       \<and> onParameterCycle conf ''name''
       \<and> sortParameters conf = Inl (CyclicParameterDependency [''name'', ''owner''])
       \<and> Deploy (\<lambda>ps. Inr []) (\<lambda>t ps. Inr t) upsert conf []
           = (Inl (CyclicParameterDependency [''name'', ''owner'']), []))"
proof -
  define zero where "zero = \<lparr>Project = '''', Type = '''', ConfigId = ''''\<rparr>"
  define conf where "conf = \<lparr>cfg_Template = ''{}'', cfg_Coordinate = zero,
                cfg_Group = '''', cfg_Environment = '''', cfg_Type = ClassicApiType '''',
                cfg_Parameters =
                  [(''name'', DummyParameter [\<lparr>ref_Config = zero, ref_Property = ''owner''\<rparr>]),
                   (''owner'', DummyParameter [\<lparr>ref_Config = zero, ref_Property = ''name''\<rparr>])],
                cfg_Skip = False, cfg_OriginObjectId = ''''\<rparr>"
  define upsert :: "string \<Rightarrow> string list \<Rightarrow> (string + ResolvedEntity) \<times> string list"
    where "upsert = (\<lambda>payload net.
                    (Inr \<lparr>re_Coordinate = zero, re_EntityName = ''n'', re_Properties = [],
                          re_Skip = False\<rparr>, net @ [payload]))"
  have d: "distinct (map fst (cfg_Parameters conf))" by (simp add: conf_def)
  have o1: "ownReferences (cfg_Coordinate conf) (cfg_Parameters conf)
              (DummyParameter [\<lparr>ref_Config = zero, ref_Property = ''owner''\<rparr>]) = [''owner'']"
    by (simp add: conf_def ownReferences_def)
  have o2: "ownReferences (cfg_Coordinate conf) (cfg_Parameters conf)
              (DummyParameter [\<lparr>ref_Config = zero, ref_Property = ''name''\<rparr>]) = [''name'']"
    by (simp add: conf_def ownReferences_def)
  have m1: "(''name'', DummyParameter [\<lparr>ref_Config = zero, ref_Property = ''owner''\<rparr>])
              \<in> set (cfg_Parameters conf)"
    by (simp add: conf_def)
  have m2: "(''owner'', DummyParameter [\<lparr>ref_Config = zero, ref_Property = ''name''\<rparr>])
              \<in> set (cfg_Parameters conf)"
    by (simp add: conf_def)
  have "\<exists>p. (''name'', p) \<in> set (cfg_Parameters conf)
          \<and> ''owner'' \<in> set (ownReferences (cfg_Coordinate conf) (cfg_Parameters conf) p)"
    using m1 o1
    by (intro exI[of _ "DummyParameter [\<lparr>ref_Config = zero, ref_Property = ''owner''\<rparr>]"])
       simp
  then have e1: "(''name'', ''owner'') \<in> parameterDependencies conf"
    by (simp add: parameterDependencies_def)
  have "\<exists>p. (''owner'', p) \<in> set (cfg_Parameters conf)
          \<and> ''name'' \<in> set (ownReferences (cfg_Coordinate conf) (cfg_Parameters conf) p)"
    using m2 o2
    by (intro exI[of _ "DummyParameter [\<lparr>ref_Config = zero, ref_Property = ''name''\<rparr>]"])
       simp
  then have e2: "(''owner'', ''name'') \<in> parameterDependencies conf"
    by (simp add: parameterDependencies_def)
  from e1 e2 have cyc: "onParameterCycle conf ''name''"
    unfolding onParameterCycle_def by (meson r_into_trancl' trancl_trans)
  have s: "sortParameters conf = Inl (CyclicParameterDependency [''name'', ''owner''])"
    unfolding sortParameters_def
    by (subst sortLoop.simps) (simp add: conf_def ready_def ownReferences_def)
  from C4_cyclic_parameters_rejected[OF d cyc, of "\<lambda>ps. Inr []" "\<lambda>t ps. Inr t" upsert "[]"] s
  have "Deploy (\<lambda>ps. Inr []) (\<lambda>t ps. Inr t) upsert conf []
           = (Inl (CyclicParameterDependency [''name'', ''owner'']), [])"
    by auto
  with d cyc s show ?thesis
    unfolding Let_def zero_def[symmetric] conf_def[symmetric] upsert_def[symmetric]
    by simp
qed

end
